theory Spec2Isabelle
  imports Main
begin

section \<open>JavaScript values and strings\<close>

text \<open>
  The repository is JavaScript. Values that the code treats dynamically (JSON-LD schema
  objects, AI output) are modelled by \<open>jsv\<close>; an object is an association list in key
  order, as \<open>Object.keys\<close> enumerates it (the keys of the JSON-LD vocabulary are names, which
  are enumerated in the order of their creation).

  A string is the list of its UTF-16 code units, and a \<open>char\<close> is a code unit below
  \<open>0x100\<close>: the model covers the strings of the Latin-1 range \<open>U+0000\<close> to \<open>U+00FF\<close>,
  where \<open>length\<close> is \<open>str.length\<close> and \<open>take n\<close> is \<open>str.substring(0, n)\<close>. White space,
  letter case and the character classes of regular expressions are those of ECMAScript on
  that range. (The FAQ builder, whose answer turns on which characters are white space,
  has strings of arbitrary code units.) A number \<open>JNum n\<close> is the integer \<open>n\<close> as a JavaScript number; it is printed
  in decimal, as JavaScript prints the integers up to \<open>2^53\<close> in magnitude. Numbers with a
  fraction have no counterpart in the model.
\<close>

datatype jsv =
    JUndefined
  | JNull
  | JBool bool
  | JNum int
  | JStr string
  | JArr "jsv list"
  | JObj "(string \<times> jsv) list"

text \<open>\<open>ToBoolean\<close>: the falsy values are undefined, null, false, 0 and the empty string.\<close>

fun truthy :: "jsv \<Rightarrow> bool" where
  "truthy JUndefined = False"
| "truthy JNull = False"
| "truthy (JBool b) = b"
| "truthy (JNum n) = (n \<noteq> 0)"
| "truthy (JStr s) = (s \<noteq> [])"
| "truthy (JArr xs) = True"
| "truthy (JObj kvs) = True"

text \<open>A string-typed field that may be absent: \<open>None\<close> is \<open>undefined\<close>.\<close>

definition of_opt :: "string option \<Rightarrow> jsv" where
  "of_opt x = (case x of None \<Rightarrow> JUndefined | Some s \<Rightarrow> JStr s)"

text \<open>\<open>x || ''\<close> for a string-typed \<open>x\<close>, and the truthiness of such an \<open>x\<close>.\<close>

definition or_empty :: "string option \<Rightarrow> string" where
  "or_empty x = (case x of None \<Rightarrow> [] | Some s \<Rightarrow> s)"

definition present :: "string option \<Rightarrow> bool" where
  "present x = (or_empty x \<noteq> [])"

text \<open>Interpolation \<open>`${x}`\<close> of a string-typed \<open>x\<close>.\<close>

definition interp :: "string option \<Rightarrow> string" where
  "interp x = (case x of None \<Rightarrow> ''undefined'' | Some s \<Rightarrow> s)"

text \<open>
  White space and line terminators, which \<open>trim\<close> strips and \<open>\s\<close> matches: tab, line feed,
  vertical tab, form feed, carriage return, space and the no-break space \<open>U+00A0\<close> (the
  others, such as \<open>U+2028\<close> and \<open>U+FEFF\<close>, lie above the Latin-1 range).
\<close>

definition is_space :: "char \<Rightarrow> bool" where
  "is_space c = (c \<in> set [CHR '' '', CHR 0x09, CHR 0x0A, CHR 0x0B, CHR 0x0C, CHR 0x0D, CHR 0xA0])"

text \<open>\<open>s.trim()\<close>\<close>

definition trim :: "string \<Rightarrow> string" where
  "trim s = rev (dropWhile is_space (rev (dropWhile is_space s)))"

section \<open>Regular expressions\<close>

text \<open>
  The patterns of the source are written as terms of \<open>re\<close>. Matching follows the
  backtracking semantics of ECMAScript: \<open>rm\<close> returns every way a pattern can match at
  the current position, in the order in which the engine would try them (left alternative
  first, greedy repetition first), so the head of the list is the match JavaScript reports.
  A matcher state is the character before the position (for \<open>^\<close> and \<open>\b\<close>), the rest of
  the input and the captures made so far.
\<close>

datatype re =
    Cls "char list"       \<comment> \<open>\<open>[...]\<close>, the members listed\<close>
  | NCls "char list"      \<comment> \<open>\<open>[^...]\<close>\<close>
  | Dot                   \<comment> \<open>\<open>.\<close>\<close>
  | Lit string            \<comment> \<open>a run of literal characters\<close>
  | Seq re re
  | Alt re re             \<comment> \<open>\<open>a|b\<close>\<close>
  | Star re               \<comment> \<open>\<open>a*\<close>\<close>
  | Plus re               \<comment> \<open>\<open>a+\<close>\<close>
  | Opt re                \<comment> \<open>\<open>a?\<close>\<close>
  | Grp nat re            \<comment> \<open>capturing group number n\<close>
  | Bol                   \<comment> \<open>\<open>^\<close>\<close>
  | Eol                   \<comment> \<open>\<open>$\<close>\<close>
  | WordB                 \<comment> \<open>\<open>\b\<close>\<close>

type_synonym mstate = "char option \<times> string \<times> (nat \<times> string) list"

definition upper_chars :: "char list" where
  "upper_chars = ''ABCDEFGHIJKLMNOPQRSTUVWXYZ''"

definition lower_chars :: "char list" where
  "lower_chars = ''abcdefghijklmnopqrstuvwxyz''"

definition digit_chars :: "char list" where
  "digit_chars = ''0123456789''"

definition space_chars :: "char list" where
  "space_chars = [CHR '' '', CHR 0x09, CHR 0x0A, CHR 0x0B, CHR 0x0C, CHR 0x0D, CHR 0xA0]"

definition word_chars :: "char list" where
  "word_chars = lower_chars @ upper_chars @ digit_chars @ ''_''"

text \<open>
  Letter case on the Latin-1 range. The capitals are \<open>A\<close> to \<open>Z\<close> and \<open>U+00C0\<close> to \<open>U+00DE\<close>
  without the multiplication sign \<open>U+00D7\<close>; the small letter of each lies \<open>0x20\<close> above it.
  \<open>to_upper_char\<close> is the one-character capital that the \<open>i\<close> flag compares by: the sharp s
  \<open>U+00DF\<close> (whose capital is two characters) is its own, and so are \<open>U+00FF\<close> and
  \<open>U+00B5\<close>, the only characters of the range whose capitals lie above it.
\<close>

definition latin_upper_chars :: "char list" where
  "latin_upper_chars =
    [CHR 0xC0, CHR 0xC1, CHR 0xC2, CHR 0xC3, CHR 0xC4, CHR 0xC5, CHR 0xC6, CHR 0xC7,
     CHR 0xC8, CHR 0xC9, CHR 0xCA, CHR 0xCB, CHR 0xCC, CHR 0xCD, CHR 0xCE, CHR 0xCF,
     CHR 0xD0, CHR 0xD1, CHR 0xD2, CHR 0xD3, CHR 0xD4, CHR 0xD5, CHR 0xD6, CHR 0xD8,
     CHR 0xD9, CHR 0xDA, CHR 0xDB, CHR 0xDC, CHR 0xDD, CHR 0xDE]"

definition latin_lower_chars :: "char list" where
  "latin_lower_chars =
    [CHR 0xE0, CHR 0xE1, CHR 0xE2, CHR 0xE3, CHR 0xE4, CHR 0xE5, CHR 0xE6, CHR 0xE7,
     CHR 0xE8, CHR 0xE9, CHR 0xEA, CHR 0xEB, CHR 0xEC, CHR 0xED, CHR 0xEE, CHR 0xEF,
     CHR 0xF0, CHR 0xF1, CHR 0xF2, CHR 0xF3, CHR 0xF4, CHR 0xF5, CHR 0xF6, CHR 0xF8,
     CHR 0xF9, CHR 0xFA, CHR 0xFB, CHR 0xFC, CHR 0xFD, CHR 0xFE]"

text \<open>A code unit from \<open>0x80\<close> on.\<close>

fun high :: "char \<Rightarrow> bool" where
  "high (Char b0 b1 b2 b3 b4 b5 b6 b7) = b7"

definition to_upper_char :: "char \<Rightarrow> char" where
  "to_upper_char c =
     (case map_of (if high c then zip latin_lower_chars latin_upper_chars
                   else zip lower_chars upper_chars) c of
        Some u \<Rightarrow> u
      | None \<Rightarrow> c)"

definition to_lower_char :: "char \<Rightarrow> char" where
  "to_lower_char c =
     (case map_of (if high c then zip latin_upper_chars latin_lower_chars
                   else zip upper_chars lower_chars) c of
        Some l \<Rightarrow> l
      | None \<Rightarrow> c)"

text \<open>
  \<open>s.toUpperCase()\<close> turns the sharp s into \<open>SS\<close>. \<open>U+00FF\<close> and \<open>U+00B5\<close> are left as they
  are: their capitals lie above the range, and the sources use the result only to compare
  it with names written in ASCII or to capitalise an ASCII word character, which cannot
  tell the two apart.
\<close>

definition toUpperCase :: "string \<Rightarrow> string" where
  "toUpperCase s = concat (map (\<lambda>c. if c = CHR 0xDF then ''SS'' else [to_upper_char c]) s)"

text \<open>\<open>s.toLowerCase()\<close>\<close>

definition toLowerCase :: "string \<Rightarrow> string" where
  "toLowerCase s = map to_lower_char s"

text \<open>Character comparison; with the \<open>i\<close> flag both sides are canonicalised to upper case.\<close>

definition char_eq :: "bool \<Rightarrow> char \<Rightarrow> char \<Rightarrow> bool" where
  "char_eq ic a b = (if ic then to_upper_char a = to_upper_char b else a = b)"

definition in_cls :: "bool \<Rightarrow> char \<Rightarrow> char list \<Rightarrow> bool" where
  "in_cls ic c cs = list_ex (char_eq ic c) cs"

definition is_word :: "char option \<Rightarrow> bool" where
  "is_word x = (case x of None \<Rightarrow> False | Some c \<Rightarrow> c \<in> set word_chars)"

fun lit_match :: "bool \<Rightarrow> string \<Rightarrow> mstate \<Rightarrow> mstate list" where
  "lit_match ic [] st = [st]"
| "lit_match ic (l # ls) (p, [], k) = []"
| "lit_match ic (l # ls) (p, c # cs, k) =
     (if char_eq ic c l then lit_match ic ls (Some c, cs, k) else [])"

text \<open>
  Greedy repetition of a matcher \<open>f\<close>: one more iteration is tried before stopping, and an
  iteration that consumes nothing is rejected. Every accepted iteration shortens the input,
  so the length of the input bounds the number of iterations.
\<close>

fun star_iter :: "(mstate \<Rightarrow> mstate list) \<Rightarrow> nat \<Rightarrow> mstate \<Rightarrow> mstate list" where
  "star_iter f 0 st = [st]"
| "star_iter f (Suc n) st =
     concat (map (\<lambda>st'. if length (fst (snd st')) < length (fst (snd st))
                          then star_iter f n st' else [])
                 (f st)) @ [st]"

lemma star_iter_cong [fundef_cong]:
  "(\<And>x. f x = g x) \<Longrightarrow> n = m \<Longrightarrow> st = st' \<Longrightarrow> star_iter f n st = star_iter g m st'"
proof -
  assume "\<And>x. f x = g x" and "n = m" and "st = st'"
  then have "f = g" by auto
  with \<open>n = m\<close> \<open>st = st'\<close> show ?thesis by simp
qed

fun rm :: "bool \<Rightarrow> re \<Rightarrow> mstate \<Rightarrow> mstate list" where
  "rm ic (Cls cs) (p, s, k) =
     (case s of [] \<Rightarrow> [] | c # s' \<Rightarrow> if in_cls ic c cs then [(Some c, s', k)] else [])"
| "rm ic (NCls cs) (p, s, k) =
     (case s of [] \<Rightarrow> [] | c # s' \<Rightarrow> if in_cls ic c cs then [] else [(Some c, s', k)])"
| "rm ic Dot (p, s, k) =
     (case s of [] \<Rightarrow> []
      | c # s' \<Rightarrow> if c = CHR 0x0A \<or> c = CHR 0x0D then [] else [(Some c, s', k)])"
| "rm ic (Lit ls) st = lit_match ic ls st"
| "rm ic (Seq a b) st = concat (map (rm ic b) (rm ic a st))"
| "rm ic (Alt a b) st = rm ic a st @ rm ic b st"
| "rm ic (Star a) st = star_iter (rm ic a) (length (fst (snd st))) st"
| "rm ic (Plus a) st =
     concat (map (\<lambda>st'. star_iter (rm ic a) (length (fst (snd st'))) st') (rm ic a st))"
| "rm ic (Opt a) st = rm ic a st @ [st]"
| "rm ic (Grp n a) (p, s, k) =
     map (\<lambda>(p', s', k'). (p', s', (n, take (length s - length s') s) # k')) (rm ic a (p, s, k))"
| "rm ic Bol (p, s, k) = (if p = None then [(p, s, k)] else [])"
| "rm ic Eol (p, s, k) = (if s = [] then [(p, s, k)] else [])"
| "rm ic WordB (p, s, k) =
     (if is_word p \<noteq> is_word (case s of [] \<Rightarrow> None | c # _ \<Rightarrow> Some c) then [(p, s, k)] else [])"

text \<open>
  Searching: the leftmost start position that admits a match wins. The result is the text
  before the match, the matched text, the state after it (whose third component holds the
  captures) .
\<close>

fun re_search :: "bool \<Rightarrow> re \<Rightarrow> char option \<Rightarrow> string \<Rightarrow> string \<Rightarrow>
    (string \<times> string \<times> mstate) option" where
  "re_search ic r p pre s =
     (case rm ic r (p, s, []) of
        (p', s', k) # _ \<Rightarrow> Some (rev pre, take (length s - length s') s, (p', s', k))
      | [] \<Rightarrow> (case s of [] \<Rightarrow> None | c # cs \<Rightarrow> re_search ic r (Some c) (c # pre) cs))"

declare re_search.simps [simp del]

text \<open>\<open>pattern.test(s)\<close> for a pattern without the \<open>g\<close> flag.\<close>

definition re_test :: "bool \<Rightarrow> re \<Rightarrow> string \<Rightarrow> bool" where
  "re_test ic r s = (re_search ic r None [] s \<noteq> None)"

text \<open>\<open>s.match(pattern)[n]\<close>: \<open>None\<close> when there is no match, \<open>Some None\<close> when group
  \<open>n\<close> did not take part in the match.\<close>

definition re_match_group :: "bool \<Rightarrow> re \<Rightarrow> nat \<Rightarrow> string \<Rightarrow> string option option" where
  "re_match_group ic r n s =
     (case re_search ic r None [] s of
        None \<Rightarrow> None
      | Some (_, _, (_, _, k)) \<Rightarrow> Some (map_of k n))"

text \<open>Shorthands for the escapes \<open>\s\<close>, \<open>\d\<close>, \<open>\w\<close> and for ranges.\<close>

definition rs :: re where "rs = Cls space_chars"
definition rd :: re where "rd = Cls digit_chars"
definition rw :: re where "rw = Cls word_chars"
definition r_az :: re where "r_az = Cls lower_chars"
definition r_AZ :: re where "r_AZ = Cls upper_chars"

fun seqs :: "re list \<Rightarrow> re" where
  "seqs [] = Lit []"
| "seqs [r] = r"
| "seqs (r # rs') = Seq r (seqs rs')"

fun alts :: "re list \<Rightarrow> re" where
  "alts [] = Lit []"
| "alts [r] = r"
| "alts (r # rs') = Alt r (alts rs')"

text \<open>
  \<open>s.replace(pattern, f)\<close> for a pattern with the \<open>g\<close> flag: matches are replaced from left
  to right; after an empty match the search resumes one character further on.
\<close>

function re_replace_all :: "bool \<Rightarrow> re \<Rightarrow> (string \<Rightarrow> string) \<Rightarrow> char option \<Rightarrow> string \<Rightarrow> string" where
  "re_replace_all ic r f p s =
     (case rm ic r (p, s, []) of
        (p', s', k) # _ \<Rightarrow>
          (if take (length s - length s') s = []
           then (case s of [] \<Rightarrow> f [] | c # cs \<Rightarrow> f [] @ c # re_replace_all ic r f (Some c) cs)
           else f (take (length s - length s') s) @ re_replace_all ic r f p' s')
      | [] \<Rightarrow> (case s of [] \<Rightarrow> [] | c # cs \<Rightarrow> c # re_replace_all ic r f (Some c) cs))"
  by pat_completeness auto
termination
  by (relation "measure (\<lambda>(ic, r, f, p, s). length s)") auto

declare re_replace_all.simps [simp del]

section \<open>FAQPage builder (src/schemas/faq.js)\<close>

text \<open>
  What this builder keeps depends on which characters are white space, so its strings are
  modelled in full: a list of UTF-16 code units, each a number below \<open>0x10000\<close>. \<open>utf16\<close> gives
  the code units of a text written in the source.
\<close>

type_synonym ustring = "nat list"

definition utf16 :: "string \<Rightarrow> ustring" where
  "utf16 s = map of_char s"

text \<open>
  The white space and line terminators of ECMAScript, which \<open>trim\<close> strips and \<open>\s\<close>
  matches: tab, line feed, vertical tab, form feed, carriage return, space, no-break space,
  \<open>U+1680\<close>, \<open>U+2000\<close> to \<open>U+200A\<close>, the line and paragraph separators \<open>U+2028\<close> and \<open>U+2029\<close>,
  \<open>U+202F\<close>, \<open>U+205F\<close>, \<open>U+3000\<close> and the byte order mark \<open>U+FEFF\<close>.
\<close>

definition is_white :: "nat \<Rightarrow> bool" where
  "is_white c =
     (c \<in> set [0x09, 0x0A, 0x0B, 0x0C, 0x0D, 0x20, 0xA0, 0x1680, 0x2028, 0x2029, 0x202F, 0x205F,
                0x3000, 0xFEFF]
      \<or> (0x2000 \<le> c \<and> c \<le> 0x200A))"

text \<open>\<open>s.trim()\<close>\<close>

definition utrim :: "ustring \<Rightarrow> ustring" where
  "utrim s = rev (dropWhile is_white (rev (dropWhile is_white s)))"

text \<open>
  \<open>s.replace(/C+/g, ' ')\<close> for a class \<open>C\<close> of characters: every maximal run of characters of
  the class becomes one space. The flag says that the character before was of the class.
\<close>

fun squeeze :: "(nat \<Rightarrow> bool) \<Rightarrow> bool \<Rightarrow> ustring \<Rightarrow> ustring" where
  "squeeze P inRun [] = []"
| "squeeze P inRun (c # cs) =
     (if P c then (if inRun then squeeze P True cs else 0x20 # squeeze P True cs)
      else c # squeeze P False cs)"

text \<open>The JSON that the builder returns: its texts are full strings, its property names are
  the names written in the source.\<close>

datatype ujsv =
    UStr ustring
  | UArr "ujsv list"
  | UObj "(string \<times> ujsv) list"

record faq =
  question :: ustring
  answer :: ustring

text \<open>\<open>cleanText\<close>: \<open>text.replace(/\s+/g, ' ').replace(/[\r\n]+/g, ' ').trim()\<close>\<close>

definition cleanText :: "ustring \<Rightarrow> ustring" where
  "cleanText text =
     (if text = [] then []
      else utrim (squeeze (\<lambda>c. c = 0x0D \<or> c = 0x0A) False (squeeze is_white False text)))"

definition faq_valid :: "faq \<Rightarrow> bool" where
  "faq_valid f = (question f \<noteq> [] \<and> answer f \<noteq> [] \<and> utrim (question f) \<noteq> [] \<and> utrim (answer f) \<noteq> [])"

definition faq_question :: "faq \<Rightarrow> ujsv" where
  "faq_question f = UObj
     [(''@type'', UStr (utf16 ''Question'')),
      (''name'', UStr (cleanText (question f))),
      (''acceptedAnswer'', UObj [(''@type'', UStr (utf16 ''Answer'')),
                                 (''text'', UStr (cleanText (answer f)))])]"

text \<open>\<open>generate(faqs)\<close>; \<open>None\<close> as argument is a missing list, \<open>None\<close> as result is \<open>null\<close>.\<close>

definition faq_generate :: "faq list option \<Rightarrow> ujsv option" where
  "faq_generate faqs =
     (case faqs of
        None \<Rightarrow> None
      | Some fs \<Rightarrow>
          if length fs = 0 then None
          else (let validFaqs = take 10 (filter faq_valid fs)
                in if length validFaqs = 0 then None
                   else Some (UObj [(''@type'', UStr (utf16 ''FAQPage'')),
                                    (''mainEntity'', UArr (map faq_question validFaqs))])))"

text \<open>The words of the specification: a text is blank when it has nothing but white space
  (it is empty, or all its characters are ones that \<open>trim\<close> strips).\<close>

definition ublank :: "ustring \<Rightarrow> bool" where
  "ublank s = list_all is_white s"

definition spec_kept :: "faq list \<Rightarrow> faq list" where
  "spec_kept fs = take 10 (filter (\<lambda>f. \<not> ublank (question f) \<and> \<not> ublank (answer f)) fs)"

text \<open>The same on the strings of the Latin-1 range, for the builders below.\<close>

definition blank :: "string \<Rightarrow> bool" where
  "blank s = list_all is_space s"

section \<open>FAQPage builder: results\<close>

lemma dropWhile_all_Nil: "(dropWhile P xs = []) = list_all P xs"
  by (induction xs) auto

lemma trim_Nil_iff: "(trim s = []) = blank s"
proof -
  have "(trim s = []) = (dropWhile is_space (rev (dropWhile is_space s)) = [])"
    by (simp add: trim_def)
  also have "\<dots> = list_all is_space (dropWhile is_space s)"
    by (simp add: dropWhile_all_Nil list_all_iff)
  also have "\<dots> = list_all is_space s"
    by (induction s) auto
  finally show ?thesis by (simp add: blank_def)
qed

lemma utrim_Nil_iff: "(utrim s = []) = ublank s"
proof -
  have "(utrim s = []) = (dropWhile is_white (rev (dropWhile is_white s)) = [])"
    by (simp add: utrim_def)
  also have "\<dots> = list_all is_white (dropWhile is_white s)"
    by (simp add: dropWhile_all_Nil list_all_iff)
  also have "\<dots> = list_all is_white s"
    by (induction s) auto
  finally show ?thesis by (simp add: ublank_def)
qed

lemma faq_valid_iff: "faq_valid f = (\<not> ublank (question f) \<and> \<not> ublank (answer f))"
  by (auto simp: faq_valid_def utrim_Nil_iff ublank_def)

lemma spec_kept_eq: "take 10 (filter faq_valid fs) = spec_kept fs"
proof -
  have "faq_valid = (\<lambda>f. \<not> ublank (question f) \<and> \<not> ublank (answer f))"
    by (rule ext) (rule faq_valid_iff)
  then show ?thesis by (simp add: spec_kept_def)
qed

lemma faq_example_kept:
  "spec_kept [\<lparr>question = [], answer = utf16 ''x''\<rparr>, \<lparr>question = utf16 ''Q?'', answer = utf16 ''A.''\<rparr>]
     = [\<lparr>question = utf16 ''Q?'', answer = utf16 ''A.''\<rparr>]"
  by (simp add: spec_kept_def ublank_def is_white_def utf16_def)

lemma cleanText_Q: "cleanText (utf16 ''Q?'') = utf16 ''Q?''"
  by (simp add: cleanText_def utrim_def is_white_def utf16_def)

lemma cleanText_A: "cleanText (utf16 ''A.'') = utf16 ''A.''"
  by (simp add: cleanText_def utrim_def is_white_def utf16_def)

lemma white_only_dropped:
  "ublank ws \<Longrightarrow> spec_kept [\<lparr>question = ws, answer = a\<rparr>] = []"
  by (simp add: spec_kept_def)

text \<open>
  C8. The FAQ builder keeps exactly the pairs whose question and answer are both non-blank,
  in input order and at most ten of them, and returns null when none survives (also for a
  missing or empty list); the list \<open>[{question: "", answer: "x"}, {question: "Q?", answer:
  "A."}]\<close> gives an entity whose mainEntity has the one item built from the second pair. A
  question that is a single no-break space, a byte order mark or an ideographic space is
  blank: the pair is dropped.
\<close>

theorem faq_generate_keeps_nonblank_capped:
  "faq_generate None = None
   \<and> faq_generate (Some []) = None
   \<and> faq_generate (Some fs) =
       (if spec_kept fs = [] then None
        else Some (UObj [(''@type'', UStr (utf16 ''FAQPage'')),
                         (''mainEntity'', UArr (map faq_question (spec_kept fs)))]))
   \<and> length (spec_kept fs) \<le> 10
   \<and> faq_generate (Some [\<lparr>question = [], answer = utf16 ''x''\<rparr>, \<lparr>question = utf16 ''Q?'', answer = utf16 ''A.''\<rparr>])
       = Some (UObj [(''@type'', UStr (utf16 ''FAQPage'')),
                     (''mainEntity'', UArr [UObj
                        [(''@type'', UStr (utf16 ''Question'')),
                         (''name'', UStr (utf16 ''Q?'')),
                         (''acceptedAnswer'', UObj [(''@type'', UStr (utf16 ''Answer'')),
                                                    (''text'', UStr (utf16 ''A.''))])]])])
   \<and> faq_generate (Some [\<lparr>question = [0xA0], answer = utf16 ''x''\<rparr>]) = None
   \<and> faq_generate (Some [\<lparr>question = [0xFEFF], answer = utf16 ''x''\<rparr>]) = None
   \<and> faq_generate (Some [\<lparr>question = utf16 ''Q?'', answer = [0x3000, 0x20]\<rparr>]) = None"
proof -
  have gen: "faq_generate (Some gs) =
       (if spec_kept gs = [] then None
        else Some (UObj [(''@type'', UStr (utf16 ''FAQPage'')),
                         (''mainEntity'', UArr (map faq_question (spec_kept gs)))]))" for gs
  proof (cases "gs = []")
    case True
    then show ?thesis by (simp add: faq_generate_def spec_kept_def)
  next
    case False
    then show ?thesis by (simp add: faq_generate_def spec_kept_eq Let_def)
  qed
  have len: "length (spec_kept fs) \<le> 10"
    by (simp add: spec_kept_def)
  have ex: "faq_generate (Some [\<lparr>question = [], answer = utf16 ''x''\<rparr>, \<lparr>question = utf16 ''Q?'', answer = utf16 ''A.''\<rparr>])
       = Some (UObj [(''@type'', UStr (utf16 ''FAQPage'')),
                     (''mainEntity'', UArr [UObj
                        [(''@type'', UStr (utf16 ''Question'')),
                         (''name'', UStr (utf16 ''Q?'')),
                         (''acceptedAnswer'', UObj [(''@type'', UStr (utf16 ''Answer'')),
                                                    (''text'', UStr (utf16 ''A.''))])]])])"
    by (simp only: gen faq_example_kept) (simp add: faq_question_def cleanText_Q cleanText_A)
  have w1: "faq_generate (Some [\<lparr>question = [0xA0], answer = utf16 ''x''\<rparr>]) = None"
    by (simp only: gen) (simp add: spec_kept_def ublank_def is_white_def)
  have w2: "faq_generate (Some [\<lparr>question = [0xFEFF], answer = utf16 ''x''\<rparr>]) = None"
    by (simp only: gen) (simp add: spec_kept_def ublank_def is_white_def)
  have w3: "faq_generate (Some [\<lparr>question = utf16 ''Q?'', answer = [0x3000, 0x20]\<rparr>]) = None"
    by (simp only: gen) (simp add: spec_kept_def ublank_def is_white_def)
  show ?thesis
    using gen [of fs] gen [of "[]"] len ex w1 w2 w3
    by (simp add: faq_generate_def spec_kept_def)
qed

section \<open>Scraped page data and strings\<close>

record heading =
  h_level :: string
  h_text :: string

text \<open>
  The scraper's record. A field that may be missing (\<open>undefined\<close>) is an option;
  \<open>pd_wordpressInfo = Some t\<close> is an object whose \<open>postType\<close> is \<open>t\<close>.
\<close>

record pageData =
  pd_url :: "string option"
  pd_title :: "string option"
  pd_description :: "string option"
  pd_content :: "string option"
  pd_headings :: "heading list option"
  pd_author :: "string option"
  pd_publishDate :: "string option"
  pd_categories :: "string list option"
  pd_tags :: "string list option"
  pd_wordpressInfo :: "string option option"
  pd_phone :: "string option"
  pd_featuredImage :: "string option"
  pd_serviceAreas :: "string list option"
  pd_faqs :: "faq list option"

fun starts_with :: "string \<Rightarrow> string \<Rightarrow> bool" where
  "starts_with s [] = True"
| "starts_with [] (k # ks) = False"
| "starts_with (c # cs) (k # ks) = (c = k \<and> starts_with cs ks)"

text \<open>\<open>s.includes(k)\<close>\<close>

fun str_includes :: "string \<Rightarrow> string \<Rightarrow> bool" where
  "str_includes [] k = (k = [])"
| "str_includes (c # cs) k = (starts_with (c # cs) k \<or> str_includes cs k)"

text \<open>\<open>xs && xs.length > 0\<close> for a list-typed field.\<close>

definition nonempty_list :: "'a list option \<Rightarrow> bool" where
  "nonempty_list xs = (case xs of None \<Rightarrow> False | Some ys \<Rightarrow> length ys > 0)"

section \<open>Page type detector (src/services/pageTypeDetector.js)\<close>

text \<open>A pattern is a regular expression with its \<open>i\<close> flag.\<close>

type_synonym pattern = "bool \<times> re"

definition ptest :: "pattern \<Rightarrow> string \<Rightarrow> bool" where
  "ptest pt s = re_test (fst pt) (snd pt) s"

definition BLOG_URL_PATTERNS :: "pattern list" where
  "BLOG_URL_PATTERNS =
    [(True, Lit ''/blog/''),
     (True, Lit ''/post/''),
     (True, Lit ''/posts/''),
     (True, Lit ''/news/''),
     (True, Lit ''/article/''),
     (True, Lit ''/articles/''),
     (False, seqs [Lit ''/'', rd, rd, rd, rd, Lit ''/'', rd, rd, Lit ''/''])]"

definition SERVICE_URL_PATTERNS :: "pattern list" where
  "SERVICE_URL_PATTERNS =
    [(True, Lit ''/service/''),
     (True, Lit ''/services/''),
     (True, Lit ''/our-services/''),
     (True, Lit ''/what-we-do/''),
     (True, Lit ''/solutions/''),
     (True, Lit ''/ac-''),
     (True, Lit ''/air-conditioning''),
     (True, Lit ''/heating''),
     (True, Lit ''/hvac''),
     (True, Lit ''/furnace''),
     (True, Lit ''/heat-pump''),
     (True, Lit ''/duct''),
     (True, Lit ''/thermostat''),
     (True, Lit ''/mini-split''),
     (True, Lit ''/repair/''),
     (True, Lit ''/installation/''),
     (True, Lit ''/maintenance/''),
     (True, Lit ''/tune-up''),
     (True, Lit ''/plumbing''),
     (True, Lit ''/electrical''),
     (True, Lit ''/roofing'')]"

definition LOCATION_URL_PATTERNS :: "pattern list" where
  "LOCATION_URL_PATTERNS =
    [(True, seqs [Lit ''/location'', Opt (Lit ''s''), Lit ''/'']),
     (True, Lit ''/service-area''),
     (True, seqs [Lit ''/area'', Opt (Lit ''s''), Lit ''-'', Opt (Lit ''we-''), Lit ''serve'', Opt (Lit ''d'')]),
     (True, Lit ''/cities/''),
     (True, Lit ''/near-me''),
     (True, seqs [Lit ''/'',
                  alts [Lit ''ac'', Lit ''hvac'', Lit ''heating'', Lit ''cooling'', Lit ''air-conditioning''],
                  Lit ''-'', Plus r_az, Lit ''-'', Plus r_az]),
     (True, seqs [Lit ''/'', Plus r_az, Lit ''-'',
                  alts [Lit ''ac'', Lit ''hvac'', Lit ''heating'', Lit ''cooling''], Lit ''-''])]"

definition SERVICE_KEYWORDS :: "string list" where
  "SERVICE_KEYWORDS =
    [''service'', ''our services'', ''what we offer'', ''how we help'', ''pricing'',
     ''get started'', ''contact us'', ''free consultation'', ''request a quote'',
     ''free estimate'', ''schedule service'', ''book appointment'',
     ''ac repair'', ''air conditioning'', ''heating repair'', ''hvac service'',
     ''furnace repair'', ''furnace installation'', ''heat pump'', ''duct cleaning'',
     ''emergency service'', ''24/7'', ''licensed'', ''certified technician'',
     ''same day service'', ''tune-up'', ''maintenance plan'']"

definition locationPatterns :: "pattern list" where
  "locationPatterns =
    [(False, seqs [alts [Lit ''in'', Lit ''near'', Lit ''serving''], Plus rs, r_AZ, Plus r_az]),
     (False, seqs [r_AZ, Plus r_az, Opt (seqs [Plus rs, r_AZ, Plus r_az]), Plus rs,
                   alts [Lit ''AC'', Lit ''HVAC'', Lit ''Heating'', Lit ''Cooling'']]),
     (True, seqs [Lit ''service'', Plus rs, Lit ''area'']),
     (True, seqs [Lit ''area'', Opt (Lit ''s''), Plus rs, Lit ''we'', Plus rs, Lit ''serve'']),
     (True, seqs [Lit ''location'', Opt (Lit ''s''), Plus rs, Lit ''served'']),
     (True, seqs [Lit ''serving'', Plus rs, Lit ''the'', Plus rs, r_AZ])]"

record scores =
  article :: int
  service :: int
  location :: int

text \<open>The three tests made on the lower-cased text of one heading.\<close>

definition heading_service :: "string \<Rightarrow> bool" where
  "heading_service t =
     (str_includes t ''service'' \<or> str_includes t ''solution'' \<or> str_includes t ''what we offer'' \<or>
      str_includes t ''repair'' \<or> str_includes t ''installation'' \<or> str_includes t ''maintenance'' \<or>
      str_includes t ''hvac'' \<or> str_includes t ''air conditioning'' \<or> str_includes t ''heating'' \<or>
      str_includes t ''why choose'' \<or> str_includes t ''our process'' \<or> str_includes t ''benefits'')"

definition heading_article :: "string \<Rightarrow> bool" where
  "heading_article t =
     (str_includes t ''written by'' \<or> str_includes t ''posted by'' \<or> str_includes t ''author'' \<or>
      str_includes t ''published'' \<or> str_includes t ''read more'')"

definition heading_location :: "string \<Rightarrow> bool" where
  "heading_location t =
     (str_includes t ''serving'' \<or> str_includes t ''service area'' \<or> str_includes t ''near you'' \<or>
      str_includes t ''in your area'' \<or> str_includes t ''local'')"

definition score_heading :: "heading \<Rightarrow> scores \<Rightarrow> scores" where
  "score_heading h sc =
     (let t = toLowerCase (h_text h);
          sc1 = (if heading_service t then sc\<lparr>service := service sc + 2\<rparr> else sc);
          sc2 = (if heading_article t then sc1\<lparr>article := article sc1 + 2\<rparr> else sc1)
      in if heading_location t then sc2\<lparr>location := location sc2 + 2\<rparr> else sc2)"

text \<open>The scores when \<open>detect\<close> reaches its comment "Determine winner".\<close>

definition detect_scores :: "string \<Rightarrow> pageData \<Rightarrow> scores" where
  "detect_scores url pageData =
     (let sc0 = \<lparr>article = 0, service = 0, location = 0\<rparr>;
          sc1 = (if list_ex (\<lambda>pt. ptest pt url) BLOG_URL_PATTERNS
                 then sc0\<lparr>article := article sc0 + 3\<rparr> else sc0);
          sc2 = (if list_ex (\<lambda>pt. ptest pt url) SERVICE_URL_PATTERNS
                 then sc1\<lparr>service := service sc1 + 3\<rparr> else sc1);
          sc3 = (if list_ex (\<lambda>pt. ptest pt url) LOCATION_URL_PATTERNS
                 then sc2\<lparr>location := location sc2 + 4\<rparr> else sc2);
          sc4 = (case pd_wordpressInfo pageData of
                   None \<Rightarrow> sc3
                 | Some postType \<Rightarrow>
                     if postType = Some ''post'' then sc3\<lparr>article := article sc3 + 3\<rparr>
                     else if postType = Some ''page'' then sc3\<lparr>service := service sc3 + 1\<rparr>
                     else sc3);
          sc5 = (if present (pd_author pageData) then sc4\<lparr>article := article sc4 + 2\<rparr> else sc4);
          sc6 = (if present (pd_publishDate pageData) then sc5\<lparr>article := article sc5 + 2\<rparr> else sc5);
          sc7 = (if nonempty_list (pd_categories pageData) then sc6\<lparr>article := article sc6 + 2\<rparr> else sc6);
          sc8 = (if nonempty_list (pd_tags pageData) then sc7\<lparr>article := article sc7 + 1\<rparr> else sc7);
          content = toLowerCase (or_empty (pd_content pageData));
          title = toLowerCase (or_empty (pd_title pageData));
          combinedText = content @ '' '' @ title;
          sc9 = fold (\<lambda>keyword sc. if str_includes combinedText (toLowerCase keyword)
                                     then sc\<lparr>service := service sc + 1\<rparr> else sc)
                     SERVICE_KEYWORDS sc8;
          sc10 = (case pd_headings pageData of
                    None \<Rightarrow> sc9
                  | Some hs \<Rightarrow> fold score_heading hs sc9);
          sc11 = fold (\<lambda>pt sc. if ptest pt title \<or> ptest pt (take 1000 content)
                                then sc\<lparr>location := location sc + 2\<rparr> else sc)
                      locationPatterns sc10
      in if \<not> present (pd_publishDate pageData)
         then sc11\<lparr>service := service sc11 + 1, location := location sc11 + 1\<rparr>
         else sc11)"

definition detect :: "string \<Rightarrow> pageData \<Rightarrow> string" where
  "detect url pageData =
     (let sc = detect_scores url pageData;
          maxScore = max (max (article sc) (service sc)) (location sc)
      in if location sc \<ge> maxScore \<and> location sc \<ge> 4 then ''location''
         else if service sc > article sc then ''service'' else ''article'')"

section \<open>Page type detector: results\<close>

text \<open>
  C7. The classifier answers location exactly when the location score is the largest of
  the three scores and at least the floor 4; otherwise it answers service exactly when the
  service score is strictly larger than the article score, and article in the remaining
  case (so also on a tie). The answer is always one of the three types, never unknown.
\<close>

theorem detect_decision:
  "(detect url pd = ''location'') =
      (location (detect_scores url pd) \<ge> article (detect_scores url pd)
       \<and> location (detect_scores url pd) \<ge> service (detect_scores url pd)
       \<and> location (detect_scores url pd) \<ge> 4)
   \<and> (detect url pd = ''service'') =
      (detect url pd \<noteq> ''location''
       \<and> service (detect_scores url pd) > article (detect_scores url pd))
   \<and> (detect url pd = ''article'') =
      (detect url pd \<noteq> ''location''
       \<and> service (detect_scores url pd) \<le> article (detect_scores url pd))
   \<and> detect url pd \<in> {''article'', ''service'', ''location''}
   \<and> detect url pd \<noteq> ''unknown''"
  by (auto simp: detect_def Let_def)

section \<open>Builder inputs\<close>

record address =
  addr_streetAddress :: "string option"
  addr_addressLocality :: "string option"
  addr_addressRegion :: "string option"
  addr_postalCode :: "string option"
  addr_addressCountry :: "string option"

record orgInfo =
  org_name :: "string option"
  org_url :: "string option"
  org_logo :: "string option"
  org_phone :: "string option"
  org_areaServed :: "string option"

record options =
  opt_areaServed :: "string option"
  opt_businessType :: "string option"
  opt_phone :: "string option"
  opt_address :: "address option"
  opt_sameAs :: "string list option"

text \<open>\<open>a || b\<close> on string-typed operands.\<close>

definition or_else :: "string option \<Rightarrow> string option \<Rightarrow> string option" where
  "or_else a b = (if present a then a else b)"

text \<open>\<open>obj[key]\<close> on a value that is not null or undefined.\<close>

fun get :: "jsv \<Rightarrow> string \<Rightarrow> jsv" where
  "get (JObj kvs) key = (case map_of kvs key of Some v \<Rightarrow> v | None \<Rightarrow> JUndefined)"
| "get v key = JUndefined"

text \<open>\<open>s.split(c)\<close> for a one-character separator, and \<open>xs.join(sep)\<close>.\<close>

fun split_on :: "char \<Rightarrow> string \<Rightarrow> string list" where
  "split_on c [] = [[]]"
| "split_on c (x # xs) =
     (if x = c then [] # split_on c xs
      else (case split_on c xs of y # ys \<Rightarrow> (x # y) # ys | [] \<Rightarrow> [[x]]))"

fun js_join :: "string \<Rightarrow> string list \<Rightarrow> string" where
  "js_join sep [] = []"
| "js_join sep [x] = x"
| "js_join sep (x # y # ys) = x @ sep @ js_join sep (y # ys)"

text \<open>\<open>s.split(',').map(a => a.trim()).filter(a => a)\<close>\<close>

definition parse_areas :: "string \<Rightarrow> string list" where
  "parse_areas s = filter (\<lambda>a. a \<noteq> []) (map trim (split_on CHR '','' s))"

definition city :: "string \<Rightarrow> jsv" where
  "city area = JObj [(''@type'', JStr ''City''), (''name'', JStr area)]"

text \<open>The postal-code tests shared by both country detectors.\<close>

definition canadian_postal :: pattern where
  "canadian_postal = (True, seqs [Bol, r_AZ, rd, r_AZ, Opt rs, rd, r_AZ, rd, Eol])"

definition us_zip :: pattern where
  "us_zip = (False, seqs [Bol, rd, rd, rd, rd, rd, Opt (Grp 1 (seqs [Lit ''-'', rd, rd, rd, rd])), Eol])"

definition US_STATES :: "string list" where
  "US_STATES =
    [''AL'', ''AK'', ''AZ'', ''AR'', ''CA'', ''CO'', ''CT'', ''DE'', ''FL'', ''GA'', ''HI'', ''ID'', ''IL'', ''IN'', ''IA'',
     ''KS'', ''KY'', ''LA'', ''ME'', ''MD'', ''MA'', ''MI'', ''MN'', ''MS'', ''MO'', ''MT'', ''NE'', ''NV'', ''NH'', ''NJ'',
     ''NM'', ''NY'', ''NC'', ''ND'', ''OH'', ''OK'', ''OR'', ''PA'', ''RI'', ''SC'', ''SD'', ''TN'', ''TX'', ''UT'', ''VT'',
     ''VA'', ''WA'', ''WV'', ''WI'', ''WY'', ''DC'']"

text \<open>The first region of a city table one of whose cities occurs in the text.\<close>

definition region_of_text :: "(string \<times> string list) list \<Rightarrow> string \<Rightarrow> string option" where
  "region_of_text table allText =
     map_option fst (find (\<lambda>(region, cities).
        list_ex (\<lambda>c. str_includes allText (toLowerCase c)) cities) table)"

section \<open>Service builder (src/schemas/service.js)\<close>

definition svc_CANADIAN_PROVINCES :: "string list" where
  "svc_CANADIAN_PROVINCES =
    [''ON'', ''QC'', ''BC'', ''AB'', ''MB'', ''SK'', ''NS'', ''NB'', ''NL'', ''PE'', ''NT'', ''YT'', ''NU'']"

definition svc_CANADIAN_CITIES :: "(string \<times> string list) list" where
  "svc_CANADIAN_CITIES =
    [(''ON'', [''Hamilton'', ''Toronto'', ''Ottawa'', ''Mississauga'', ''Brampton'', ''Burlington'', ''Oakville'',
       ''Stoney Creek'', ''Ancaster'', ''Dundas'', ''Waterdown'', ''Grimsby'', ''St. Catharines'', ''St Catharines'',
       ''Niagara Falls'', ''London'', ''Kitchener'', ''Waterloo'', ''Cambridge'', ''Guelph'', ''Binbrook'', ''Brantford'']),
     (''BC'', [''Vancouver'', ''Victoria'', ''Burnaby'', ''Surrey'', ''Richmond'', ''Kelowna'']),
     (''AB'', [''Calgary'', ''Edmonton'', ''Red Deer'', ''Lethbridge'']),
     (''QC'', [''Montreal'', ''Quebec City'', ''Laval'', ''Gatineau''])]"

definition svc_US_CITIES :: "(string \<times> string list) list" where
  "svc_US_CITIES =
    [(''TX'', [''Houston'', ''Dallas'', ''Austin'', ''San Antonio'', ''Fort Worth'', ''El Paso'', ''Arlington'', ''Plano'']),
     (''CA'', [''Los Angeles'', ''San Diego'', ''San Jose'', ''San Francisco'', ''Sacramento'', ''Long Beach'', ''Oakland'']),
     (''FL'', [''Miami'', ''Tampa'', ''Orlando'', ''Jacksonville'', ''Fort Lauderdale'', ''St. Petersburg'']),
     (''NY'', [''New York'', ''Brooklyn'', ''Buffalo'', ''Rochester'', ''Syracuse'', ''Albany'']),
     (''IL'', [''Chicago'', ''Aurora'', ''Naperville'', ''Joliet'', ''Rockford'']),
     (''PA'', [''Philadelphia'', ''Pittsburgh'', ''Allentown'', ''Erie'']),
     (''AZ'', [''Phoenix'', ''Tucson'', ''Mesa'', ''Chandler'', ''Scottsdale'']),
     (''GA'', [''Atlanta'', ''Augusta'', ''Columbus'', ''Savannah'']),
     (''NC'', [''Charlotte'', ''Raleigh'', ''Greensboro'', ''Durham'']),
     (''OH'', [''Columbus'', ''Cleveland'', ''Cincinnati'', ''Toledo'', ''Akron'']),
     (''MI'', [''Detroit'', ''Grand Rapids'', ''Ann Arbor'', ''Lansing'']),
     (''TN'', [''Nashville'', ''Memphis'', ''Knoxville'', ''Chattanooga'']),
     (''WA'', [''Seattle'', ''Spokane'', ''Tacoma'', ''Bellevue'']),
     (''CO'', [''Denver'', ''Colorado Springs'', ''Aurora'', ''Fort Collins'']),
     (''MA'', [''Boston'', ''Worcester'', ''Springfield'', ''Cambridge'']),
     (''NV'', [''Las Vegas'', ''Henderson'', ''Reno'']),
     (''IN'', [''Indianapolis'', ''Fort Wayne'', ''Evansville'']),
     (''MO'', [''Kansas City'', ''St. Louis'', ''Springfield'']),
     (''MD'', [''Baltimore'', ''Frederick'', ''Rockville'']),
     (''VA'', [''Virginia Beach'', ''Norfolk'', ''Richmond'', ''Alexandria''])]"

definition detectCountryFromAreas :: "address option \<Rightarrow> string list \<Rightarrow> string" where
  "detectCountryFromAreas addr areaServedArray =
     (let byAreas =
            (let allText = toLowerCase (js_join '' '' areaServedArray)
             in if region_of_text svc_CANADIAN_CITIES allText \<noteq> None then ''CA''
                else if region_of_text svc_US_CITIES allText \<noteq> None then ''US''
                else ''US'')
      in case addr of
           None \<Rightarrow> byAreas
         | Some a \<Rightarrow>
             if present (addr_addressCountry a) then or_empty (addr_addressCountry a)
             else if present (addr_postalCode a) \<and> ptest canadian_postal (or_empty (addr_postalCode a)) then ''CA''
             else if present (addr_postalCode a) \<and> ptest us_zip (or_empty (addr_postalCode a)) then ''US''
             else if present (addr_addressRegion a)
                     \<and> toUpperCase (or_empty (addr_addressRegion a)) \<in> set svc_CANADIAN_PROVINCES then ''CA''
             else if present (addr_addressRegion a)
                     \<and> toUpperCase (or_empty (addr_addressRegion a)) \<in> set US_STATES then ''US''
             else byAreas)"

definition detectRegionFromAreas :: "address option \<Rightarrow> string list \<Rightarrow> string \<Rightarrow> string" where
  "detectRegionFromAreas addr areaServedArray country =
     (let allText = toLowerCase (js_join '' '' areaServedArray);
          ca = (if country = ''CA'' then region_of_text svc_CANADIAN_CITIES allText else None);
          us = (if country = ''US'' then region_of_text svc_US_CITIES allText else None);
          byAreas = (case ca of Some province \<Rightarrow> province
                     | None \<Rightarrow> (case us of Some state \<Rightarrow> state | None \<Rightarrow> []))
      in case addr of
           None \<Rightarrow> byAreas
         | Some a \<Rightarrow> if present (addr_addressRegion a) then or_empty (addr_addressRegion a) else byAreas)"

record serviceInfo =
  st_type :: string
  st_category :: string
  st_name :: string

text \<open>Pieces that recur in the service patterns: \<open>\s*\<close>, \<open>[\s-]*\<close>, \<open>(er|ing)\<close> and
  \<open>ac\s*X|air\s*condition(er|ing)\s*X\<close>.\<close>

definition ws0 :: re where "ws0 = Star rs"
definition sd0 :: re where "sd0 = Star (Cls (space_chars @ ''-''))"
definition er_ing :: re where "er_ing = Grp 1 (Alt (Lit ''er'') (Lit ''ing''))"

definition ac_or_aircond :: "re \<Rightarrow> re" where
  "ac_or_aircond x =
     Alt (seqs [Lit ''ac'', ws0, x])
         (seqs [Lit ''air'', ws0, Lit ''condition'', er_ing, ws0, x])"

definition servicePatterns :: "(re \<times> serviceInfo) list" where
  "servicePatterns =
    [(ac_or_aircond (Lit ''repair''),
        \<lparr>st_type = ''Air Conditioning Repair'', st_category = ''HVAC'', st_name = ''Air Conditioning Repair Service''\<rparr>),
     (ac_or_aircond (Lit ''install''),
        \<lparr>st_type = ''Air Conditioning Installation'', st_category = ''HVAC'', st_name = ''AC Installation Service''\<rparr>),
     (ac_or_aircond (Lit ''maintenance''),
        \<lparr>st_type = ''Air Conditioning Maintenance'', st_category = ''HVAC'', st_name = ''AC Maintenance Service''\<rparr>),
     (ac_or_aircond (seqs [Lit ''tune'', sd0, Lit ''up'']),
        \<lparr>st_type = ''Air Conditioning Tune-Up'', st_category = ''HVAC'', st_name = ''AC Tune-Up Service''\<rparr>),
     (ac_or_aircond (Lit ''replacement''),
        \<lparr>st_type = ''Air Conditioning Replacement'', st_category = ''HVAC'', st_name = ''AC Replacement Service''\<rparr>),
     (seqs [Lit ''central'', ws0, Lit ''air''],
        \<lparr>st_type = ''Central Air Conditioning Service'', st_category = ''HVAC'', st_name = ''Central Air Conditioning Service''\<rparr>),
     (seqs [Lit ''heat'', er_ing, ws0, Lit ''repair''],
        \<lparr>st_type = ''Heating Repair'', st_category = ''HVAC'', st_name = ''Heating Repair Service''\<rparr>),
     (seqs [Lit ''heat'', er_ing, ws0, Lit ''install''],
        \<lparr>st_type = ''Heating Installation'', st_category = ''HVAC'', st_name = ''Heating Installation Service''\<rparr>),
     (seqs [Lit ''heat'', er_ing, ws0, Lit ''maintenance''],
        \<lparr>st_type = ''Heating Maintenance'', st_category = ''HVAC'', st_name = ''Heating Maintenance Service''\<rparr>),
     (seqs [Lit ''furnace'', ws0, Lit ''repair''],
        \<lparr>st_type = ''Furnace Repair'', st_category = ''HVAC'', st_name = ''Furnace Repair Service''\<rparr>),
     (seqs [Lit ''furnace'', ws0, Lit ''install''],
        \<lparr>st_type = ''Furnace Installation'', st_category = ''HVAC'', st_name = ''Furnace Installation Service''\<rparr>),
     (Alt (seqs [Lit ''furnace'', ws0, Lit ''maintenance''])
          (seqs [Lit ''furnace'', ws0, Lit ''tune'', sd0, Lit ''up'']),
        \<lparr>st_type = ''Furnace Maintenance'', st_category = ''HVAC'', st_name = ''Furnace Maintenance Service''\<rparr>),
     (seqs [Lit ''furnace'', ws0, Lit ''replacement''],
        \<lparr>st_type = ''Furnace Replacement'', st_category = ''HVAC'', st_name = ''Furnace Replacement Service''\<rparr>),
     (seqs [Lit ''boiler'', ws0, Lit ''repair''],
        \<lparr>st_type = ''Boiler Repair'', st_category = ''HVAC'', st_name = ''Boiler Repair Service''\<rparr>),
     (seqs [Lit ''boiler'', ws0, Lit ''install''],
        \<lparr>st_type = ''Boiler Installation'', st_category = ''HVAC'', st_name = ''Boiler Installation Service''\<rparr>),
     (seqs [Lit ''heat'', ws0, Lit ''pump'', ws0, Lit ''repair''],
        \<lparr>st_type = ''Heat Pump Repair'', st_category = ''HVAC'', st_name = ''Heat Pump Repair Service''\<rparr>),
     (seqs [Lit ''heat'', ws0, Lit ''pump'', ws0, Lit ''install''],
        \<lparr>st_type = ''Heat Pump Installation'', st_category = ''HVAC'', st_name = ''Heat Pump Installation Service''\<rparr>),
     (seqs [Lit ''heat'', ws0, Lit ''pump'', ws0, Lit ''maintenance''],
        \<lparr>st_type = ''Heat Pump Maintenance'', st_category = ''HVAC'', st_name = ''Heat Pump Maintenance Service''\<rparr>),
     (seqs [Lit ''heat'', ws0, Lit ''pump''],
        \<lparr>st_type = ''Heat Pump Service'', st_category = ''HVAC'', st_name = ''Heat Pump Service''\<rparr>),
     (seqs [Lit ''duct'', ws0, Lit ''clean''],
        \<lparr>st_type = ''Duct Cleaning'', st_category = ''HVAC'', st_name = ''Air Duct Cleaning Service''\<rparr>),
     (seqs [Lit ''duct'', ws0, Lit ''repair''],
        \<lparr>st_type = ''Duct Repair'', st_category = ''HVAC'', st_name = ''Ductwork Repair Service''\<rparr>),
     (Alt (seqs [Lit ''duct'', ws0, Lit ''install'']) (seqs [Lit ''ductwork'', ws0, Lit ''install'']),
        \<lparr>st_type = ''Duct Installation'', st_category = ''HVAC'', st_name = ''Ductwork Installation Service''\<rparr>),
     (seqs [Lit ''duct'', ws0, Lit ''seal''],
        \<lparr>st_type = ''Duct Sealing'', st_category = ''HVAC'', st_name = ''Duct Sealing Service''\<rparr>),
     (Alt (seqs [Lit ''indoor'', ws0, Lit ''air'', ws0, Lit ''quality'']) (Lit ''iaq''),
        \<lparr>st_type = ''Indoor Air Quality'', st_category = ''HVAC'', st_name = ''Indoor Air Quality Service''\<rparr>),
     (seqs [Lit ''air'', ws0, Lit ''purif''],
        \<lparr>st_type = ''Air Purification'', st_category = ''HVAC'', st_name = ''Air Purification Service''\<rparr>),
     (seqs [Lit ''air'', ws0, Lit ''filter''],
        \<lparr>st_type = ''Air Filtration'', st_category = ''HVAC'', st_name = ''Air Filtration Service''\<rparr>),
     (Lit ''humidifier'',
        \<lparr>st_type = ''Humidifier Service'', st_category = ''HVAC'', st_name = ''Humidifier Installation & Service''\<rparr>),
     (Lit ''dehumidifier'',
        \<lparr>st_type = ''Dehumidifier Service'', st_category = ''HVAC'', st_name = ''Dehumidifier Installation & Service''\<rparr>),
     (Alt (seqs [Lit ''uv'', ws0, Lit ''light'']) (seqs [Lit ''uv'', ws0, Lit ''air'']),
        \<lparr>st_type = ''UV Air Purification'', st_category = ''HVAC'', st_name = ''UV Air Purification Service''\<rparr>),
     (seqs [Lit ''thermostat'', ws0, Lit ''install''],
        \<lparr>st_type = ''Thermostat Installation'', st_category = ''HVAC'', st_name = ''Thermostat Installation Service''\<rparr>),
     (seqs [Lit ''smart'', ws0, Lit ''thermostat''],
        \<lparr>st_type = ''Smart Thermostat Installation'', st_category = ''HVAC'', st_name = ''Smart Thermostat Installation Service''\<rparr>),
     (Lit ''thermostat'',
        \<lparr>st_type = ''Thermostat Service'', st_category = ''HVAC'', st_name = ''Thermostat Service''\<rparr>),
     (seqs [Lit ''mini'', sd0, Lit ''split'', ws0, Lit ''install''],
        \<lparr>st_type = ''Mini Split Installation'', st_category = ''HVAC'', st_name = ''Ductless Mini Split Installation''\<rparr>),
     (seqs [Lit ''mini'', sd0, Lit ''split'', ws0, Lit ''repair''],
        \<lparr>st_type = ''Mini Split Repair'', st_category = ''HVAC'', st_name = ''Ductless Mini Split Repair''\<rparr>),
     (Alt (seqs [Lit ''mini'', sd0, Lit ''split'']) (Lit ''ductless''),
        \<lparr>st_type = ''Ductless HVAC Service'', st_category = ''HVAC'', st_name = ''Ductless Mini Split Service''\<rparr>),
     (seqs [Lit ''emergency'', ws0, Grp 1 (alts [Lit ''hvac'', Lit ''ac'', Lit ''heat'', Lit ''air''])],
        \<lparr>st_type = ''Emergency HVAC Service'', st_category = ''HVAC'', st_name = ''24/7 Emergency HVAC Service''\<rparr>),
     (Alt (seqs [Lit ''24'', Star (Cls (space_chars @ ''/'')), Lit ''7'']) (seqs [Lit ''after'', ws0, Lit ''hours'']),
        \<lparr>st_type = ''Emergency HVAC Service'', st_category = ''HVAC'', st_name = ''24/7 Emergency HVAC Service''\<rparr>),
     (seqs [Lit ''hvac'', ws0, Lit ''repair''],
        \<lparr>st_type = ''HVAC Repair'', st_category = ''HVAC'', st_name = ''HVAC Repair Service''\<rparr>),
     (seqs [Lit ''hvac'', ws0, Lit ''install''],
        \<lparr>st_type = ''HVAC Installation'', st_category = ''HVAC'', st_name = ''HVAC Installation Service''\<rparr>),
     (seqs [Lit ''hvac'', ws0, Lit ''maintenance''],
        \<lparr>st_type = ''HVAC Maintenance'', st_category = ''HVAC'', st_name = ''HVAC Maintenance Service''\<rparr>),
     (Alt (Lit ''refrigerant'') (Lit ''freon''),
        \<lparr>st_type = ''Refrigerant Service'', st_category = ''HVAC'', st_name = ''Refrigerant Recharge Service''\<rparr>),
     (Lit ''compressor'',
        \<lparr>st_type = ''Compressor Service'', st_category = ''HVAC'', st_name = ''AC Compressor Service''\<rparr>),
     (seqs [Lit ''evaporator'', ws0, Lit ''coil''],
        \<lparr>st_type = ''Evaporator Coil Service'', st_category = ''HVAC'', st_name = ''Evaporator Coil Service''\<rparr>),
     (Lit ''condenser'',
        \<lparr>st_type = ''Condenser Service'', st_category = ''HVAC'', st_name = ''Condenser Service''\<rparr>),
     (seqs [Lit ''plumb'', Grp 1 (Alt (Lit ''ing'') (Lit ''er''))],
        \<lparr>st_type = ''Plumbing Service'', st_category = ''Home Services'', st_name = ''Plumbing Service''\<rparr>),
     (seqs [Lit ''electric'', Grp 1 (Alt (Lit ''al'') (Lit ''ian''))],
        \<lparr>st_type = ''Electrical Service'', st_category = ''Home Services'', st_name = ''Electrical Service''\<rparr>),
     (seqs [Lit ''roof'', Opt (Grp 1 (Lit ''ing''))],
        \<lparr>st_type = ''Roofing Service'', st_category = ''Home Services'', st_name = ''Roofing Service''\<rparr>),
     (seqs [Lit ''water'', ws0, Lit ''heater''],
        \<lparr>st_type = ''Water Heater Service'', st_category = ''Home Services'', st_name = ''Water Heater Service''\<rparr>),
     (Lit ''insulation'',
        \<lparr>st_type = ''Insulation Service'', st_category = ''Home Services'', st_name = ''Insulation Service''\<rparr>),
     (seqs [Lit ''commercial'', ws0, Grp 1 (alts [Lit ''hvac'', Lit ''ac'', Lit ''heat''])],
        \<lparr>st_type = ''Commercial HVAC Service'', st_category = ''Commercial HVAC'', st_name = ''Commercial HVAC Service''\<rparr>),
     (alts [Lit ''hvac'', Lit ''heating'', Lit ''cooling'', seqs [Lit ''air'', ws0, Lit ''condition'']],
        \<lparr>st_type = ''HVAC Service'', st_category = ''HVAC'', st_name = ''HVAC Service''\<rparr>)]"

definition extractServiceType :: "pageData \<Rightarrow> serviceInfo" where
  "extractServiceType pageData =
     (let title = or_empty (pd_title pageData);
          content = or_empty (pd_content pageData);
          headings = (case pd_headings pageData of None \<Rightarrow> [] | Some hs \<Rightarrow> hs);
          combinedText = title @ '' '' @ content @ '' '' @ js_join '' '' (map h_text headings)
      in case find (\<lambda>(pat, info). re_test True pat combinedText) servicePatterns of
           Some (pat, info) \<Rightarrow> info
         | None \<Rightarrow> \<lparr>st_type = title, st_category = ''Service'', st_name = title\<rparr>)"

text \<open>\<open>formatLocationName\<close>; the result \<open>None\<close> is \<open>null\<close>.\<close>

definition formatLocationName :: "string option \<Rightarrow> string option" where
  "formatLocationName name =
     (if \<not> present name then None
      else Some (trim (re_replace_all False (Seq WordB rw) toUpperCase None
                        (re_replace_all False (Lit ''-'') (\<lambda>_. '' '') None (or_empty name)))))"

definition svc_locationPatterns :: "re list" where
  "svc_locationPatterns =
    [seqs [alts [Lit ''in'', Lit ''near'', Lit ''serving''], Plus rs,
           Grp 1 (seqs [r_AZ, Plus r_az, Opt (seqs [Plus rs, r_AZ, Plus r_az])])],
     seqs [Grp 1 (seqs [r_AZ, Plus r_az, Opt (seqs [Plus rs, r_AZ, Plus r_az])]), Plus rs,
           alts [Lit ''AC'', Lit ''HVAC'', Lit ''Heating'', Lit ''Cooling'', Lit ''Air'', Lit ''Plumbing'', Lit ''Electric'']],
     seqs [Lit ''/location'', Opt (Lit ''s''), Lit ''/'', Grp 1 (Plus (Cls (lower_chars @ ''-'')))],
     seqs [Lit ''/'', Grp 1 (Plus (Cls (lower_chars @ ''-''))), Lit ''-'',
           alts [Lit ''ac'', Lit ''hvac'', Lit ''heating'', Lit ''cooling'', Lit ''plumbing'']],
     seqs [Lit ''/'', alts [Lit ''ac'', Lit ''hvac'', Lit ''heating'', Lit ''cooling'', Lit ''plumbing''], Lit ''-'',
           Grp 1 (Plus (Cls (lower_chars @ ''-'')))],
     seqs [Lit ''/service-area/'', Grp 1 (Plus (Cls (lower_chars @ ''-'')))]]"

text \<open>
  The source text of a city pattern, \<open>\bCity\b\<close>, is the city's name; the names in the
  tables consist of letters, blanks and full stops, and a full stop is the wildcard.
\<close>

definition city_re :: "string \<Rightarrow> re" where
  "city_re name = seqs ([WordB] @ map (\<lambda>c. if c = CHR ''.'' then Dot else Lit [c]) name @ [WordB])"

text \<open>The first pattern that matches decides: \<open>formatLocationName(match[1])\<close> is returned.\<close>

fun first_location :: "re list \<Rightarrow> string \<Rightarrow> string option option" where
  "first_location [] s = None"
| "first_location (r # rs') s =
     (case re_match_group True r 1 s of
        Some g \<Rightarrow> Some (formatLocationName g)
      | None \<Rightarrow> first_location rs' s)"

definition extractLocationFromPage :: "pageData \<Rightarrow> string option" where
  "extractLocationFromPage pageData =
     (let title = or_empty (pd_title pageData);
          url = or_empty (pd_url pageData);
          content = or_empty (pd_content pageData);
          commonCities = concat (map snd svc_US_CITIES) @ concat (map snd svc_CANADIAN_CITIES);
          combinedText = title @ '' '' @ content
      in case find (\<lambda>c. re_test True (city_re c) combinedText) commonCities of
           Some c \<Rightarrow> Some c
         | None \<Rightarrow>
            (case first_location svc_locationPatterns title of
               Some r \<Rightarrow> r
             | None \<Rightarrow>
                (case first_location svc_locationPatterns url of
                   Some r \<Rightarrow> r
                 | None \<Rightarrow> None)))"

text \<open>\<open>truncate(str, maxLength)\<close>\<close>

definition truncate :: "string option \<Rightarrow> nat \<Rightarrow> string" where
  "truncate str maxLength =
     (if \<not> present str then []
      else if length (or_empty str) \<le> maxLength then or_empty str
      else take (maxLength - 3) (or_empty str) @ ''...'')"

text \<open>The list \<open>areaServedArray\<close> of \<open>generate\<close>.\<close>

definition svc_areaServedArray :: "pageData \<Rightarrow> options \<Rightarrow> string list" where
  "svc_areaServedArray pageData opts =
     (let fromOptions = (if present (opt_areaServed opts)
                         then parse_areas (or_empty (opt_areaServed opts)) else [])
      in if length fromOptions = 0
         then (case extractLocationFromPage pageData of
                 Some extractedLocation \<Rightarrow>
                   if extractedLocation \<noteq> [] then [extractedLocation] else fromOptions
               | None \<Rightarrow> fromOptions)
         else fromOptions)"

text \<open>The object assigned to \<open>schema.provider.address\<close>.\<close>

definition svc_provider_address :: "options \<Rightarrow> string list \<Rightarrow> jsv" where
  "svc_provider_address opts areaServedArray =
     (let detectedCountry = detectCountryFromAreas (opt_address opts) areaServedArray;
          detectedRegion = detectRegionFromAreas (opt_address opts) areaServedArray detectedCountry
      in case (case opt_address opts of
                 None \<Rightarrow> None
               | Some a \<Rightarrow> if present (addr_addressLocality a) then Some a else None) of
           Some a \<Rightarrow>
             JObj ([(''@type'', JStr ''PostalAddress''),
                    (''addressCountry'',
                       JStr (if present (addr_addressCountry a) then or_empty (addr_addressCountry a)
                             else detectedCountry))]
                   @ (if present (addr_streetAddress a)
                      then [(''streetAddress'', of_opt (addr_streetAddress a))] else [])
                   @ (if present (addr_addressLocality a)
                      then [(''addressLocality'', of_opt (addr_addressLocality a))] else [])
                   @ (if present (addr_addressRegion a)
                      then [(''addressRegion'', of_opt (addr_addressRegion a))]
                      else if detectedRegion \<noteq> [] then [(''addressRegion'', JStr detectedRegion)] else [])
                   @ (if present (addr_postalCode a)
                      then [(''postalCode'', of_opt (addr_postalCode a))] else []))
         | None \<Rightarrow>
             if length areaServedArray > 0
             then (let primaryArea = hd areaServedArray;
                       parts = map trim (split_on CHR '','' primaryArea)
                   in JObj [(''@type'', JStr ''PostalAddress''),
                            (''addressLocality'', JStr (hd parts)),
                            (''addressRegion'',
                               JStr (if length parts > 1 \<and> parts ! 1 \<noteq> [] then parts ! 1
                                     else detectedRegion)),
                            (''addressCountry'', JStr detectedCountry)])
             else JObj ([(''@type'', JStr ''PostalAddress''),
                         (''addressCountry'', JStr detectedCountry)]
                        @ (if detectedRegion \<noteq> [] then [(''addressRegion'', JStr detectedRegion)] else [])))"

text \<open>The value of \<open>schema.areaServed\<close>: one City, a list of them, or nothing.\<close>

definition svc_areaServed :: "string list \<Rightarrow> jsv" where
  "svc_areaServed areaServedArray =
     (if length areaServedArray = 1 then city (hd areaServedArray)
      else if length areaServedArray > 1 then JArr (map city areaServedArray)
      else JUndefined)"

definition svc_generate :: "pageData \<Rightarrow> orgInfo \<Rightarrow> options \<Rightarrow> jsv" where
  "svc_generate pageData org opts =
     (let serviceInfo = extractServiceType pageData;
          areaServedArray = svc_areaServedArray pageData opts;
          provider = JObj
            ([(''@type'', of_opt (or_else (opt_businessType opts) (Some ''HVACBusiness''))),
              (''@id'', JStr (interp (org_url org) @ ''#localbusiness'')),
              (''name'', of_opt (org_name org)),
              (''url'', of_opt (org_url org)),
              (''address'', svc_provider_address opts areaServedArray)]
             @ (if length areaServedArray > 0
                then [(''areaServed'', JArr (map city areaServedArray))] else [])
             @ (if present (opt_phone opts) \<or> present (pd_phone pageData)
                then [(''telephone'', of_opt (or_else (opt_phone opts) (pd_phone pageData)))] else [])
             @ (if present (org_logo org)
                then [(''logo'', JObj [(''@type'', JStr ''ImageObject''), (''url'', of_opt (org_logo org))])]
                else []))
      in JObj
           ([(''@type'', JStr ''Service''),
             (''@id'', JStr (interp (pd_url pageData) @ ''#service'')),
             (''name'', (if st_name serviceInfo \<noteq> [] then JStr (st_name serviceInfo)
                         else of_opt (pd_title pageData))),
             (''description'', JStr (truncate (pd_description pageData) 200)),
             (''url'', of_opt (pd_url pageData)),
             (''serviceType'', JStr (st_type serviceInfo)),
             (''provider'', provider)]
            @ (if present (pd_featuredImage pageData)
               then [(''image'', JObj [(''@type'', JStr ''ImageObject''),
                                       (''url'', of_opt (pd_featuredImage pageData))])]
               else [])
            @ (if length areaServedArray \<ge> 1
               then [(''areaServed'', svc_areaServed areaServedArray)] else [])
            @ [(''brand'', JObj [(''@type'', JStr ''Brand''), (''name'', of_opt (org_name org))])]
            @ (if st_category serviceInfo \<noteq> [] then [(''category'', JStr (st_category serviceInfo))] else [])
            @ [(''offers'', JObj [(''@type'', JStr ''Offer''),
                                  (''availability'', JStr ''https://schema.org/InStock''),
                                  (''areaServed'', svc_areaServed areaServedArray)]),
               (''potentialAction'', JObj
                  [(''@type'', JStr ''ReserveAction''),
                   (''target'', JObj
                      [(''@type'', JStr ''EntryPoint''),
                       (''urlTemplate'', JStr (interp (org_url org) @ ''/contact'')),
                       (''actionPlatform'', JArr [JStr ''https://schema.org/DesktopWebPlatform'',
                                                  JStr ''https://schema.org/MobileWebPlatform''])]),
                   (''result'', JObj [(''@type'', JStr ''Reservation''),
                                      (''name'', JStr ''Service Appointment'')])])]))"

section \<open>LocalBusiness builder (src/schemas/localBusiness.js)\<close>

record bizOptions =
  bo_businessType :: "string option"
  bo_phone :: "string option"
  bo_email :: "string option"
  bo_serviceAreas :: "string list option"
  bo_areaServed :: "string option"
  bo_address :: "address option"
  bo_openingHours :: jsv
  bo_priceRange :: "string option"
  bo_sameAs :: "string list option"
  bo_rating :: "(jsv \<times> jsv) option"

definition lb_CANADIAN_PROVINCES :: "(string \<times> string) list" where
  "lb_CANADIAN_PROVINCES =
    [(''ON'', ''Ontario''), (''QC'', ''Quebec''), (''BC'', ''British Columbia''), (''AB'', ''Alberta''),
     (''MB'', ''Manitoba''), (''SK'', ''Saskatchewan''), (''NS'', ''Nova Scotia''), (''NB'', ''New Brunswick''),
     (''NL'', ''Newfoundland''), (''PE'', ''Prince Edward Island''), (''NT'', ''Northwest Territories''),
     (''YT'', ''Yukon''), (''NU'', ''Nunavut'')]"

definition lb_CANADIAN_CITIES :: "(string \<times> string list) list" where
  "lb_CANADIAN_CITIES =
    [(''ON'', [''Hamilton'', ''Toronto'', ''Ottawa'', ''Mississauga'', ''Brampton'', ''Burlington'', ''Oakville'',
       ''Stoney Creek'', ''Ancaster'', ''Dundas'', ''Waterdown'', ''Grimsby'', ''St. Catharines'', ''St Catharines'',
       ''Niagara Falls'', ''Niagara'', ''London'', ''Kitchener'', ''Waterloo'', ''Cambridge'', ''Guelph'',
       ''Binbrook'', ''Caledonia'', ''Brantford'', ''Milton'', ''Georgetown'', ''Markham'', ''Vaughan'', ''Richmond Hill'']),
     (''BC'', [''Vancouver'', ''Victoria'', ''Burnaby'', ''Surrey'', ''Richmond'', ''Kelowna'', ''Abbotsford'']),
     (''AB'', [''Calgary'', ''Edmonton'', ''Red Deer'', ''Lethbridge'', ''Medicine Hat'']),
     (''QC'', [''Montreal'', ''Quebec City'', ''Laval'', ''Gatineau'', ''Longueuil''])]"

definition lb_US_CITIES :: "(string \<times> string list) list" where
  "lb_US_CITIES =
    [(''TX'', [''Houston'', ''Dallas'', ''Austin'', ''San Antonio'', ''Fort Worth'', ''El Paso'', ''Arlington'', ''Plano'', ''Frisco'']),
     (''CA'', [''Los Angeles'', ''San Diego'', ''San Jose'', ''San Francisco'', ''Fresno'', ''Sacramento'', ''Long Beach'', ''Oakland'']),
     (''FL'', [''Miami'', ''Tampa'', ''Orlando'', ''Jacksonville'', ''Fort Lauderdale'', ''St. Petersburg'', ''Hialeah'']),
     (''NY'', [''New York'', ''Brooklyn'', ''Buffalo'', ''Rochester'', ''Syracuse'', ''Albany'', ''Yonkers'']),
     (''IL'', [''Chicago'', ''Aurora'', ''Naperville'', ''Joliet'', ''Rockford'', ''Springfield'']),
     (''PA'', [''Philadelphia'', ''Pittsburgh'', ''Allentown'', ''Erie'', ''Reading'']),
     (''AZ'', [''Phoenix'', ''Tucson'', ''Mesa'', ''Chandler'', ''Scottsdale'', ''Gilbert'', ''Tempe'']),
     (''GA'', [''Atlanta'', ''Augusta'', ''Columbus'', ''Savannah'', ''Athens'', ''Macon'']),
     (''NC'', [''Charlotte'', ''Raleigh'', ''Greensboro'', ''Durham'', ''Winston-Salem'', ''Fayetteville'']),
     (''OH'', [''Columbus'', ''Cleveland'', ''Cincinnati'', ''Toledo'', ''Akron'', ''Dayton'']),
     (''MI'', [''Detroit'', ''Grand Rapids'', ''Warren'', ''Sterling Heights'', ''Ann Arbor'', ''Lansing'']),
     (''TN'', [''Nashville'', ''Memphis'', ''Knoxville'', ''Chattanooga'', ''Clarksville'']),
     (''WA'', [''Seattle'', ''Spokane'', ''Tacoma'', ''Vancouver'', ''Bellevue'', ''Kent'']),
     (''CO'', [''Denver'', ''Colorado Springs'', ''Aurora'', ''Fort Collins'', ''Lakewood'', ''Boulder'']),
     (''MA'', [''Boston'', ''Worcester'', ''Springfield'', ''Cambridge'', ''Lowell'']),
     (''NV'', [''Las Vegas'', ''Henderson'', ''Reno'', ''North Las Vegas'', ''Sparks'']),
     (''IN'', [''Indianapolis'', ''Fort Wayne'', ''Evansville'', ''South Bend'', ''Carmel'']),
     (''MO'', [''Kansas City'', ''St. Louis'', ''Springfield'', ''Columbia'', ''Independence'']),
     (''MD'', [''Baltimore'', ''Frederick'', ''Rockville'', ''Gaithersburg'', ''Bowie'']),
     (''WI'', [''Milwaukee'', ''Madison'', ''Green Bay'', ''Kenosha'', ''Racine'']),
     (''MN'', [''Minneapolis'', ''St. Paul'', ''Rochester'', ''Duluth'', ''Bloomington'']),
     (''OK'', [''Oklahoma City'', ''Tulsa'', ''Norman'', ''Broken Arrow'', ''Edmond'']),
     (''OR'', [''Portland'', ''Salem'', ''Eugene'', ''Gresham'', ''Hillsboro'']),
     (''NJ'', [''Newark'', ''Jersey City'', ''Paterson'', ''Elizabeth'', ''Edison'']),
     (''VA'', [''Virginia Beach'', ''Norfolk'', ''Chesapeake'', ''Richmond'', ''Newport News'', ''Alexandria'']),
     (''LA'', [''New Orleans'', ''Baton Rouge'', ''Shreveport'', ''Lafayette'', ''Lake Charles'']),
     (''KY'', [''Louisville'', ''Lexington'', ''Bowling Green'', ''Owensboro'', ''Covington'']),
     (''SC'', [''Charleston'', ''Columbia'', ''North Charleston'', ''Mount Pleasant'', ''Greenville'']),
     (''AL'', [''Birmingham'', ''Montgomery'', ''Huntsville'', ''Mobile'', ''Tuscaloosa'']),
     (''UT'', [''Salt Lake City'', ''West Valley City'', ''Provo'', ''West Jordan'', ''Orem''])]"

definition detectCountry :: "address option \<Rightarrow> string list \<Rightarrow> string \<Rightarrow> string" where
  "detectCountry addr serviceAreas primaryArea =
     (let byAreas =
            (let allText = toLowerCase (js_join '' '' (serviceAreas @ [primaryArea]))
             in if region_of_text lb_CANADIAN_CITIES allText \<noteq> None then ''CA''
                else if region_of_text lb_US_CITIES allText \<noteq> None then ''US''
                else ''US'')
      in case addr of
           None \<Rightarrow> byAreas
         | Some a \<Rightarrow>
             if present (addr_addressCountry a) then or_empty (addr_addressCountry a)
             else if present (addr_postalCode a) \<and> ptest canadian_postal (or_empty (addr_postalCode a)) then ''CA''
             else if present (addr_postalCode a) \<and> ptest us_zip (or_empty (addr_postalCode a)) then ''US''
             else if present (addr_addressRegion a)
                     \<and> (map_of lb_CANADIAN_PROVINCES (toUpperCase (or_empty (addr_addressRegion a))) \<noteq> None
                         \<or> list_ex (\<lambda>p. toUpperCase p = toUpperCase (or_empty (addr_addressRegion a)))
                              (map snd lb_CANADIAN_PROVINCES)) then ''CA''
             else if present (addr_addressRegion a)
                     \<and> toUpperCase (or_empty (addr_addressRegion a)) \<in> set US_STATES then ''US''
             else byAreas)"

definition detectRegion :: "address option \<Rightarrow> string list \<Rightarrow> string \<Rightarrow> string \<Rightarrow> string" where
  "detectRegion addr serviceAreas primaryArea country =
     (let allText = toLowerCase (js_join '' '' (serviceAreas @ [primaryArea]));
          ca = (if country = ''CA'' then region_of_text lb_CANADIAN_CITIES allText else None);
          us = (if country = ''US'' then region_of_text lb_US_CITIES allText else None);
          byAreas = (case ca of Some province \<Rightarrow> province
                     | None \<Rightarrow> (case us of Some state \<Rightarrow> state | None \<Rightarrow> []))
      in case addr of
           None \<Rightarrow> byAreas
         | Some a \<Rightarrow> if present (addr_addressRegion a) then or_empty (addr_addressRegion a) else byAreas)"

text \<open>The list \<open>allAreas\<close> of \<open>generate\<close>.\<close>

definition lb_allAreas :: "bizOptions \<Rightarrow> string list" where
  "lb_allAreas opts =
     (let areas = (case bo_serviceAreas opts of None \<Rightarrow> [] | Some xs \<Rightarrow> xs);
          areaServedStr = or_empty (bo_areaServed opts);
          parsedAreas = (if areaServedStr \<noteq> [] then parse_areas areaServedStr else [])
      in if length areas > 0 then areas else parsedAreas)"

text \<open>The object assigned to \<open>schema.address\<close>.\<close>

definition lb_address :: "orgInfo \<Rightarrow> bizOptions \<Rightarrow> jsv" where
  "lb_address org opts =
     (let allAreas = lb_allAreas opts;
          primaryArea = (case allAreas of [] \<Rightarrow> [] | a # _ \<Rightarrow> a);
          detectedCountry = detectCountry (bo_address opts) allAreas primaryArea;
          detectedRegion = detectRegion (bo_address opts) allAreas primaryArea detectedCountry
      in case (case bo_address opts of
                 None \<Rightarrow> None
               | Some a \<Rightarrow> if present (addr_streetAddress a) \<or> present (addr_addressLocality a)
                           then Some a else None) of
           Some a \<Rightarrow>
             JObj ([(''@type'', JStr ''PostalAddress''),
                    (''addressCountry'',
                       JStr (if present (addr_addressCountry a) then or_empty (addr_addressCountry a)
                             else detectedCountry))]
                   @ (if present (addr_streetAddress a)
                      then [(''streetAddress'', of_opt (addr_streetAddress a))] else [])
                   @ (if present (addr_addressLocality a)
                      then [(''addressLocality'', of_opt (addr_addressLocality a))] else [])
                   @ (if present (addr_addressRegion a)
                      then [(''addressRegion'', of_opt (addr_addressRegion a))]
                      else if detectedRegion \<noteq> [] then [(''addressRegion'', JStr detectedRegion)] else [])
                   @ (if present (addr_postalCode a)
                      then [(''postalCode'', of_opt (addr_postalCode a))] else []))
         | None \<Rightarrow>
             if primaryArea \<noteq> []
             then (let parts = map trim (split_on CHR '','' primaryArea)
                   in JObj [(''@type'', JStr ''PostalAddress''),
                            (''addressLocality'', JStr (hd parts)),
                            (''addressRegion'',
                               JStr (if length parts > 1 \<and> parts ! 1 \<noteq> [] then parts ! 1
                                     else detectedRegion)),
                            (''addressCountry'', JStr detectedCountry)])
             else JObj ([(''@type'', JStr ''PostalAddress''),
                         (''addressCountry'', JStr detectedCountry)]
                        @ (if present (org_name org) \<and> org_name org \<noteq> Some ''Organization''
                           then [(''addressLocality'', of_opt (org_name org))] else [])
                        @ (if detectedRegion \<noteq> [] then [(''addressRegion'', JStr detectedRegion)] else [])))"

definition lb_offer :: "string \<Rightarrow> jsv" where
  "lb_offer name = JObj [(''@type'', JStr ''Offer''),
                         (''itemOffered'', JObj [(''@type'', JStr ''Service''), (''name'', JStr name)])]"

definition lb_generate :: "orgInfo \<Rightarrow> bizOptions \<Rightarrow> jsv" where
  "lb_generate org opts =
     (let logo = JObj [(''@type'', JStr ''ImageObject''),
                       (''url'', of_opt (org_logo org)),
                       (''@id'', JStr (interp (org_url org) @ ''#logo''))];
          allAreas = lb_allAreas opts;
          addr = lb_address org opts
      in JObj
          ([(''@type'', of_opt (or_else (bo_businessType opts) (Some ''HVACBusiness''))),
            (''name'', of_opt (org_name org)),
            (''url'', of_opt (org_url org)),
            (''@id'', JStr (interp (org_url org) @ ''#localbusiness''))]
           @ (if present (org_logo org) then [(''logo'', logo), (''image'', logo)] else [])
           @ (if present (bo_phone opts) then [(''telephone'', of_opt (bo_phone opts))] else [])
           @ (if present (bo_email opts) then [(''email'', of_opt (bo_email opts))] else [])
           @ [(''address'', addr)]
           @ (if length allAreas > 1 then [(''areaServed'', JArr (map city allAreas))]
              else if length allAreas = 1 then [(''areaServed'', city (hd allAreas))]
              else if truthy (get addr ''addressLocality'')
                   then [(''areaServed'', JObj [(''@type'', JStr ''City''),
                                                (''name'', get addr ''addressLocality'')])]
              else [])
           @ [(''openingHoursSpecification'',
                 (if truthy (bo_openingHours opts) then bo_openingHours opts
                  else JObj [(''@type'', JStr ''OpeningHoursSpecification''),
                             (''dayOfWeek'', JArr (map JStr
                                [''Monday'', ''Tuesday'', ''Wednesday'', ''Thursday'', ''Friday'', ''Saturday'', ''Sunday''])),
                             (''opens'', JStr ''00:00''),
                             (''closes'', JStr ''23:59'')]))]
           @ (if present (bo_priceRange opts) then [(''priceRange'', of_opt (bo_priceRange opts))] else [])
           @ (if nonempty_list (bo_sameAs opts)
              then [(''sameAs'', JArr (map JStr (case bo_sameAs opts of None \<Rightarrow> [] | Some xs \<Rightarrow> xs)))] else [])
           @ (case bo_rating opts of
                None \<Rightarrow> []
              | Some (v, cnt) \<Rightarrow>
                  [(''aggregateRating'', JObj [(''@type'', JStr ''AggregateRating''),
                                               (''ratingValue'', v),
                                               (''reviewCount'', cnt),
                                               (''bestRating'', JStr ''5''),
                                               (''worstRating'', JStr ''1'')])])
           @ [(''hasOfferCatalog'', JObj
                 [(''@type'', JStr ''OfferCatalog''),
                  (''name'', JStr ''HVAC Services''),
                  (''itemListElement'', JArr (map lb_offer
                     [''Air Conditioning Repair'', ''AC Installation'', ''Heating Repair'',
                      ''Furnace Installation'', ''HVAC Maintenance'']))])]))"

section \<open>Location builder (src/schemas/location.js)\<close>

text \<open>
  The builder that the composer runs for location pages. It returns three entities: the
  Service of the location, the business with this service area, and the Place.
\<close>

record locationInfo =
  li_city :: "string option"
  li_state :: "string option"
  li_country :: "string option"

definition loc_locationPatterns :: "re list" where
  "loc_locationPatterns =
    [seqs [alts [Lit ''in'', Lit ''near'', Lit ''serving''], Plus rs,
           Grp 1 (seqs [r_AZ, Plus r_az, Opt (seqs [Plus rs, r_AZ, Plus r_az])])],
     seqs [Grp 1 (seqs [r_AZ, Plus r_az, Opt (seqs [Plus rs, r_AZ, Plus r_az])]), Plus rs,
           alts [Lit ''AC'', Lit ''HVAC'', Lit ''Heating'', Lit ''Cooling'', Lit ''Air'']],
     seqs [Lit ''/location'', Opt (Lit ''s''), Lit ''/'', Grp 1 (Plus (Cls (lower_chars @ ''-'')))],
     seqs [Lit ''/'', Grp 1 (Plus (Cls (lower_chars @ ''-''))), Lit ''-'',
           alts [Lit ''ac'', Lit ''hvac'', Lit ''heating'', Lit ''cooling'']],
     seqs [Lit ''/'', alts [Lit ''ac'', Lit ''hvac'', Lit ''heating'', Lit ''cooling''], Lit ''-'',
           Grp 1 (Plus (Cls (lower_chars @ ''-'')))]]"

text \<open>\<open>formatCityName\<close>; the result \<open>None\<close> is \<open>null\<close>.\<close>

definition formatCityName :: "string option \<Rightarrow> string option" where
  "formatCityName name =
     (if \<not> present name then None
      else Some (trim (re_replace_all False (Seq WordB rw) toUpperCase None
                        (re_replace_all False (Lit ''-'') (\<lambda>_. '' '') None (or_empty name)))))"

text \<open>The first pattern that matches decides: \<open>formatCityName(match[1])\<close> is the city.\<close>

fun first_city :: "re list \<Rightarrow> string \<Rightarrow> string option option" where
  "first_city [] s = None"
| "first_city (r # rs') s =
     (case re_match_group True r 1 s of
        Some g \<Rightarrow> Some (formatCityName g)
      | None \<Rightarrow> first_city rs' s)"

definition canadianProvinces :: "string list" where
  "canadianProvinces =
    [''ON'', ''Ontario'', ''QC'', ''Quebec'', ''BC'', ''British Columbia'', ''AB'', ''Alberta'',
     ''MB'', ''Manitoba'', ''SK'', ''Saskatchewan'', ''NS'', ''Nova Scotia'', ''NB'', ''New Brunswick'',
     ''NL'', ''Newfoundland'', ''PE'', ''Prince Edward Island'', ''NT'', ''YT'', ''NU'']"

text \<open>The state patterns, each with its \<open>i\<close> flag; the first has none.\<close>

definition statePatterns :: "pattern list" where
  "statePatterns =
    [(False, seqs [Lit '','', Star rs, Grp 1 (Seq r_AZ r_AZ), WordB]),
     (True, seqs [WordB,
        Grp 1 (alts [Lit ''Ontario'', Lit ''ON'', Lit ''Quebec'', Lit ''QC'', Lit ''British Columbia'', Lit ''BC'',
                     Lit ''Alberta'', Lit ''AB'', Lit ''Manitoba'', Lit ''MB'', Lit ''Saskatchewan'', Lit ''SK'',
                     Lit ''Nova Scotia'', Lit ''NS'', Lit ''New Brunswick'', Lit ''NB'']),
        WordB]),
     (True, seqs [WordB,
        Grp 1 (alts [Lit ''Texas'', Lit ''TX'', Lit ''California'', Lit ''CA'', Lit ''Florida'', Lit ''FL'',
                     Lit ''Arizona'', Lit ''AZ'', Lit ''Nevada'', Lit ''NV'', Lit ''Colorado'', Lit ''CO'',
                     Lit ''Georgia'', Lit ''GA'', Lit ''North Carolina'', Lit ''NC'', Lit ''Ohio'', Lit ''OH'',
                     Lit ''Pennsylvania'', Lit ''PA'', Lit ''New York'', Lit ''NY'', Lit ''Illinois'', Lit ''IL'',
                     Lit ''Michigan'', Lit ''MI'', Lit ''Virginia'', Lit ''VA'', Lit ''Washington'', Lit ''WA'',
                     Lit ''Oregon'', Lit ''OR'']),
        WordB])]"

text \<open>\<open>match[1]\<close> of the first state pattern that matches.\<close>

fun first_state :: "pattern list \<Rightarrow> string \<Rightarrow> string option" where
  "first_state [] s = None"
| "first_state (pt # pts) s =
     (case re_match_group (fst pt) (snd pt) 1 s of
        Some g \<Rightarrow> Some (or_empty g)
      | None \<Rightarrow> first_state pts s)"

definition stateMap :: "(string \<times> string) list" where
  "stateMap =
    [(''texas'', ''TX''), (''california'', ''CA''), (''florida'', ''FL''), (''arizona'', ''AZ''),
     (''nevada'', ''NV''), (''colorado'', ''CO''), (''georgia'', ''GA''), (''north carolina'', ''NC''),
     (''ohio'', ''OH''), (''pennsylvania'', ''PA''), (''new york'', ''NY''), (''illinois'', ''IL''),
     (''michigan'', ''MI''), (''virginia'', ''VA''), (''washington'', ''WA''), (''oregon'', ''OR'')]"

text \<open>\<open>normalizeState\<close>, which is applied to the text a state pattern has captured (two
  letters or one of the listed names, never the name of an inherited property).\<close>

definition normalizeState :: "string \<Rightarrow> string" where
  "normalizeState state =
     (case map_of stateMap (toLowerCase state) of
        Some code \<Rightarrow> code
      | None \<Rightarrow> toUpperCase state)"

definition loc_postal :: re where
  "loc_postal = seqs [r_AZ, rd, r_AZ, Star rs, rd, r_AZ, rd]"

text \<open>\<open>extractLocation\<close>. The fields \<open>geo\<close> and \<open>address\<close> of its result stay \<open>null\<close>.\<close>

definition extractLocation :: "pageData \<Rightarrow> locationInfo" where
  "extractLocation pageData =
     (let title = or_empty (pd_title pageData);
          url = or_empty (pd_url pageData);
          content = or_empty (pd_content pageData);
          fromTitle = (case first_city loc_locationPatterns title of Some c \<Rightarrow> c | None \<Rightarrow> None);
          cityFound = (if present fromTitle then fromTitle
                       else (case first_city loc_locationPatterns url of
                               Some c \<Rightarrow> c
                             | None \<Rightarrow> fromTitle));
          combinedText = title @ '' '' @ content
      in case first_state statePatterns combinedText of
           Some m \<Rightarrow>
             \<lparr>li_city = cityFound,
              li_state = Some (normalizeState m),
              li_country = Some (if list_ex (\<lambda>p. toUpperCase p = toUpperCase m) canadianProvinces
                                 then ''CA'' else ''US'')\<rparr>
         | None \<Rightarrow>
             \<lparr>li_city = cityFound,
              li_state = None,
              li_country = (if re_test True loc_postal combinedText then Some ''CA'' else None)\<rparr>)"

definition loc_servicePatterns :: "(re \<times> string) list" where
  "loc_servicePatterns =
    [(ac_or_aircond (Lit ''repair''), ''Air Conditioning Repair''),
     (ac_or_aircond (Lit ''install''), ''Air Conditioning Installation''),
     (seqs [Lit ''heating'', ws0, Lit ''repair''], ''Heating Repair''),
     (Lit ''furnace'', ''Furnace Service''),
     (seqs [Lit ''heat'', ws0, Lit ''pump''], ''Heat Pump Service''),
     (seqs [Lit ''hvac'', ws0, Lit ''service''], ''HVAC Service''),
     (alts [Lit ''hvac'', seqs [Lit ''heating'', Star Dot, Lit ''cooling''],
            seqs [Lit ''air'', ws0, Lit ''condition'']], ''HVAC Service'')]"

definition loc_extractServiceType :: "pageData \<Rightarrow> string" where
  "loc_extractServiceType pageData =
     (let title = or_empty (pd_title pageData);
          content = or_empty (pd_content pageData);
          combinedText = title @ '' '' @ content
      in case find (\<lambda>(pat, type). re_test True pat combinedText) loc_servicePatterns of
           Some (pat, type) \<Rightarrow> type
         | None \<Rightarrow> ''HVAC Service'')"

definition getHVACServices :: "string list" where
  "getHVACServices =
    [''Air Conditioning Repair'', ''AC Installation'', ''Heating Repair'', ''Furnace Installation'',
     ''Heat Pump Service'', ''HVAC Maintenance'', ''Emergency HVAC Service'', ''Duct Cleaning'']"

text \<open>\<open>locationInfo.city || options.areaServed || 'Service Area'\<close>\<close>

definition locationName :: "locationInfo \<Rightarrow> options \<Rightarrow> string" where
  "locationName info opts =
     (if present (li_city info) then or_empty (li_city info)
      else if present (opt_areaServed opts) then or_empty (opt_areaServed opts)
      else ''Service Area'')"

text \<open>The address given to the business and to the Place.\<close>

definition loc_address :: "locationInfo \<Rightarrow> options \<Rightarrow> jsv" where
  "loc_address info opts =
     JObj [(''@type'', JStr ''PostalAddress''),
           (''addressLocality'', JStr (locationName info opts)),
           (''addressRegion'', JStr (or_empty (li_state info))),
           (''addressCountry'', JStr (if present (li_country info) then or_empty (li_country info)
                                      else ''CA''))]"

text \<open>\<open>truncate(str, maxLength)\<close> of location.js\<close>

definition loc_truncate :: "string option \<Rightarrow> nat \<Rightarrow> string" where
  "loc_truncate str maxLength =
     (if \<not> present str then []
      else if length (or_empty str) \<le> maxLength then or_empty str
      else take (maxLength - 3) (or_empty str) @ ''...'')"

text \<open>The Service entity: its provider is the reference to the business and nothing else.\<close>

definition loc_service :: "pageData \<Rightarrow> orgInfo \<Rightarrow> options \<Rightarrow> jsv" where
  "loc_service pageData org opts =
     (let info = extractLocation pageData;
          name = locationName info opts
      in JObj
           ([(''@type'', JStr ''Service''),
             (''@id'', JStr (interp (pd_url pageData) @ ''#service'')),
             (''name'', JStr (if present (pd_title pageData) then or_empty (pd_title pageData)
                              else ''HVAC Services in '' @ name)),
             (''description'', JStr (loc_truncate (pd_description pageData) 200)),
             (''url'', of_opt (pd_url pageData)),
             (''provider'', JObj [(''@type'', JStr ''LocalBusiness''),
                                  (''@id'', JStr (interp (org_url org) @ ''#localbusiness''))]),
             (''areaServed'', JObj
                ([(''@type'', JStr ''City''), (''name'', JStr name)]
                 @ (if present (li_state info)
                    then [(''containedInPlace'', JObj [(''@type'', JStr ''State''),
                                                       (''name'', of_opt (li_state info))])]
                    else []))),
             (''serviceType'', JStr (loc_extractServiceType pageData))]
            @ (if present (pd_featuredImage pageData)
               then [(''image'', JObj [(''@type'', JStr ''ImageObject''),
                                       (''url'', of_opt (pd_featuredImage pageData))])]
               else [])))"

definition loc_business :: "pageData \<Rightarrow> orgInfo \<Rightarrow> options \<Rightarrow> jsv" where
  "loc_business pageData org opts =
     (let info = extractLocation pageData;
          name = locationName info opts;
          logo = JObj [(''@type'', JStr ''ImageObject''), (''url'', of_opt (org_logo org))]
      in JObj
           ([(''@type'', of_opt (or_else (opt_businessType opts) (Some ''HVACBusiness''))),
             (''@id'', JStr (interp (org_url org) @ ''#localbusiness'')),
             (''name'', of_opt (org_name org)),
             (''url'', of_opt (org_url org)),
             (''areaServed'', JObj [(''@type'', JStr ''City''), (''name'', JStr name)])]
            @ (if present (org_logo org) then [(''logo'', logo), (''image'', logo)] else [])
            @ (if present (opt_phone opts) \<or> present (pd_phone pageData)
               then [(''telephone'', of_opt (or_else (opt_phone opts) (pd_phone pageData)))] else [])
            @ [(''address'', loc_address info opts),
               (''hasOfferCatalog'', JObj
                  [(''@type'', JStr ''OfferCatalog''),
                   (''name'', JStr (''HVAC Services in '' @ name)),
                   (''itemListElement'', JArr (map (\<lambda>offered. JObj
                      [(''@type'', JStr ''Offer''),
                       (''itemOffered'', JObj
                          [(''@type'', JStr ''Service''),
                           (''name'', JStr offered),
                           (''areaServed'', JObj [(''@type'', JStr ''City''), (''name'', JStr name)])])])
                      getHVACServices))])]))"

definition loc_place :: "pageData \<Rightarrow> orgInfo \<Rightarrow> options \<Rightarrow> jsv" where
  "loc_place pageData org opts =
     (let info = extractLocation pageData
      in JObj [(''@type'', JStr ''Place''),
               (''@id'', JStr (interp (pd_url pageData) @ ''#place'')),
               (''name'', JStr (locationName info opts)),
               (''address'', loc_address info opts)])"

text \<open>\<open>generate(pageData, orgInfo, options)\<close>\<close>

definition loc_generate :: "pageData \<Rightarrow> orgInfo \<Rightarrow> options \<Rightarrow> jsv list" where
  "loc_generate pageData org opts =
     [loc_service pageData org opts, loc_business pageData org opts, loc_place pageData org opts]"

section \<open>Graph composer (src/services/schemaGenerator.js)\<close>

text \<open>
  For the page type service, \<open>generate\<close> first pushes the Service entity and the business
  entity built from \<open>businessOptions\<close>; for the page type location it pushes the three
  entities of the Location builder. The FAQ, breadcrumb, image and page entities follow them
  in the graph. These are the entities it pushes first.
\<close>

definition businessOptions :: "pageData \<Rightarrow> options \<Rightarrow> bizOptions" where
  "businessOptions pageData opts =
     \<lparr>bo_businessType = or_else (opt_businessType opts) (Some ''HVACBusiness''),
      bo_phone = or_else (pd_phone pageData) (opt_phone opts),
      bo_email = None,
      bo_serviceAreas = pd_serviceAreas pageData,
      bo_areaServed = opt_areaServed opts,
      bo_address = opt_address opts,
      bo_openingHours = JUndefined,
      bo_priceRange = None,
      bo_sameAs = opt_sameAs opts,
      bo_rating = None\<rparr>"

definition compose_service_head :: "pageData \<Rightarrow> orgInfo \<Rightarrow> options \<Rightarrow> jsv list" where
  "compose_service_head pageData org opts =
     [svc_generate pageData org opts, lb_generate org (businessOptions pageData opts)]"

definition compose_location_head :: "pageData \<Rightarrow> orgInfo \<Rightarrow> options \<Rightarrow> jsv list" where
  "compose_location_head pageData org opts = loc_generate pageData org opts"

section \<open>Builders: the address of a business entity\<close>

definition populated :: "jsv \<Rightarrow> string \<Rightarrow> bool" where
  "populated obj key = truthy (get obj key)"

fun is_object :: "jsv \<Rightarrow> bool" where
  "is_object (JObj kvs) = True"
| "is_object v = False"

text \<open>An address that is an object with a street or a locality filled in.\<close>

definition located :: "jsv \<Rightarrow> bool" where
  "located a = (is_object a \<and> (populated a ''streetAddress'' \<or> populated a ''addressLocality''))"

definition has_located_address :: "jsv \<Rightarrow> bool" where
  "has_located_address e = located (get e ''address'')"

text \<open>The first served area has text before its first comma.\<close>

definition first_area_named :: "string list \<Rightarrow> bool" where
  "first_area_named areas = (case areas of [] \<Rightarrow> False | a # _ \<Rightarrow> \<not> blank (hd (split_on CHR '','' a)))"

text \<open>When the Service builder fills the provider's locality: the options carry an address
  with a locality, or the first area (given or detected on the page) is named.\<close>

definition svc_locality_known :: "pageData \<Rightarrow> options \<Rightarrow> bool" where
  "svc_locality_known pageData opts =
     ((case opt_address opts of None \<Rightarrow> False | Some a \<Rightarrow> present (addr_addressLocality a))
      \<or> first_area_named (svc_areaServedArray pageData opts))"

text \<open>When the LocalBusiness builder fills a street or locality: the options carry an address
  with one of them, or the first area is named, or there is no first area and the
  organisation has a name other than the placeholder.\<close>

definition lb_locality_known :: "orgInfo \<Rightarrow> bizOptions \<Rightarrow> bool" where
  "lb_locality_known org opts =
     ((case bo_address opts of
         None \<Rightarrow> False
       | Some a \<Rightarrow> present (addr_streetAddress a) \<or> present (addr_addressLocality a))
      \<or> (case lb_allAreas opts of
            [] \<Rightarrow> present (org_name org) \<and> org_name org \<noteq> Some ''Organization''
          | a # _ \<Rightarrow> if a = [] then present (org_name org) \<and> org_name org \<noteq> Some ''Organization''
                     else \<not> blank (hd (split_on CHR '','' a))))"

text \<open>The page and organisation of the repository's own composer test, with no options.\<close>

definition test_page :: pageData where
  "test_page = \<lparr>pd_url = Some ''https://example.com/services/test'', pd_title = Some ''Test Service'',
     pd_description = Some ''Description'', pd_content = None,
     pd_headings = None, pd_author = None, pd_publishDate = None, pd_categories = None,
     pd_tags = None, pd_wordpressInfo = None, pd_phone = None, pd_featuredImage = None,
     pd_serviceAreas = None, pd_faqs = None\<rparr>"

definition company :: orgInfo where
  "company = \<lparr>org_name = Some ''Company'', org_url = Some ''https://example.com'',
     org_logo = None, org_phone = None, org_areaServed = None\<rparr>"

definition no_options :: options where
  "no_options = \<lparr>opt_areaServed = None, opt_businessType = None, opt_phone = None,
     opt_address = None, opt_sameAs = None\<rparr>"

lemma test_page_location: "extractLocationFromPage test_page = None"
  by code_simp

lemma test_page_areas: "svc_areaServedArray test_page no_options = []"
  by (simp add: svc_areaServedArray_def test_page_location no_options_def present_def or_empty_def)

lemma svc_provider_address_eq:
  "get (get (svc_generate pd org opts) ''provider'') ''address''
     = svc_provider_address opts (svc_areaServedArray pd opts)"
  by (simp add: svc_generate_def Let_def)

lemma lb_address_eq: "get (lb_generate org opts) ''address'' = lb_address org opts"
  by (simp add: lb_generate_def Let_def)

lemma split_on_nonempty: "split_on c s \<noteq> []"
  by (induction s) (auto split: list.splits)

lemma split_on_no_sep: "x \<in> set (split_on c s) \<Longrightarrow> c \<notin> set x"
proof (induction s arbitrary: x)
  case Nil
  then show ?case by simp
next
  case (Cons y ys)
  show ?case
  proof (cases "y = c")
    case True
    with Cons show ?thesis by auto
  next
    case False
    obtain z zs where zs: "split_on c ys = z # zs"
      using split_on_nonempty [of c ys] by (cases "split_on c ys") auto
    with False Cons.prems have "x = y # z \<or> x \<in> set zs" by simp
    then show ?thesis
    proof
      assume "x = y # z"
      moreover have "c \<notin> set z" using Cons.IH [of z] zs by simp
      ultimately show ?thesis using False by auto
    next
      assume "x \<in> set zs"
      then show ?thesis using Cons.IH [of x] zs by simp
    qed
  qed
qed

lemma split_on_without_sep: "c \<notin> set s \<Longrightarrow> split_on c s = [s]"
  by (induction s) auto

lemma set_trim: "set (trim s) \<subseteq> set s"
proof -
  have "set (trim s) \<subseteq> set (dropWhile is_space s)"
    unfolding trim_def using set_dropWhileD [of _ is_space "rev (dropWhile is_space s)"] by auto
  also have "\<dots> \<subseteq> set s"
    using set_dropWhileD [of _ is_space s] by auto
  finally show ?thesis .
qed

lemma trim_not_blank: "trim s \<noteq> [] \<Longrightarrow> \<not> blank (trim s)"
proof -
  assume ne: "trim s \<noteq> []"
  let ?d = "dropWhile is_space (rev (dropWhile is_space s))"
  from ne have d: "?d \<noteq> []" by (simp add: trim_def)
  then have "\<not> is_space (hd ?d)" by (rule hd_dropWhile)
  moreover from d have "hd ?d \<in> set (trim s)" by (simp add: trim_def)
  ultimately show ?thesis by (auto simp: blank_def list_all_iff)
qed

lemma parse_areas_named: "first_area_named (parse_areas s) = (parse_areas s \<noteq> [])"
proof (cases "parse_areas s")
  case Nil
  then show ?thesis by (simp add: first_area_named_def)
next
  case (Cons a as)
  then have "a \<in> set (parse_areas s)" by simp
  then obtain y where y: "y \<in> set (split_on CHR '','' s)" and a: "a = trim y" and ne: "a \<noteq> []"
    by (auto simp: parse_areas_def)
  from y have "CHR '','' \<notin> set y" by (rule split_on_no_sep)
  with a set_trim [of y] have "CHR '','' \<notin> set a" by auto
  then have "split_on CHR '','' a = [a]" by (rule split_on_without_sep)
  moreover from a ne have "\<not> blank a" using trim_not_blank [of y] by simp
  ultimately show ?thesis using Cons by (simp add: first_area_named_def)
qed

lemma detectCountryFromAreas_nonempty: "detectCountryFromAreas a xs \<noteq> []"
  by (auto simp: detectCountryFromAreas_def Let_def present_def split: option.splits)

lemma detectCountry_nonempty: "detectCountry a xs p \<noteq> []"
  by (auto simp: detectCountry_def Let_def present_def split: option.splits)

lemma hd_parts: "hd (map trim (split_on c a)) = trim (hd (split_on c a))"
  using split_on_nonempty [of c a] by (simp add: hd_map)

lemma svc_address_object:
  "is_object (svc_provider_address opts areas) \<and> populated (svc_provider_address opts areas) ''addressCountry''"
  by (auto simp: svc_provider_address_def Let_def populated_def detectCountryFromAreas_nonempty present_def
           split: option.splits)

lemma svc_address_located:
  "located (svc_provider_address opts areas) =
     ((case opt_address opts of None \<Rightarrow> False | Some a \<Rightarrow> present (addr_addressLocality a))
      \<or> first_area_named areas)"
proof (cases "case opt_address opts of None \<Rightarrow> None
               | Some a \<Rightarrow> if present (addr_addressLocality a) then Some a else None")
  case (Some a)
  then have "opt_address opts = Some a" and "present (addr_addressLocality a)"
    by (auto split: option.splits if_splits)
  then show ?thesis
    by (auto simp: svc_provider_address_def Let_def located_def populated_def present_def or_empty_def
          of_opt_def split: option.splits)
next
  case None
  then have no: "(case opt_address opts of None \<Rightarrow> False | Some a \<Rightarrow> present (addr_addressLocality a)) = False"
    by (auto split: option.splits if_splits)
  show ?thesis
  proof (cases areas)
    case Nil
    with None no show ?thesis
      by (simp add: svc_provider_address_def Let_def located_def populated_def first_area_named_def)
  next
    case (Cons a as)
    with None no show ?thesis
      by (simp add: svc_provider_address_def Let_def located_def populated_def first_area_named_def
            hd_parts trim_Nil_iff)
  qed
qed

lemma lb_address_object:
  "is_object (lb_address org opts) \<and> populated (lb_address org opts) ''addressCountry''"
  by (auto simp: lb_address_def Let_def populated_def detectCountry_nonempty present_def
           split: option.splits list.splits)

lemma lb_address_located: "located (lb_address org opts) = lb_locality_known org opts"
proof (cases "case bo_address opts of None \<Rightarrow> None
               | Some a \<Rightarrow> if present (addr_streetAddress a) \<or> present (addr_addressLocality a)
                           then Some a else None")
  case (Some a)
  then have "bo_address opts = Some a" and "present (addr_streetAddress a) \<or> present (addr_addressLocality a)"
    by (auto split: option.splits if_splits)
  then show ?thesis
    by (auto simp: lb_address_def lb_locality_known_def Let_def located_def populated_def present_def
          or_empty_def of_opt_def split: option.splits)
next
  case None
  then have no: "(case bo_address opts of None \<Rightarrow> False
                  | Some a \<Rightarrow> present (addr_streetAddress a) \<or> present (addr_addressLocality a)) = False"
    by (auto split: option.splits if_splits)
  show ?thesis
  proof (cases "lb_allAreas opts")
    case Nil
    with None no show ?thesis
      by (auto simp: lb_address_def lb_locality_known_def Let_def located_def populated_def
            present_def or_empty_def of_opt_def split: option.splits)
  next
    case (Cons a as)
    show ?thesis
    proof (cases "a = []")
      case True
      with Cons None no show ?thesis
        by (auto simp: lb_address_def lb_locality_known_def Let_def located_def populated_def
              present_def or_empty_def of_opt_def split: option.splits)
    next
      case False
      with Cons None no show ?thesis
        by (simp add: lb_address_def lb_locality_known_def Let_def located_def populated_def
              hd_parts trim_Nil_iff)
    qed
  qed
qed

lemma locationName_nonempty: "locationName info opts \<noteq> []"
  by (auto simp: locationName_def present_def)

lemma loc_provider:
  "get (loc_service pd org opts) ''provider''
     = JObj [(''@type'', JStr ''LocalBusiness''),
             (''@id'', JStr (interp (org_url org) @ ''#localbusiness''))]"
  by (simp add: loc_service_def Let_def)

lemma loc_business_address:
  "get (loc_business pd org opts) ''address'' = loc_address (extractLocation pd) opts"
  by (simp add: loc_business_def Let_def)

lemma loc_address_located:
  "located (loc_address info opts) \<and> populated (loc_address info opts) ''addressCountry''"
  by (simp add: loc_address_def located_def populated_def locationName_nonempty present_def)

text \<open>
  C2, as the specification states it, fails: for the page and organisation of the
  repository's composer test and no options (no address, no areaServed, no location
  detectable on the page) the provider's address has neither street nor locality; and the
  LocalBusiness builder leaves both out for an organisation named by the placeholder
  \<open>Organization\<close>.
\<close>

theorem address_locality_counterexample:
  "\<not> has_located_address (get (svc_generate test_page company no_options) ''provider'')
   \<and> \<not> has_located_address
        (lb_generate (company\<lparr>org_name := Some ''Organization''\<rparr>) (businessOptions test_page no_options))"
proof -
  have "opt_address no_options = None"
    by (simp add: no_options_def)
  then have "\<not> svc_locality_known test_page no_options"
    by (simp add: svc_locality_known_def test_page_areas first_area_named_def)
  moreover have "\<not> lb_locality_known (company\<lparr>org_name := Some ''Organization''\<rparr>)
                     (businessOptions test_page no_options)"
    by (simp add: lb_locality_known_def lb_allAreas_def businessOptions_def test_page_def
          no_options_def or_empty_def company_def)
  ultimately show ?thesis
    by (simp add: has_located_address_def svc_provider_address_eq lb_address_eq
          svc_address_located lb_address_located svc_locality_known_def)
qed

text \<open>
  C2, amended. On service pages, for all inputs the provider built by the Service builder
  and the entity built by the LocalBusiness builder have an address object with a
  populated addressCountry. A street or locality is populated exactly in these cases: for
  the provider, when the options carry an address with a locality or the first served area
  (from options.areaServed, else detected on the page) has text before its first comma;
  for the LocalBusiness entity, when the options carry an address with a street or a
  locality, or the first area has such text, or there is no first area and the
  organisation's name is neither empty nor \<open>Organization\<close>. Every non-empty list parsed from
  an areaServed string has a named first area. On location pages, for all inputs the
  business entity of the Location builder has an address object with a populated
  addressLocality (the city found on the page, else options.areaServed, else
  \<open>Service Area\<close>) and a populated addressCountry, while the provider of its Service entity
  is the bare reference to the business, \<open>@type\<close> and \<open>@id\<close>, with no address at all.
\<close>

theorem builders_address_always_present:
  "is_object (get (get (svc_generate pd org opts) ''provider'') ''address'')
   \<and> populated (get (get (svc_generate pd org opts) ''provider'') ''address'') ''addressCountry''
   \<and> has_located_address (get (svc_generate pd org opts) ''provider'') = svc_locality_known pd opts
   \<and> is_object (get (lb_generate org bopts) ''address'')
   \<and> populated (get (lb_generate org bopts) ''address'') ''addressCountry''
   \<and> has_located_address (lb_generate org bopts) = lb_locality_known org bopts
   \<and> first_area_named (parse_areas s) = (parse_areas s \<noteq> [])
   \<and> compose_location_head pd org opts
       = [loc_service pd org opts, loc_business pd org opts, loc_place pd org opts]
   \<and> has_located_address (loc_business pd org opts)
   \<and> populated (get (loc_business pd org opts) ''address'') ''addressLocality''
   \<and> populated (get (loc_business pd org opts) ''address'') ''addressCountry''
   \<and> get (loc_service pd org opts) ''provider''
       = JObj [(''@type'', JStr ''LocalBusiness''),
               (''@id'', JStr (interp (org_url org) @ ''#localbusiness''))]
   \<and> get (get (loc_service pd org opts) ''provider'') ''address'' = JUndefined
   \<and> \<not> has_located_address (get (loc_service pd org opts) ''provider'')"
proof -
  have loc: "has_located_address (loc_business pd org opts)
      \<and> populated (get (loc_business pd org opts) ''address'') ''addressLocality''
      \<and> populated (get (loc_business pd org opts) ''address'') ''addressCountry''"
    using loc_address_located [of "extractLocation pd" opts]
    by (simp add: has_located_address_def loc_business_address)
      (simp add: loc_address_def populated_def locationName_nonempty)
  have ref: "get (get (loc_service pd org opts) ''provider'') ''address'' = JUndefined
      \<and> \<not> has_located_address (get (loc_service pd org opts) ''provider'')"
    by (simp add: loc_provider has_located_address_def located_def)
  show ?thesis
    using svc_address_object [of opts "svc_areaServedArray pd opts"] lb_address_object [of org bopts]
      loc ref
    by (simp add: has_located_address_def svc_provider_address_eq lb_address_eq
          svc_address_located lb_address_located svc_locality_known_def parse_areas_named
          compose_location_head_def loc_generate_def loc_provider)
qed

section \<open>Repair pass over generated schemas (src/services/ai/schemaGenerator.js)\<close>

datatype js_error = TypeError

text \<open>
  \<open>obj[key] = v\<close>: an existing key keeps its place, a new key goes to the end. The
  assignment leaves a primitive as it is; on an array it would set a named property, which
  no later read of this code and no JSON output sees, so the array is left as it is too.
\<close>

fun set_field :: "string \<Rightarrow> jsv \<Rightarrow> (string \<times> jsv) list \<Rightarrow> (string \<times> jsv) list" where
  "set_field key v [] = [(key, v)]"
| "set_field key v ((k, w) # kvs) = (if k = key then (k, v) # kvs else (k, w) # set_field key v kvs)"

fun set_prop :: "jsv \<Rightarrow> string \<Rightarrow> jsv \<Rightarrow> jsv" where
  "set_prop (JObj kvs) key v = JObj (set_field key v kvs)"
| "set_prop obj key v = obj"

text \<open>\<open>typeof v === 'object'\<close> for a truthy \<open>v\<close>.\<close>

fun typeof_object :: "jsv \<Rightarrow> bool" where
  "typeof_object (JObj kvs) = True"
| "typeof_object (JArr xs) = True"
| "typeof_object JNull = True"
| "typeof_object v = False"

definition cleanIdReference :: "jsv \<Rightarrow> jsv" where
  "cleanIdReference obj =
     (if truthy obj \<and> typeof_object obj \<and> truthy (get obj ''@id'')
      then JObj [(''@id'', get obj ''@id'')] else obj)"

text \<open>\<open>if (schema.k && schema.k['@id']) schema.k = cleanIdReference(schema.k)\<close>\<close>

definition clean_field :: "string \<Rightarrow> jsv \<Rightarrow> jsv" where
  "clean_field key schema =
     (if truthy (get schema key) \<and> truthy (get (get schema key) ''@id'')
      then set_prop schema key (cleanIdReference (get schema key)) else schema)"

definition canadianCities :: "string list" where
  "canadianCities =
    [''Hamilton'', ''Toronto'', ''Ottawa'', ''Burlington'', ''Oakville'', ''Mississauga'',
     ''Brampton'', ''Ancaster'', ''Dundas'', ''Stoney Creek'', ''Waterdown'', ''Grimsby'', ''Vancouver'',
     ''Calgary'', ''Edmonton'', ''Montreal'', ''Kitchener'', ''Waterloo'', ''London'', ''Guelph'', ''Cambridge'']"

record detected =
  detectedCountry :: string
  detectedRegion :: string
  detectedCity :: string

definition detect_place :: "orgInfo \<Rightarrow> pageData \<Rightarrow> detected" where
  "detect_place org pageData =
     (let serviceAreas = (case pd_serviceAreas pageData of None \<Rightarrow> [] | Some xs \<Rightarrow> xs);
          areaServed = or_empty (org_areaServed org);
          allAreas = (if areaServed \<noteq> [] then parse_areas areaServed else serviceAreas);
          allText = toLowerCase (js_join '' '' allAreas)
      in case find (\<lambda>c. str_includes allText (toLowerCase c)) canadianCities of
           Some c \<Rightarrow>
             \<lparr>detectedCountry = ''CA'',
              detectedRegion = (if c \<in> set [''Vancouver''] then ''BC''
                                else if c \<in> set [''Calgary'', ''Edmonton''] then ''AB''
                                else if c \<in> set [''Montreal''] then ''QC''
                                else ''ON''),
              detectedCity = c\<rparr>
         | None \<Rightarrow>
             \<lparr>detectedCountry = ''CA'', detectedRegion = ''ON'',
              detectedCity = (case allAreas of [] \<Rightarrow> [] | a # _ \<Rightarrow> a)\<rparr>)"

text \<open>The address part of the pass, for a business entity.\<close>

definition ensure_address :: "detected \<Rightarrow> orgInfo \<Rightarrow> jsv \<Rightarrow> jsv" where
  "ensure_address d org schema =
     (let locality = (if detectedCity d \<noteq> [] then JStr (detectedCity d) else of_opt (org_name org))
      in if \<not> truthy (get schema ''address'')
         then set_prop schema ''address''
                (JObj [(''@type'', JStr ''PostalAddress''),
                       (''addressLocality'', locality),
                       (''addressRegion'', JStr (detectedRegion d)),
                       (''addressCountry'', JStr (detectedCountry d))])
         else if \<not> truthy (get (get schema ''address'') ''addressLocality'')
                 \<and> \<not> truthy (get (get schema ''address'') ''streetAddress'')
         then (let a1 = set_prop (get schema ''address'') ''addressLocality'' locality;
                   a2 = (if \<not> truthy (get a1 ''addressRegion'')
                         then set_prop a1 ''addressRegion'' (JStr (detectedRegion d)) else a1);
                   a3 = (if \<not> truthy (get a2 ''addressCountry'')
                         then set_prop a2 ''addressCountry'' (JStr (detectedCountry d)) else a2)
               in set_prop schema ''address'' a3)
         else schema)"

definition ensure_telephone :: "orgInfo \<Rightarrow> pageData \<Rightarrow> jsv \<Rightarrow> jsv" where
  "ensure_telephone org pageData schema =
     (if \<not> truthy (get schema ''telephone'') \<and> (present (org_phone org) \<or> present (pd_phone pageData))
      then set_prop schema ''telephone'' (of_opt (or_else (org_phone org) (pd_phone pageData)))
      else schema)"

text \<open>What the callback of \<open>schemas.map\<close> does to the schema of one item.\<close>

definition repair_schema :: "detected \<Rightarrow> orgInfo \<Rightarrow> pageData \<Rightarrow> jsv \<Rightarrow> jsv" where
  "repair_schema d org pageData schema =
     (let s1 = (if get schema ''@type'' = JStr ''Service'' then clean_field ''provider'' schema else schema);
          s2 = (if get s1 ''@type'' = JStr ''Article'' then clean_field ''publisher'' s1 else s1);
          s3 = (if get s2 ''@type'' = JStr ''WebPage''
                then clean_field ''about'' (clean_field ''isPartOf'' s2) else s2);
          s4 = (if get s3 ''@type'' = JStr ''FAQPage'' then clean_field ''isPartOf'' s3 else s3)
      in if get s4 ''@type'' = JStr ''HVACBusiness'' \<or> get s4 ''@type'' = JStr ''LocalBusiness''
         then ensure_telephone org pageData (ensure_address d org s4)
         else s4)"

text \<open>The callback: reading \<open>item.schema\<close> of null or undefined throws.\<close>

definition repair_item :: "detected \<Rightarrow> orgInfo \<Rightarrow> pageData \<Rightarrow> jsv \<Rightarrow> js_error + jsv" where
  "repair_item d org pageData item =
     (if item = JNull \<or> item = JUndefined then Inl TypeError
      else if \<not> truthy (get item ''schema'') then Inr item
      else Inr (set_prop item ''schema'' (repair_schema d org pageData (get item ''schema''))))"

text \<open>\<open>xs.map(f)\<close> for a callback that may throw.\<close>

fun map_throwing :: "('a \<Rightarrow> 'e + 'b) \<Rightarrow> 'a list \<Rightarrow> 'e + 'b list" where
  "map_throwing f [] = Inr []"
| "map_throwing f (x # xs) =
     (case f x of
        Inl e \<Rightarrow> Inl e
      | Inr y \<Rightarrow> (case map_throwing f xs of Inl e \<Rightarrow> Inl e | Inr ys \<Rightarrow> Inr (y # ys)))"

definition ensureProviderAddresses :: "jsv \<Rightarrow> orgInfo \<Rightarrow> pageData \<Rightarrow> js_error + jsv" where
  "ensureProviderAddresses schemas org pageData =
     (case schemas of
        JArr items \<Rightarrow>
          (case map_throwing (repair_item (detect_place org pageData) org pageData) items of
             Inl e \<Rightarrow> Inl e
           | Inr items' \<Rightarrow> Inr (JArr items'))
      | _ \<Rightarrow> Inr schemas)"

text \<open>A pure reference: an object with the one key \<open>@id\<close>.\<close>

fun pure_reference :: "jsv \<Rightarrow> bool" where
  "pure_reference (JObj [(k, i)]) = (k = ''@id'')"
| "pure_reference v = False"

section \<open>Repair pass: results\<close>

text \<open>A field that carries an \<open>@id\<close> is a pure reference.\<close>

definition ref_ok :: "jsv \<Rightarrow> string \<Rightarrow> bool" where
  "ref_ok s k = (if truthy (get s k) \<and> truthy (get (get s k) ''@id'') then pure_reference (get s k) else True)"

text \<open>The reference fields of one item of the pass, by the type of its schema.\<close>

definition refs_pure :: "jsv \<Rightarrow> bool" where
  "refs_pure item =
     (let s = get item ''schema''
      in (if get s ''@type'' = JStr ''Service'' then ref_ok s ''provider'' else True)
         \<and> (if get s ''@type'' = JStr ''Article'' then ref_ok s ''publisher'' else True)
         \<and> (if get s ''@type'' = JStr ''WebPage'' then ref_ok s ''isPartOf'' \<and> ref_ok s ''about'' else True)
         \<and> (if get s ''@type'' = JStr ''FAQPage'' then ref_ok s ''isPartOf'' else True))"

text \<open>An AI answer in the wrapper format: a business without address and a Service whose
  provider repeats fields of the business next to its \<open>@id\<close>.\<close>

definition ai_example :: "jsv list" where
  "ai_example =
    [JObj [(''type'', JStr ''HVACBusiness''),
           (''schema'', JObj [(''@type'', JStr ''HVACBusiness''), (''@id'', JStr ''#business''),
                              (''name'', JStr ''Acme'')])],
     JObj [(''type'', JStr ''Service''),
           (''schema'', JObj [(''@type'', JStr ''Service''), (''name'', JStr ''Heating''),
                              (''provider'', JObj [(''@id'', JStr ''#business''), (''name'', JStr ''Acme''),
                                                   (''telephone'', JStr ''555'')])])]]"

definition ai_repaired :: "jsv list" where
  "ai_repaired =
    [JObj [(''type'', JStr ''HVACBusiness''),
           (''schema'', JObj [(''@type'', JStr ''HVACBusiness''), (''@id'', JStr ''#business''),
                              (''name'', JStr ''Acme''),
                              (''address'', JObj [(''@type'', JStr ''PostalAddress''),
                                                  (''addressLocality'', JStr ''Hamilton''),
                                                  (''addressRegion'', JStr ''ON''),
                                                  (''addressCountry'', JStr ''CA'')]),
                              (''telephone'', JStr ''555-0100'')])],
     JObj [(''type'', JStr ''Service''),
           (''schema'', JObj [(''@type'', JStr ''Service''), (''name'', JStr ''Heating''),
                              (''provider'', JObj [(''@id'', JStr ''#business'')])])]]"

definition acme :: orgInfo where
  "acme = \<lparr>org_name = Some ''Acme'', org_url = Some ''https://acme.example'', org_logo = None,
     org_phone = Some ''555-0100'', org_areaServed = Some ''Hamilton, Burlington''\<rparr>"

lemma map_of_set_field: "map_of (set_field k v kvs) k' = (if k' = k then Some v else map_of kvs k')"
  by (induction kvs) auto

lemma set_field_same: "map_of kvs k = Some v \<Longrightarrow> set_field k v kvs = kvs"
  by (induction kvs) (auto split: if_splits)

lemma get_set_prop_obj: "get (set_prop (JObj kvs) k v) k' = (if k' = k then v else get (JObj kvs) k')"
  by (simp add: map_of_set_field)

lemma truthy_get_obj: "truthy (get s k) \<Longrightarrow> \<exists>kvs. s = JObj kvs"
  by (cases s) auto

lemma get_set_prop_other: "k' \<noteq> k \<Longrightarrow> get (set_prop s k v) k' = get s k'"
  by (cases s) (auto simp: map_of_set_field)

lemma get_set_prop_same: "truthy (get s k) \<Longrightarrow> get (set_prop s k v) k = v"
  by (cases s) (auto simp: map_of_set_field)

lemma set_prop_same: "truthy (get s k) \<Longrightarrow> set_prop s k (get s k) = s"
  by (cases s) (auto simp: set_field_same split: option.splits)

lemma set_prop_twice: "set_prop (set_prop s k v) k w = set_prop s k w"
proof (cases s)
  case (JObj kvs)
  have "set_field k w (set_field k v kvs) = set_field k w kvs"
    by (induction kvs) auto
  with JObj show ?thesis by simp
qed auto

lemma cleanIdReference_idem: "cleanIdReference (cleanIdReference x) = cleanIdReference x"
  by (auto simp: cleanIdReference_def)

lemma clean_field_idem: "clean_field k (clean_field k s) = clean_field k s"
proof (cases "truthy (get s k) \<and> truthy (get (get s k) ''@id'')")
  case True
  then obtain kvs where s: "s = JObj kvs" using truthy_get_obj by blast
  from True have c: "cleanIdReference (get s k) = JObj [(''@id'', get (get s k) ''@id'')]"
    by (cases "get s k") (auto simp: cleanIdReference_def)
  show ?thesis using True s c
    by (simp add: clean_field_def map_of_set_field cleanIdReference_def set_field_same)
next
  case False
  then show ?thesis by (auto simp: clean_field_def)
qed

lemma get_clean_field_other: "k' \<noteq> k \<Longrightarrow> get (clean_field k s) k' = get s k'"
  by (simp add: clean_field_def get_set_prop_other)


definition new_address :: "detected \<Rightarrow> orgInfo \<Rightarrow> jsv" where
  "new_address d org =
     JObj [(''@type'', JStr ''PostalAddress''),
           (''addressLocality'', (if detectedCity d \<noteq> [] then JStr (detectedCity d) else of_opt (org_name org))),
           (''addressRegion'', JStr (detectedRegion d)),
           (''addressCountry'', JStr (detectedCountry d))]"

definition complete_address :: "detected \<Rightarrow> orgInfo \<Rightarrow> jsv \<Rightarrow> jsv" where
  "complete_address d org a =
     (let a1 = set_prop a ''addressLocality''
                 (if detectedCity d \<noteq> [] then JStr (detectedCity d) else of_opt (org_name org));
          a2 = (if \<not> truthy (get a1 ''addressRegion'')
                then set_prop a1 ''addressRegion'' (JStr (detectedRegion d)) else a1)
      in if \<not> truthy (get a2 ''addressCountry'')
         then set_prop a2 ''addressCountry'' (JStr (detectedCountry d)) else a2)"

lemma ensure_address_alt:
  "ensure_address d org s =
     (if \<not> truthy (get s ''address'') then set_prop s ''address'' (new_address d org)
      else if \<not> truthy (get (get s ''address'') ''addressLocality'')
              \<and> \<not> truthy (get (get s ''address'') ''streetAddress'')
      then set_prop s ''address'' (complete_address d org (get s ''address''))
      else s)"
  by (simp add: ensure_address_def new_address_def complete_address_def Let_def)

lemma truthy_set_prop: "truthy (set_prop a k v) = truthy a"
  by (cases a) auto

lemma truthy_complete_address: "truthy (complete_address d org a) = truthy a"
  by (simp add: complete_address_def Let_def truthy_set_prop)

lemma set_prop_present: "get a k = v \<Longrightarrow> v \<noteq> JUndefined \<Longrightarrow> set_prop a k v = a"
  by (cases a) (auto simp: set_field_same split: option.splits)

lemma complete_address_nonobj: "\<not> is_object a \<Longrightarrow> complete_address d org a = a"
  by (cases a) (auto simp: complete_address_def Let_def)

lemma complete_address_street:
  "get (complete_address d org a) ''streetAddress'' = get a ''streetAddress''"
  by (simp add: complete_address_def Let_def get_set_prop_other)

lemma complete_address_idem:
  "complete_address d org (complete_address d org a) = complete_address d org a"
proof (cases a)
  case (JObj kvs)
  then show ?thesis
    by (simp add: complete_address_def Let_def map_of_set_field set_field_same)
qed (simp_all add: complete_address_def Let_def)

lemma complete_new_address: "complete_address d org (new_address d org) = new_address d org"
  by (simp add: complete_address_def new_address_def Let_def)


lemma clean_field_fix: "cleanIdReference (get u k) = get u k \<Longrightarrow> clean_field k u = u"
  by (simp add: clean_field_def set_prop_same)

lemma clean_field_value: "cleanIdReference (get (clean_field k s) k) = get (clean_field k s) k"
proof (cases "truthy (get s k) \<and> truthy (get (get s k) ''@id'')")
  case True
  then obtain kvs where "s = JObj kvs" using truthy_get_obj by blast
  with True show ?thesis
    by (simp add: clean_field_def map_of_set_field cleanIdReference_idem)
next
  case False
  then show ?thesis by (auto simp: clean_field_def cleanIdReference_def)
qed

lemma ensure_address_fix:
  assumes "truthy (get u ''address'')"
    and "complete_address d org (get u ''address'') = get u ''address''
         \<or> truthy (get (get u ''address'') ''addressLocality'')
         \<or> truthy (get (get u ''address'') ''streetAddress'')"
  shows "ensure_address d org u = u"
  using assms by (auto simp: ensure_address_alt set_prop_same)

lemma ensure_address_result:
  assumes "is_object s"
  shows "truthy (get (ensure_address d org s) ''address'')
         \<and> (complete_address d org (get (ensure_address d org s) ''address'')
                = get (ensure_address d org s) ''address''
             \<or> truthy (get (get (ensure_address d org s) ''address'') ''addressLocality'')
             \<or> truthy (get (get (ensure_address d org s) ''address'') ''streetAddress''))"
proof -
  from assms obtain kvs where s: "s = JObj kvs" by (cases s) auto
  show ?thesis
  proof (cases "truthy (get s ''address'')")
    case False
    with s show ?thesis
      by (simp add: ensure_address_alt map_of_set_field complete_new_address)
        (simp add: new_address_def)
  next
    case True
    show ?thesis
    proof (cases "\<not> truthy (get (get s ''address'') ''addressLocality'')
                  \<and> \<not> truthy (get (get s ''address'') ''streetAddress'')")
      case True
      with \<open>truthy (get s ''address'')\<close> s show ?thesis
        by (simp add: ensure_address_alt map_of_set_field complete_address_idem
              truthy_complete_address)
    next
      case False
      with \<open>truthy (get s ''address'')\<close> show ?thesis
        by (auto simp: ensure_address_alt)
    qed
  qed
qed

lemma ensure_telephone_idem:
  "ensure_telephone org pd (ensure_telephone org pd t) = ensure_telephone org pd t"
proof (cases t)
  case (JObj kvs)
  then show ?thesis
    by (auto simp: ensure_telephone_def map_of_set_field or_else_def of_opt_def present_def
          or_empty_def split: option.splits)
qed (simp_all add: ensure_telephone_def)

lemma get_ensure_telephone_other:
  "k \<noteq> ''telephone'' \<Longrightarrow> get (ensure_telephone org pd t) k = get t k"
  by (simp add: ensure_telephone_def get_set_prop_other)

lemma get_ensure_address_other:
  "k \<noteq> ''address'' \<Longrightarrow> get (ensure_address d org s) k = get s k"
  by (simp add: ensure_address_alt get_set_prop_other)

lemma is_object_set_prop: "is_object (set_prop s k v) = is_object s"
  by (cases s) auto

lemma business_idem:
  "ensure_telephone org pd (ensure_address d org (ensure_telephone org pd (ensure_address d org s)))
     = ensure_telephone org pd (ensure_address d org s)"
proof (cases "is_object s")
  case True
  let ?t = "ensure_address d org s"
  let ?u = "ensure_telephone org pd ?t"
  have a: "get ?u ''address'' = get ?t ''address''"
    by (simp add: get_ensure_telephone_other)
  have "ensure_address d org ?u = ?u"
    using ensure_address_result [OF True, of d org] by (intro ensure_address_fix) (simp_all add: a)
  then show ?thesis by (simp add: ensure_telephone_idem)
next
  case False
  then have "ensure_address d org s = s" "ensure_telephone org pd s = s"
    by (cases s; simp add: ensure_address_alt ensure_telephone_def)+
  then show ?thesis by simp
qed

lemma repair_schema_cases:
  "repair_schema d org pd s =
     (if get s ''@type'' = JStr ''Service'' then clean_field ''provider'' s
      else if get s ''@type'' = JStr ''Article'' then clean_field ''publisher'' s
      else if get s ''@type'' = JStr ''WebPage'' then clean_field ''about'' (clean_field ''isPartOf'' s)
      else if get s ''@type'' = JStr ''FAQPage'' then clean_field ''isPartOf'' s
      else if get s ''@type'' = JStr ''HVACBusiness'' \<or> get s ''@type'' = JStr ''LocalBusiness''
      then ensure_telephone org pd (ensure_address d org s)
      else s)"
  by (simp add: repair_schema_def Let_def get_clean_field_other)

lemma repair_schema_type: "get (repair_schema d org pd s) ''@type'' = get s ''@type''"
  by (simp add: repair_schema_cases get_clean_field_other get_ensure_telephone_other
        get_ensure_address_other)

lemma webpage_idem:
  "clean_field ''about'' (clean_field ''isPartOf'' (clean_field ''about'' (clean_field ''isPartOf'' s)))
     = clean_field ''about'' (clean_field ''isPartOf'' s)"
proof -
  let ?x = "clean_field ''isPartOf'' s"
  let ?y = "clean_field ''about'' ?x"
  have "get ?y ''isPartOf'' = get ?x ''isPartOf''"
    by (simp add: get_clean_field_other)
  then have "clean_field ''isPartOf'' ?y = ?y"
    by (intro clean_field_fix) (simp add: clean_field_value)
  then show ?thesis by (simp add: clean_field_idem)
qed

lemma repair_schema_idem:
  "repair_schema d org pd (repair_schema d org pd s) = repair_schema d org pd s"
proof -
  have "repair_schema d org pd (repair_schema d org pd s) =
     (if get s ''@type'' = JStr ''Service'' then clean_field ''provider'' (repair_schema d org pd s)
      else if get s ''@type'' = JStr ''Article'' then clean_field ''publisher'' (repair_schema d org pd s)
      else if get s ''@type'' = JStr ''WebPage''
      then clean_field ''about'' (clean_field ''isPartOf'' (repair_schema d org pd s))
      else if get s ''@type'' = JStr ''FAQPage'' then clean_field ''isPartOf'' (repair_schema d org pd s)
      else if get s ''@type'' = JStr ''HVACBusiness'' \<or> get s ''@type'' = JStr ''LocalBusiness''
      then ensure_telephone org pd (ensure_address d org (repair_schema d org pd s))
      else repair_schema d org pd s)"
    by (subst repair_schema_cases) (simp only: repair_schema_type)
  then show ?thesis
    by (simp add: repair_schema_cases clean_field_idem webpage_idem business_idem)
qed

lemma repair_item_idem:
  assumes "repair_item d org pd item = Inr item'"
  shows "repair_item d org pd item' = Inr item'"
proof (cases "truthy (get item ''schema'')")
  case False
  with assms show ?thesis by (auto simp: repair_item_def split: if_splits)
next
  case True
  then obtain kvs where item: "item = JObj kvs" using truthy_get_obj by blast
  let ?r = "repair_schema d org pd (get item ''schema'')"
  from assms True item have item': "item' = set_prop item ''schema'' ?r"
    by (simp add: repair_item_def)
  have g: "get item' ''schema'' = ?r"
    using item item' by (simp add: map_of_set_field)
  have ne: "item' \<noteq> JNull \<and> item' \<noteq> JUndefined"
    using item item' by simp
  show ?thesis
  proof (cases "truthy ?r")
    case False
    with g ne show ?thesis by (simp add: repair_item_def)
  next
    case True
    with g ne show ?thesis
      by (simp add: repair_item_def repair_schema_idem) (simp add: item' set_prop_twice)
  qed
qed

lemma map_throwing_idem:
  assumes "\<And>x y. f x = Inr y \<Longrightarrow> f y = Inr y"
  shows "map_throwing f xs = Inr ys \<Longrightarrow> map_throwing f ys = Inr ys"
proof (induction xs arbitrary: ys)
  case Nil
  then show ?case by simp
next
  case (Cons x xs)
  then show ?case
    by (auto split: sum.splits dest: assms)
qed

lemma ai_example_repaired: "ensureProviderAddresses (JArr ai_example) acme test_page = Inr (JArr ai_repaired)"
  by code_simp

text \<open>
  C10. The repair pass is idempotent: whenever it returns a list of schemas, applying it
  to that list (with the same organisation and page data) returns the same list.
\<close>

theorem ensureProviderAddresses_idempotent:
  "ensureProviderAddresses schemas org pd = Inr out \<Longrightarrow> ensureProviderAddresses out org pd = Inr out"
proof (cases schemas)
  case (JArr items)
  assume a: "ensureProviderAddresses schemas org pd = Inr out"
  with JArr obtain items' where m: "map_throwing (repair_item (detect_place org pd) org pd) items = Inr items'"
    and out: "out = JArr items'"
    by (auto simp: ensureProviderAddresses_def split: sum.splits)
  have "map_throwing (repair_item (detect_place org pd) org pd) items' = Inr items'"
    using m by (rule map_throwing_idem [rotated]) (rule repair_item_idem)
  with out show ?thesis by (simp add: ensureProviderAddresses_def)
qed (auto simp: ensureProviderAddresses_def)

theorem ensureProviderAddresses_idempotent_witness:
  "ensureProviderAddresses (JArr ai_example) acme test_page = Inr (JArr ai_repaired)
   \<and> ensureProviderAddresses (JArr ai_repaired) acme test_page = Inr (JArr ai_repaired)"
  using ensureProviderAddresses_idempotent [OF ai_example_repaired] ai_example_repaired by simp

lemma ref_ok_clean_field: "ref_ok (clean_field k s) k"
proof (cases "truthy (get s k) \<and> truthy (get (get s k) ''@id'')")
  case True
  then obtain kvs where "s = JObj kvs" using truthy_get_obj by blast
  with True show ?thesis
    by (cases "get s k") (auto simp: ref_ok_def clean_field_def map_of_set_field cleanIdReference_def)
next
  case False
  then show ?thesis by (auto simp: ref_ok_def clean_field_def)
qed

lemma ref_ok_same_value: "get u k = get s k \<Longrightarrow> ref_ok u k = ref_ok s k"
  by (simp add: ref_ok_def)

lemma repair_schema_refs:
  "(if get s ''@type'' = JStr ''Service'' then ref_ok (repair_schema d org pd s) ''provider'' else True)
   \<and> (if get s ''@type'' = JStr ''Article'' then ref_ok (repair_schema d org pd s) ''publisher'' else True)
   \<and> (if get s ''@type'' = JStr ''WebPage''
       then ref_ok (repair_schema d org pd s) ''isPartOf'' \<and> ref_ok (repair_schema d org pd s) ''about''
       else True)
   \<and> (if get s ''@type'' = JStr ''FAQPage'' then ref_ok (repair_schema d org pd s) ''isPartOf'' else True)"
proof -
  have "ref_ok (clean_field ''about'' (clean_field ''isPartOf'' s)) ''isPartOf''"
    using ref_ok_same_value [of "clean_field ''about'' (clean_field ''isPartOf'' s)" "''isPartOf''"
            "clean_field ''isPartOf'' s"]
    by (simp add: get_clean_field_other ref_ok_clean_field)
  then show ?thesis
    by (simp add: repair_schema_cases ref_ok_clean_field)
qed

lemma repair_item_refs:
  assumes "repair_item d org pd item = Inr item'"
  shows "refs_pure item'"
proof (cases "truthy (get item ''schema'')")
  case False
  with assms have "item' = item" by (auto simp: repair_item_def split: if_splits)
  moreover from False have "get (get item ''schema'') k = JUndefined" for k
    by (cases "get item ''schema''") auto
  ultimately show ?thesis by (simp add: refs_pure_def)
next
  case True
  then obtain kvs where item: "item = JObj kvs" using truthy_get_obj by blast
  with assms True have "get item' ''schema'' = repair_schema d org pd (get item ''schema'')"
    by (auto simp: repair_item_def map_of_set_field)
  then show ?thesis
    using repair_schema_refs [of "get item ''schema''" d org pd]
    by (simp add: refs_pure_def repair_schema_type)
qed

lemma map_throwing_all:
  assumes "\<And>x y. f x = Inr y \<Longrightarrow> P y"
  shows "map_throwing f xs = Inr ys \<Longrightarrow> list_all P ys"
proof (induction xs arbitrary: ys)
  case Nil
  then show ?case by simp
next
  case (Cons x xs)
  then show ?case
    by (auto split: sum.splits dest: assms)
qed

lemma svc_provider_fields:
  "get (get (svc_generate pd org opts) ''provider'') ''@id'' = JStr (interp (org_url org) @ ''#localbusiness'')
   \<and> get (get (svc_generate pd org opts) ''provider'') ''name'' = of_opt (org_name org)
   \<and> get (get (svc_generate pd org opts) ''provider'') ''url'' = of_opt (org_url org)
   \<and> \<not> pure_reference (get (svc_generate pd org opts) ''provider'')"
  by (simp add: svc_generate_def Let_def)

lemma lb_id: "get (lb_generate org opts) ''@id'' = JStr (interp (org_url org) @ ''#localbusiness'')"
  by (simp add: lb_generate_def Let_def)

lemma country_no_areas: "detectCountryFromAreas None [] = ''US''"
  by code_simp

lemma region_no_areas: "detectRegionFromAreas None [] ''US'' = []"
  by code_simp

text \<open>
  C3, as the specification states it, fails on the graphs the composer builds: for the
  page and organisation of the repository's composer test, the Service entity's provider
  carries name, url and address next to an \<open>@id\<close>, and that \<open>@id\<close> is the identity of the
  business entity standing in the same graph.
\<close>

theorem composed_provider_counterexample:
  "compose_service_head test_page company no_options
     = [svc_generate test_page company no_options,
        lb_generate company (businessOptions test_page no_options)]
   \<and> get (get (svc_generate test_page company no_options) ''provider'') ''@id''
       = JStr ''https://example.com#localbusiness''
   \<and> get (lb_generate company (businessOptions test_page no_options)) ''@id''
       = JStr ''https://example.com#localbusiness''
   \<and> \<not> pure_reference (get (svc_generate test_page company no_options) ''provider'')
   \<and> get (get (svc_generate test_page company no_options) ''provider'') ''name'' = JStr ''Company''
   \<and> get (get (svc_generate test_page company no_options) ''provider'') ''url'' = JStr ''https://example.com''
   \<and> get (get (svc_generate test_page company no_options) ''provider'') ''address''
       = JObj [(''@type'', JStr ''PostalAddress''), (''addressCountry'', JStr ''US'')]"
proof -
  have o: "opt_address no_options = None"
    by (simp add: no_options_def)
  have "svc_provider_address no_options [] = JObj [(''@type'', JStr ''PostalAddress''), (''addressCountry'', JStr ''US'')]"
    by (simp add: svc_provider_address_def o country_no_areas region_no_areas)
  then show ?thesis
    using svc_provider_fields [of test_page company no_options]
    by (simp add: compose_service_head_def lb_id svc_provider_address_eq test_page_areas)
      (simp add: company_def interp_def of_opt_def)
qed

text \<open>
  C3, amended. In the output of the repair pass, the reference fields it knows
  (Service.provider, Article.publisher, WebPage.isPartOf, WebPage.about, FAQPage.isPartOf)
  are, whenever they carry an \<open>@id\<close>, objects with exactly the one key \<open>@id\<close>. The Service
  builder, by contrast, embeds the provider as an entity of its own: it is never a pure
  reference, and carries the business \<open>@id\<close> together with the organisation's name and url.
\<close>

theorem references_pure_after_repair:
  "(ensureProviderAddresses schemas org pd = Inr (JArr out) \<longrightarrow> list_all refs_pure out)
   \<and> \<not> pure_reference (get (svc_generate page org' opts) ''provider'')
   \<and> get (get (svc_generate page org' opts) ''provider'') ''@id''
       = JStr (interp (org_url org') @ ''#localbusiness'')
   \<and> get (get (svc_generate page org' opts) ''provider'') ''name'' = of_opt (org_name org')
   \<and> get (get (svc_generate page org' opts) ''provider'') ''url'' = of_opt (org_url org')"
proof -
  have "list_all refs_pure out" if a: "ensureProviderAddresses schemas org pd = Inr (JArr out)"
  proof (cases schemas)
    case (JArr items)
    with a have "map_throwing (repair_item (detect_place org pd) org pd) items = Inr out"
      by (auto simp: ensureProviderAddresses_def split: sum.splits)
    then show ?thesis
      by (rule map_throwing_all [rotated]) (rule repair_item_refs)
  qed (use a in \<open>auto simp: ensureProviderAddresses_def\<close>)
  then show ?thesis
    using svc_provider_fields [of page org' opts] by simp
qed

theorem references_pure_after_repair_witness:
  "ensureProviderAddresses (JArr ai_example) acme test_page = Inr (JArr ai_repaired)
   \<and> list_all refs_pure ai_repaired
   \<and> get (get (hd (tl ai_repaired)) ''schema'') ''provider'' = JObj [(''@id'', JStr ''#business'')]"
proof -
  have "list_all refs_pure ai_repaired"
    using references_pure_after_repair [of "JArr ai_example" acme test_page ai_repaired]
      ai_example_repaired by simp
  then show ?thesis
    using ai_example_repaired by (simp add: ai_repaired_def)
qed

section \<open>Service builder: a scenario\<close>

lemma parse_houston_dallas: "parse_areas ''Houston, Dallas'' = [''Houston'', ''Dallas'']"
  by code_simp

lemma country_houston_dallas: "detectCountryFromAreas None [''Houston'', ''Dallas''] = ''US''"
  by code_simp

lemma areas_houston_dallas:
  "svc_areaServedArray pd (opts\<lparr>opt_areaServed := Some ''Houston, Dallas'', opt_address := None\<rparr>)
     = [''Houston'', ''Dallas'']"
  by (simp add: svc_areaServedArray_def present_def or_empty_def parse_houston_dallas)

text \<open>
  C9. For every page and organisation, and whatever the other options are, the Service
  builder called with areaServed \<open>"Houston, Dallas"\<close> and no address in the options returns an
  entity whose provider address has addressCountry US and whose areaServed is the list of
  the two City entries Houston and Dallas, in this order.
\<close>

theorem svc_generate_houston_dallas:
  "get (get (get (svc_generate pd org (opts\<lparr>opt_areaServed := Some ''Houston, Dallas'', opt_address := None\<rparr>))
               ''provider'') ''address'') ''addressCountry'' = JStr ''US''
   \<and> get (svc_generate pd org (opts\<lparr>opt_areaServed := Some ''Houston, Dallas'', opt_address := None\<rparr>))
         ''areaServed''
       = JArr [JObj [(''@type'', JStr ''City''), (''name'', JStr ''Houston'')],
               JObj [(''@type'', JStr ''City''), (''name'', JStr ''Dallas'')]]"
  by (simp add: svc_generate_def Let_def areas_houston_dallas svc_provider_address_def
        country_houston_dallas svc_areaServed_def city_def)

section \<open>Safe mutation store (src/services/databaseClient.js): values and serialisation\<close>

text \<open>Decimal rendering of numbers, and \<open>String(v)\<close>.\<close>

definition digit_char :: "nat \<Rightarrow> char" where
  "digit_char d = digit_chars ! (d mod 10)"

function show_nat :: "nat \<Rightarrow> string" where
  "show_nat n = (if n < 10 then [digit_char n] else show_nat (n div 10) @ [digit_char (n mod 10)])"
  by pat_completeness auto
termination
  by (relation "measure id") auto

declare show_nat.simps [simp del]

definition show_int :: "int \<Rightarrow> string" where
  "show_int i = (if i < 0 then CHR ''-'' # show_nat (nat (- i)) else show_nat (nat i))"

fun to_str :: "jsv \<Rightarrow> string" where
  "to_str JUndefined = ''undefined''"
| "to_str JNull = ''null''"
| "to_str (JBool b) = (if b then ''true'' else ''false'')"
| "to_str (JNum n) = show_int n"
| "to_str (JStr s) = s"
| "to_str (JArr xs) = js_join '','' (map (\<lambda>x. if x = JNull \<or> x = JUndefined then [] else to_str x) xs)"
| "to_str (JObj kvs) = ''[object Object]''"

text \<open>\<open>Buffer.byteLength(s, 'utf8')\<close>: a code unit from \<open>0x80\<close> on takes two bytes.\<close>

definition byteLength :: "string \<Rightarrow> nat" where
  "byteLength s = length s + length (filter high s)"

text \<open>
  \<open>phpSerialize\<close>. A string's length prefix is its UTF-8 byte length; an array index is
  written as a number and an object key as a string.
\<close>

fun phpSerialize :: "jsv \<Rightarrow> string"
  and php_items :: "nat \<Rightarrow> jsv list \<Rightarrow> string"
  and php_fields :: "(string \<times> jsv) list \<Rightarrow> string" where
  "phpSerialize JUndefined = ''N;''"
| "phpSerialize JNull = ''N;''"
| "phpSerialize (JBool b) = ''b:'' @ (if b then ''1'' else ''0'') @ '';''"
| "phpSerialize (JNum n) = ''i:'' @ show_int n @ '';''"
| "phpSerialize (JStr s) = ''s:'' @ show_nat (byteLength s) @ [CHR '':'', CHR 0x22] @ s @ [CHR 0x22, CHR '';'']"
| "phpSerialize (JArr xs) = ''a:'' @ show_nat (length xs) @ '':{'' @ php_items 0 xs @ ''}''"
| "phpSerialize (JObj kvs) =
     ''a:'' @ show_nat (length kvs) @ '':{'' @ php_fields kvs @ ''}''"
| "php_items i [] = []"
| "php_items i (x # xs) = phpSerialize (JNum (int i)) @ phpSerialize x @ php_items (Suc i) xs"
| "php_fields [] = []"
| "php_fields ((k, v) # kvs) = phpSerialize (JStr k) @ phpSerialize v @ php_fields kvs"

text \<open>\<open>SCHEMA_TYPES\<close>: every entry's title is its key; the second component is
  \<open>canBePrimary\<close>.\<close>

definition SCHEMA_TYPES :: "(string \<times> bool) list" where
  "SCHEMA_TYPES =
    [(''Service'', True), (''LocalBusiness'', True), (''Organization'', True),
     (''Article'', True), (''NewsArticle'', True), (''BlogPosting'', True),
     (''FAQPage'', False), (''HowTo'', True),
     (''Product'', True), (''Offer'', False),
     (''Event'', True),
     (''Person'', True),
     (''Review'', False), (''AggregateRating'', False),
     (''Recipe'', True),
     (''VideoObject'', True),
     (''Course'', True),
     (''JobPosting'', True),
     (''SoftwareApplication'', True),
     (''Book'', True),
     (''Place'', False),
     (''BreadcrumbList'', False),
     (''WebPage'', False),
     (''Custom'', True)]"

text \<open>The names every object literal inherits; looked up in \<open>SCHEMA_TYPES\<close> they give a
  truthy value that has neither a title nor \<open>canBePrimary\<close>.\<close>

definition object_prototype_keys :: "string list" where
  "object_prototype_keys =
    [''constructor'', ''__defineGetter__'', ''__defineSetter__'', ''hasOwnProperty'',
     ''__lookupGetter__'', ''__lookupSetter__'', ''isPrototypeOf'', ''propertyIsEnumerable'',
     ''toString'', ''valueOf'', ''__proto__'', ''toLocaleString'']"

text \<open>\<open>SCHEMA_TYPES[t] || SCHEMA_TYPES.Custom\<close> as title and \<open>canBePrimary\<close>.\<close>

definition typeConfig :: "string \<Rightarrow> jsv \<times> bool" where
  "typeConfig t =
     (case map_of SCHEMA_TYPES t of
        Some canBePrimary \<Rightarrow> (JStr t, canBePrimary)
      | None \<Rightarrow> if t \<in> set object_prototype_keys then (JUndefined, False) else (JStr ''Custom'', True))"

definition known_schema_type :: "string \<Rightarrow> bool" where
  "known_schema_type t = (map_of SCHEMA_TYPES t \<noteq> None \<or> t \<in> set object_prototype_keys)"

definition extractSchemaType :: "jsv \<Rightarrow> jsv" where
  "extractSchemaType schema =
     (if \<not> truthy schema then JStr ''Custom''
      else if \<not> truthy (get schema ''@type'') then JStr ''Custom''
      else (case get schema ''@type'' of
              JArr ts \<Rightarrow>
                (case find (\<lambda>t. known_schema_type (to_str t)) ts of
                   Some t \<Rightarrow> t
                 | None \<Rightarrow> (case ts of [] \<Rightarrow> JUndefined | t # _ \<Rightarrow> t))
            | t \<Rightarrow> t))"

text \<open>\<open>{...v}\<close>: the own enumerable properties of a value.\<close>

fun spread :: "jsv \<Rightarrow> (string \<times> jsv) list" where
  "spread (JObj kvs) = kvs"
| "spread (JArr xs) = zip (map show_nat [0..<length xs]) xs"
| "spread (JStr s) = zip (map show_nat [0..<length s]) (map (\<lambda>c. JStr [c]) s)"
| "spread v = []"

text \<open>The store and the process around it.\<close>

record post =
  p_ID :: nat
  post_title :: string

record meta_row =
  meta_id :: nat
  post_id :: nat
  meta_key :: string
  meta_value :: string

record saved_meta =
  sm_metaId :: nat
  sm_key :: string
  sm_value :: string

record backup =
  bk_timestamp :: nat
  bk_schemas :: "saved_meta list"

datatype stmt = SELECT | INSERT | UPDATE | DELETE

text \<open>What the process does to the outside, in order: a statement sent to the store (with
  the store's error message if it rejected it), a backup taken into memory for a post, and
  an attempt to write the backups file (with its success).\<close>

datatype event = Exec stmt "string option" | MemBackup nat | FileWrite bool

datatype failure = JsTypeError | StoreError string

record world =
  posts :: "post list"
  postmeta :: "meta_row list"
  next_meta_id :: nat
  backups :: "(nat \<times> backup) list"
  persistedBackups :: "(nat \<times> backup) list"
  backups_file :: "(nat \<times> backup) list option"
  faults :: "string option list"
  fs_faults :: "bool list"
  clock :: nat
  random :: "string list"
  trace :: "event list"

text \<open>
  An asynchronous method is a function from the world to its outcome, a value or a thrown
  failure, and the world it leaves. \<open>faults\<close> and \<open>fs_faults\<close> say which of the coming
  statements the store will reject and which file writes will fail; \<open>random\<close> holds the
  coming results of \<open>generateShortcodeId\<close>; \<open>clock\<close> is the time.
\<close>

type_synonym 'a io = "world \<Rightarrow> (failure + 'a) \<times> world"

definition io_return :: "'a \<Rightarrow> 'a io" where
  "io_return x = (\<lambda>w. (Inr x, w))"

definition io_bind :: "'a io \<Rightarrow> ('a \<Rightarrow> 'b io) \<Rightarrow> 'b io" where
  "io_bind m f = (\<lambda>w. case m w of (Inl e, w') \<Rightarrow> (Inl e, w') | (Inr x, w') \<Rightarrow> f x w')"

text \<open>\<open>try { m } catch (error) { h(error) }\<close>\<close>

definition io_catch :: "'a io \<Rightarrow> (failure \<Rightarrow> 'a io) \<Rightarrow> 'a io" where
  "io_catch m h = (\<lambda>w. case m w of (Inl e, w') \<Rightarrow> h e w' | (Inr x, w') \<Rightarrow> (Inr x, w'))"

text \<open>\<open>await conn.execute(...)\<close>: the statement is sent; the store accepts or rejects it.\<close>

definition conn_execute :: "stmt \<Rightarrow> unit io" where
  "conn_execute st =
     (\<lambda>w. case faults w of
             [] \<Rightarrow> (Inr (), w\<lparr>trace := trace w @ [Exec st None]\<rparr>)
           | None # fs \<Rightarrow> (Inr (), w\<lparr>faults := fs, trace := trace w @ [Exec st None]\<rparr>)
           | Some msg # fs \<Rightarrow>
               (Inl (StoreError msg), w\<lparr>faults := fs, trace := trace w @ [Exec st (Some msg)]\<rparr>))"

text \<open>SQL \<open>LIKE\<close> with the wildcards \<open>%\<close> (any run of characters) and \<open>_\<close> (any one
  character); the other characters of the pattern are compared exactly, as a binary
  collation does.\<close>

fun sql_like :: "string \<Rightarrow> string \<Rightarrow> bool" where
  "sql_like [] s = (s = [])"
| "sql_like (p # ps) [] = (p = CHR ''%'' \<and> sql_like ps [])"
| "sql_like (p # ps) (c # cs) =
     (if p = CHR ''%'' then sql_like ps (c # cs) \<or> sql_like (p # ps) cs
      else if p = CHR ''_'' then sql_like ps cs
      else p = c \<and> sql_like ps cs)"

definition error_message :: "failure \<Rightarrow> string" where
  "error_message e = (case e of JsTypeError \<Rightarrow> ''TypeError'' | StoreError msg \<Rightarrow> msg)"

section \<open>Safe mutation store: statements\<close>

definition io_get :: "(world \<Rightarrow> 'a) \<Rightarrow> 'a io" where
  "io_get f = (\<lambda>w. (Inr (f w), w))"

definition io_throw :: "failure \<Rightarrow> 'a io" where
  "io_throw e = (\<lambda>w. (Inl e, w))"

text \<open>Each statement of the source, as the store carries it out once it has accepted it.\<close>

definition select_posts :: "nat \<Rightarrow> post list io" where
  "select_posts postId =
     io_bind (conn_execute SELECT) (\<lambda>_. io_get (\<lambda>w. filter (\<lambda>p. p_ID p = postId) (posts w)))"

definition select_meta_by_key :: "nat \<Rightarrow> string \<Rightarrow> meta_row list io" where
  "select_meta_by_key postId metaKey =
     io_bind (conn_execute SELECT)
       (\<lambda>_. io_get (\<lambda>w. filter (\<lambda>r. post_id r = postId \<and> meta_key r = metaKey) (postmeta w)))"

definition select_meta_like :: "nat \<Rightarrow> string \<Rightarrow> meta_row list io" where
  "select_meta_like postId pat =
     io_bind (conn_execute SELECT)
       (\<lambda>_. io_get (\<lambda>w. filter (\<lambda>r. post_id r = postId \<and> sql_like pat (meta_key r)) (postmeta w)))"

definition select_meta_by_id :: "nat \<Rightarrow> meta_row list io" where
  "select_meta_by_id metaId =
     io_bind (conn_execute SELECT) (\<lambda>_. io_get (\<lambda>w. filter (\<lambda>r. meta_id r = metaId) (postmeta w)))"

definition update_meta_value :: "nat \<Rightarrow> string \<Rightarrow> string \<Rightarrow> unit io" where
  "update_meta_value postId metaKey metaValue =
     io_bind (conn_execute UPDATE)
       (\<lambda>_ w. (Inr (), w\<lparr>postmeta :=
            map (\<lambda>r. if post_id r = postId \<and> meta_key r = metaKey then r\<lparr>meta_value := metaValue\<rparr> else r)
                (postmeta w)\<rparr>))"

definition update_meta_by_id :: "nat \<Rightarrow> string \<Rightarrow> unit io" where
  "update_meta_by_id metaId metaValue =
     io_bind (conn_execute UPDATE)
       (\<lambda>_ w. (Inr (), w\<lparr>postmeta :=
            map (\<lambda>r. if meta_id r = metaId then r\<lparr>meta_value := metaValue\<rparr> else r) (postmeta w)\<rparr>))"

text \<open>\<open>INSERT\<close> returns the new row's id, the store's next free one.\<close>

definition insert_meta :: "nat \<Rightarrow> string \<Rightarrow> string \<Rightarrow> nat io" where
  "insert_meta postId metaKey metaValue =
     io_bind (conn_execute INSERT)
       (\<lambda>_ w. (Inr (next_meta_id w),
                w\<lparr>postmeta := postmeta w @
                     [\<lparr>meta_id = next_meta_id w, post_id = postId, meta_key = metaKey, meta_value = metaValue\<rparr>],
                  next_meta_id := Suc (next_meta_id w)\<rparr>))"

definition delete_meta_like :: "nat \<Rightarrow> string \<Rightarrow> unit io" where
  "delete_meta_like postId pat =
     io_bind (conn_execute DELETE)
       (\<lambda>_ w. (Inr (), w\<lparr>postmeta :=
            filter (\<lambda>r. \<not> (post_id r = postId \<and> sql_like pat (meta_key r))) (postmeta w)\<rparr>))"

definition delete_meta_by_id :: "nat \<Rightarrow> unit io" where
  "delete_meta_by_id metaId =
     io_bind (conn_execute DELETE)
       (\<lambda>_ w. (Inr (), w\<lparr>postmeta := filter (\<lambda>r. meta_id r \<noteq> metaId) (postmeta w)\<rparr>))"

section \<open>Safe mutation store: backups\<close>

definition MAX_BACKUPS :: nat where
  "MAX_BACKUPS = 50"

text \<open>\<open>backups.set(k, v)\<close> on the in-memory Map, which keeps insertion order.\<close>

fun map_set :: "nat \<Rightarrow> 'v \<Rightarrow> (nat \<times> 'v) list \<Rightarrow> (nat \<times> 'v) list" where
  "map_set k v [] = [(k, v)]"
| "map_set k v ((k', v') # kvs) = (if k' = k then (k, v) # kvs else (k', v') # map_set k v kvs)"

text \<open>\<open>obj[k] = v\<close> on an object whose keys are post ids: such keys are enumerated in
  ascending order.\<close>

fun obj_put :: "nat \<Rightarrow> 'v \<Rightarrow> (nat \<times> 'v) list \<Rightarrow> (nat \<times> 'v) list" where
  "obj_put k v [] = [(k, v)]"
| "obj_put k v ((k', v') # kvs) =
     (if k = k' then (k, v) # kvs
      else if k < k' then (k, v) # (k', v') # kvs
      else (k', v') # obj_put k v kvs)"

text \<open>Pruning: the newest \<open>MAX_BACKUPS\<close> entries are kept (the sort is stable).\<close>

definition prune :: "(nat \<times> backup) list \<Rightarrow> (nat \<times> backup) list" where
  "prune entries =
     (if length entries > MAX_BACKUPS
      then sort_key fst (take MAX_BACKUPS (sort_key (\<lambda>e. - int (bk_timestamp (snd e))) entries))
      else entries)"

text \<open>\<open>saveBackupsToFile\<close>: a failed write is caught and logged.\<close>

definition saveBackupsToFile :: "world \<Rightarrow> world" where
  "saveBackupsToFile w =
     (let merged = fold (\<lambda>(postId, b) acc. obj_put postId b acc) (backups w) (persistedBackups w);
          w1 = w\<lparr>persistedBackups := prune merged\<rparr>
      in case fs_faults w1 of
           [] \<Rightarrow> w1\<lparr>backups_file := Some (persistedBackups w1), trace := trace w1 @ [FileWrite True]\<rparr>
         | failed # fs \<Rightarrow>
             if failed then w1\<lparr>fs_faults := fs, trace := trace w1 @ [FileWrite False]\<rparr>
             else w1\<lparr>fs_faults := fs, backups_file := Some (persistedBackups w1),
                     trace := trace w1 @ [FileWrite True]\<rparr>)"

definition getExistingSchemas :: "nat \<Rightarrow> saved_meta list io" where
  "getExistingSchemas postId =
     io_bind (select_meta_like postId ''rank_math%'')
       (\<lambda>rows. io_return (map (\<lambda>r. \<lparr>sm_metaId = meta_id r, sm_key = meta_key r, sm_value = meta_value r\<rparr>) rows))"

definition backupMeta :: "nat \<Rightarrow> jsv io" where
  "backupMeta postId =
     io_bind (getExistingSchemas postId)
       (\<lambda>existing w.
          (Inr (JObj [(''success'', JBool True),
                      (''postId'', JNum (int postId)),
                      (''backedUp'', JNum (int (length existing))),
                      (''backupId'', JNum (int postId))]),
           saveBackupsToFile
             (w\<lparr>backups := map_set postId \<lparr>bk_timestamp = clock w, bk_schemas = existing\<rparr> (backups w),
                clock := Suc (clock w),
                trace := trace w @ [MemBackup postId]\<rparr>)))"

section \<open>Safe mutation store: operations\<close>

text \<open>The options object. \<open>dryRun\<close> is the value the caller passed (\<open>JUndefined\<close> when
  the key is left out): the methods test its truthiness, and a committed write hangs on it.
  \<open>backup\<close> and \<open>isPrimary\<close> are the booleans their JSDoc documents, \<open>None\<close> when left
  out.\<close>

record db_options =
  o_dryRun :: jsv
  o_backup :: "bool option"
  o_isPrimary :: "bool option"
  o_primaryType :: "string option"

text \<open>\<open>const { x = d } = options\<close>\<close>

definition dflt :: "bool \<Rightarrow> bool option \<Rightarrow> bool" where
  "dflt d x = (case x of None \<Rightarrow> d | Some b \<Rightarrow> b)"

text \<open>The same default on a raw value: it applies to \<open>undefined\<close> only.\<close>

definition dflt_v :: "jsv \<Rightarrow> jsv \<Rightarrow> jsv" where
  "dflt_v d x = (if x = JUndefined then d else x)"

definition js_or :: "jsv \<Rightarrow> jsv \<Rightarrow> jsv" where
  "js_or a b = (if truthy a then a else b)"

text \<open>\<open>generateShortcodeId\<close> draws from the random source.\<close>

definition generateShortcodeId :: "string io" where
  "generateShortcodeId =
     (\<lambda>w. case random w of [] \<Rightarrow> (Inr [], w) | r # rs' \<Rightarrow> (Inr r, w\<lparr>random := rs'\<rparr>))"

text \<open>
  A property name that is an array index: a decimal numeral without leading zero, below
  \<open>2^32 - 1\<close>. An object enumerates such keys first, in ascending order, and its other keys
  after them in the order of their creation.
\<close>

definition index_value :: "string \<Rightarrow> int" where
  "index_value k = fold (\<lambda>c n. 10 * n + int (length (takeWhile (\<lambda>d. d \<noteq> c) digit_chars))) k 0"

definition is_index :: "string \<Rightarrow> bool" where
  "is_index k = (k \<noteq> [] \<and> list_all (\<lambda>c. c \<in> set digit_chars) k
                 \<and> (length k = 1 \<or> hd k \<noteq> CHR ''0'') \<and> index_value k < 4294967295)"

text \<open>
  \<open>{ metadata, ...schemaWithoutContext }\<close>: a key \<open>metadata\<close> of the schema overrides the
  value in its place; the index keys that a string or an array schema spreads into (or an
  object schema carries) come before it.
\<close>

definition convertToRankMathFormat :: "jsv \<Rightarrow> jsv \<Rightarrow> bool \<Rightarrow> jsv io" where
  "convertToRankMathFormat schema schemaType isPrimary =
     (let cfg = typeConfig (to_str schemaType);
          schemaWithoutContext = filter (\<lambda>(k, v). k \<noteq> ''@context'') (spread schema);
          build = (\<lambda>metadata. JObj
                     (sort_key (\<lambda>(k, v). index_value k)
                        (fold (\<lambda>(k, v) acc. set_field k v acc)
                           (filter (\<lambda>(k, v). is_index k) schemaWithoutContext) [])
                      @ fold (\<lambda>(k, v) acc. set_field k v acc)
                          (filter (\<lambda>(k, v). \<not> is_index k) schemaWithoutContext)
                          [(''metadata'', metadata)]))
      in if isPrimary \<and> snd cfg
         then io_bind generateShortcodeId
                (\<lambda>shortcode. io_return (build (JObj
                   [(''title'', fst cfg),
                    (''type'', JStr ''custom''),
                    (''shortcode'', JStr (''s-'' @ shortcode)),
                    (''isPrimary'', JStr ''1''),
                    (''name'', JStr ''%seo_title%''),
                    (''description'', JStr ''%seo_description%''),
                    (''reviewLocationShortcode'', JStr ''[rank_math_rich_snippet]'')])))
         else io_return (build (JObj [(''type'', JStr ''custom''), (''title'', fst cfg)])))"

definition previewInsertion :: "nat \<Rightarrow> jsv \<Rightarrow> jsv \<Rightarrow> bool \<Rightarrow> jsv io" where
  "previewInsertion postId schema schemaType isPrimary =
     io_bind (select_posts postId)
       (\<lambda>ps. case ps of
          [] \<Rightarrow> io_return (JObj [(''success'', JBool False),
                                 (''error'', JStr (''Post ID '' @ show_nat postId @ '' not found''))])
        | p # _ \<Rightarrow>
           (let detectedType = js_or schemaType (extractSchemaType schema);
                metaKey = ''rank_math_schema_'' @ to_str detectedType
            in io_bind (convertToRankMathFormat schema detectedType isPrimary)
                 (\<lambda>rankMathSchema.
                    io_bind (select_meta_by_key postId metaKey)
                      (\<lambda>existing. io_return (JObj
                         [(''success'', JBool True),
                          (''dryRun'', JBool True),
                          (''postId'', JNum (int postId)),
                          (''postTitle'', JStr (post_title p)),
                          (''schemaType'', detectedType),
                          (''metaKey'', JStr metaKey),
                          (''metaValueLength'', JNum (int (length (phpSerialize rankMathSchema)))),
                          (''action'', JStr (if length existing > 0 then ''UPDATE'' else ''INSERT'')),
                          (''existingMetaId'',
                             (case existing of [] \<Rightarrow> JNull | e # _ \<Rightarrow> JNum (int (meta_id e)))),
                          (''existingValueLength'',
                             (case existing of [] \<Rightarrow> JNum 0 | e # _ \<Rightarrow> JNum (int (length (meta_value e))))),
                          (''message'',
                             (case existing of
                                [] \<Rightarrow> JStr ''Would INSERT new meta row''
                              | e # _ \<Rightarrow> JStr (''Would UPDATE existing meta (ID: '' @ show_nat (meta_id e) @ '')'')))])))))"

text \<open>\<open>if (backup) await this.backupMeta(postId)\<close>\<close>

definition backup_if :: "bool \<Rightarrow> nat \<Rightarrow> unit io" where
  "backup_if b postId = (if b then io_bind (backupMeta postId) (\<lambda>_. io_return ()) else io_return ())"

text \<open>The \<open>try\<close> block of \<open>insertSchema\<close> with its \<open>catch\<close>: one \<open>UPDATE\<close> or one \<open>INSERT\<close>.\<close>

definition write_schema :: "nat \<Rightarrow> string \<Rightarrow> jsv \<Rightarrow> jsv \<Rightarrow> string \<Rightarrow> bool \<Rightarrow> jsv io" where
  "write_schema postId metaKey detectedType preview metaValue backup =
     io_catch
       (if get preview ''action'' = JStr ''UPDATE''
        then io_bind (update_meta_value postId metaKey metaValue)
               (\<lambda>_. io_return (JObj
                  [(''success'', JBool True),
                   (''action'', JStr ''UPDATE''),
                   (''postId'', JNum (int postId)),
                   (''metaKey'', JStr metaKey),
                   (''schemaType'', detectedType),
                   (''metaId'', get preview ''existingMetaId''),
                   (''message'', JStr (''Updated existing '' @ to_str detectedType
                      @ '' schema (meta ID: '' @ to_str (get preview ''existingMetaId'') @ '')'')),
                   (''canRollback'', JBool backup)]))
        else io_bind (insert_meta postId metaKey metaValue)
               (\<lambda>insertId. io_return (JObj
                  [(''success'', JBool True),
                   (''action'', JStr ''INSERT''),
                   (''postId'', JNum (int postId)),
                   (''metaKey'', JStr metaKey),
                   (''schemaType'', detectedType),
                   (''metaId'', JNum (int insertId)),
                   (''message'', JStr (''Inserted new '' @ to_str detectedType
                      @ '' schema (meta ID: '' @ show_nat insertId @ '')'')),
                   (''canRollback'', JBool backup)])))
       (\<lambda>error. io_return (JObj
          [(''success'', JBool False),
           (''error'', JStr (error_message error)),
           (''canRollback'', JBool backup)]))"

text \<open>\<open>insertSchema\<close> past its dry-run return: serialise, back up if asked, write.\<close>

definition commit_schema :: "nat \<Rightarrow> jsv \<Rightarrow> jsv \<Rightarrow> bool \<Rightarrow> bool \<Rightarrow> jsv \<Rightarrow> jsv io" where
  "commit_schema postId schema detectedType isPrimary backup preview =
     io_bind (convertToRankMathFormat schema detectedType isPrimary)
       (\<lambda>rankMathSchema.
          io_bind (backup_if backup postId)
            (\<lambda>_. write_schema postId (''rank_math_schema_'' @ to_str detectedType) detectedType preview
                    (phpSerialize rankMathSchema) backup))"

definition insertSchema :: "nat \<Rightarrow> jsv \<Rightarrow> jsv \<Rightarrow> db_options \<Rightarrow> jsv io" where
  "insertSchema postId schema schemaType opts =
     (let dryRun = dflt_v (JBool True) (o_dryRun opts);
          backup = dflt True (o_backup opts);
          isPrimary = dflt False (o_isPrimary opts);
          detectedType = js_or schemaType (extractSchemaType schema)
      in io_bind (previewInsertion postId schema detectedType isPrimary)
           (\<lambda>preview.
              if \<not> truthy (get preview ''success'') then io_return preview
              else if truthy dryRun
              then io_return (set_prop preview ''message''
                     (JStr (''[DRY-RUN] '' @ to_str (get preview ''message'')
                            @ '' - Pass { dryRun: false } to execute'')))
              else commit_schema postId schema detectedType isPrimary backup preview))"

text \<open>The loop of \<open>insertMultipleSchemas\<close>, from index \<open>i\<close>; destructuring a null or
  undefined element throws.\<close>

fun insert_each :: "nat \<Rightarrow> jsv \<Rightarrow> nat \<Rightarrow> jsv list \<Rightarrow> jsv list io" where
  "insert_each postId dryRun i [] = io_return []"
| "insert_each postId dryRun i (item # items) =
     (if item = JNull \<or> item = JUndefined then io_throw JsTypeError
      else io_bind (insertSchema postId (get item ''schema'') (get item ''type'')
                      \<lparr>o_dryRun = dryRun, o_backup = Some False, o_isPrimary = Some (i = 0),
                       o_primaryType = None\<rparr>)
             (\<lambda>result. io_bind (insert_each postId dryRun (Suc i) items)
                          (\<lambda>results. io_return (result # results))))"

definition insertMultipleSchemas :: "nat \<Rightarrow> jsv list \<Rightarrow> db_options \<Rightarrow> jsv io" where
  "insertMultipleSchemas postId schemas opts =
     (let dryRun = dflt_v (JBool True) (o_dryRun opts);
          backup = dflt True (o_backup opts)
      in io_bind (backup_if (backup \<and> \<not> truthy dryRun) postId)
           (\<lambda>_. io_bind (insert_each postId dryRun 0 schemas)
              (\<lambda>results. io_return (JObj
                 [(''success'', JBool (list_all (\<lambda>r. truthy (get r ''success'')) results)),
                  (''results'', JArr results),
                  (''canRollback'', JBool (backup \<and> \<not> truthy dryRun))]))))"

text \<open>\<open>Object.keys(item).length\<close>\<close>

fun keys_count :: "jsv \<Rightarrow> nat" where
  "keys_count (JObj kvs) = length (remdups (map fst kvs))"
| "keys_count (JArr xs) = length xs"
| "keys_count (JStr s) = length s"
| "keys_count v = 0"

text \<open>One round of the \<open>forEach\<close> of \<open>insertFromGraph\<close>, on the pair of \<open>schemas\<close> and
  \<open>primaryIndex\<close>.\<close>

definition graph_step :: "string option \<Rightarrow> jsv \<Rightarrow> jsv list \<times> nat \<Rightarrow> jsv list \<times> nat" where
  "graph_step primaryType item acc =
     (let type = extractSchemaType item
      in if type \<in> set [JStr ''WebSite'', JStr ''Organization'', JStr ''Place'', JStr ''ImageObject'']
            \<and> keys_count item \<le> 3
         then acc
         else (let schemas = fst acc @ [JObj [(''schema'', item), (''type'', type)]]
               in if present primaryType \<and> type = of_opt primaryType then (schemas, length schemas - 1)
                  else if \<not> present primaryType
                          \<and> (type = JStr ''Service'' \<or> type = JStr ''Article'' \<or> type = JStr ''Product'')
                  then (schemas, length schemas - 1)
                  else (schemas, snd acc)))"

text \<open>The list handed to \<open>insertMultipleSchemas\<close>: the entities kept, the primary one
  moved to the front.\<close>

definition graph_schemas :: "string option \<Rightarrow> jsv list \<Rightarrow> jsv list" where
  "graph_schemas primaryType items =
     (let acc = fold (graph_step primaryType) items ([], 0);
          schemas = fst acc;
          primaryIndex = snd acc
      in if primaryIndex > 0
         then (schemas ! primaryIndex) # (take primaryIndex schemas @ drop (Suc primaryIndex) schemas)
         else schemas)"

definition insertFromGraph :: "nat \<Rightarrow> jsv \<Rightarrow> db_options \<Rightarrow> jsv io" where
  "insertFromGraph postId graphSchema opts =
     (let dryRun = dflt_v (JBool True) (o_dryRun opts);
          backup = dflt True (o_backup opts)
      in if graphSchema = JNull \<or> graphSchema = JUndefined then io_throw JsTypeError
         else (case get graphSchema ''@graph'' of
                 JArr items \<Rightarrow>
                   insertMultipleSchemas postId (graph_schemas (o_primaryType opts) items)
                     \<lparr>o_dryRun = dryRun, o_backup = Some backup, o_isPrimary = None,
                      o_primaryType = None\<rparr>
               | _ \<Rightarrow> io_return (JObj [(''success'', JBool False),
                                        (''error'', JStr ''Schema does not contain @graph array'')])))"

definition setRichSnippetType :: "nat \<Rightarrow> string \<Rightarrow> db_options \<Rightarrow> jsv io" where
  "setRichSnippetType postId snippetType opts =
     io_bind (select_meta_by_key postId ''rank_math_rich_snippet'')
       (\<lambda>existing.
          if truthy (dflt_v (JBool True) (o_dryRun opts))
          then io_return (JObj
                 [(''success'', JBool True),
                  (''dryRun'', JBool True),
                  (''postId'', JNum (int postId)),
                  (''metaKey'', JStr ''rank_math_rich_snippet''),
                  (''newValue'', JStr snippetType),
                  (''action'', JStr (if length existing > 0 then ''UPDATE'' else ''INSERT'')),
                  (''message'', JStr (''[DRY-RUN] Would set rich snippet type to '' @ [CHR 0x27] @ snippetType @ [CHR 0x27]))])
          else io_bind (case existing of
                          e # _ \<Rightarrow> update_meta_by_id (meta_id e) snippetType
                        | [] \<Rightarrow> io_bind (insert_meta postId ''rank_math_rich_snippet'' snippetType)
                                  (\<lambda>_. io_return ()))
                 (\<lambda>_. io_return (JObj
                    [(''success'', JBool True),
                     (''action'', JStr (if length existing > 0 then ''UPDATE'' else ''INSERT'')),
                     (''message'', JStr (''Set rich snippet type to '' @ [CHR 0x27] @ snippetType @ [CHR 0x27]))])))"

text \<open>The loop of \<open>rollback\<close> that re-inserts the backed-up rows.\<close>

fun restore_each :: "nat \<Rightarrow> saved_meta list \<Rightarrow> unit io" where
  "restore_each postId [] = io_return ()"
| "restore_each postId (m # ms) =
     (if starts_with (sm_key m) ''rank_math_schema_''
      then io_bind (insert_meta postId (sm_key m) (sm_value m)) (\<lambda>_. restore_each postId ms)
      else restore_each postId ms)"

definition rollback :: "nat \<Rightarrow> jsv io" where
  "rollback postId =
     io_bind (io_get (\<lambda>w. case map_of (backups w) postId of
                              Some b \<Rightarrow> Some b
                            | None \<Rightarrow> map_of (persistedBackups w) postId))
       (\<lambda>found. case found of
          None \<Rightarrow> io_return (JObj [(''success'', JBool False),
                                    (''error'', JStr (''No backup found for post ID '' @ show_nat postId))])
        | Some b \<Rightarrow>
            io_bind (delete_meta_like postId ''rank_math_schema_%'')
              (\<lambda>_. io_bind (restore_each postId (bk_schemas b))
                 (\<lambda>_. io_return (JObj
                    [(''success'', JBool True),
                     (''postId'', JNum (int postId)),
                     (''restored'', JNum (int (length (filter (\<lambda>m. starts_with (sm_key m) ''rank_math_schema_'')
                                                         (bk_schemas b))))),
                     (''backupTimestamp'', JNum (int (bk_timestamp b))),
                     (''message'', JStr ''Rolled back to previous state'')]))))"

definition deleteMeta :: "nat \<Rightarrow> db_options \<Rightarrow> jsv io" where
  "deleteMeta metaId opts =
     io_bind (select_meta_by_id metaId)
       (\<lambda>existing. case existing of
          [] \<Rightarrow> io_return (JObj [(''success'', JBool False),
                                 (''error'', JStr (''Meta ID '' @ show_nat metaId @ '' not found''))])
        | e # _ \<Rightarrow>
            if truthy (dflt_v (JBool True) (o_dryRun opts))
            then io_return (JObj
                   [(''success'', JBool True),
                    (''dryRun'', JBool True),
                    (''metaId'', JNum (int metaId)),
                    (''postId'', JNum (int (post_id e))),
                    (''metaKey'', JStr (meta_key e)),
                    (''message'', JStr (''[DRY-RUN] Would delete meta ID '' @ show_nat metaId
                                        @ '' ('' @ meta_key e @ '')''))])
            else io_bind (delete_meta_by_id metaId)
                   (\<lambda>_. io_return (JObj
                      [(''success'', JBool True),
                       (''deleted'', JObj [(''metaId'', JNum (int metaId)),
                                           (''postId'', JNum (int (post_id e))),
                                           (''metaKey'', JStr (meta_key e))]),
                       (''message'', JStr (''Deleted meta ID '' @ show_nat metaId))])))"

definition deleteAllSchemas :: "nat \<Rightarrow> db_options \<Rightarrow> jsv io" where
  "deleteAllSchemas postId opts =
     io_bind (select_meta_like postId ''rank_math_schema_%'')
       (\<lambda>existing.
          if truthy (dflt_v (JBool True) (o_dryRun opts))
          then io_return (JObj
                 [(''success'', JBool True),
                  (''dryRun'', JBool True),
                  (''postId'', JNum (int postId)),
                  (''schemasToDelete'', JNum (int (length existing))),
                  (''schemas'', JArr (map (\<lambda>e. JStr (meta_key e)) existing)),
                  (''message'', JStr (''[DRY-RUN] Would delete '' @ show_nat (length existing) @ '' schema(s)''))])
          else io_bind (backup_if (dflt True (o_backup opts)) postId)
                 (\<lambda>_. io_bind (delete_meta_like postId ''rank_math_schema_%'')
                    (\<lambda>_. io_return (JObj
                       [(''success'', JBool True),
                        (''postId'', JNum (int postId)),
                        (''deleted'', JNum (int (length existing))),
                        (''canRollback'', JBool (dflt True (o_backup opts))),
                        (''message'', JStr (''Deleted '' @ show_nat (length existing) @ '' schema(s)''))]))))"

section \<open>Safe mutation store: the dry-run default\<close>

text \<open>An event that only reads the store.\<close>

fun is_select :: "event \<Rightarrow> bool" where
  "is_select (Exec st ok) = (st = SELECT)"
| "is_select e = False"

text \<open>
  The second world differs from the first by reads only: tables, id counter, backups in
  memory, in the process and in the file are the same, and the trace has grown by
  \<open>SELECT\<close> statements only (the random source and the fault plan may have been used up).
\<close>

definition read_only :: "world \<Rightarrow> world \<Rightarrow> bool" where
  "read_only w w' =
     (posts w' = posts w \<and> postmeta w' = postmeta w \<and> next_meta_id w' = next_meta_id w
      \<and> backups w' = backups w \<and> persistedBackups w' = persistedBackups w
      \<and> backups_file w' = backups_file w
      \<and> take (length (trace w)) (trace w') = trace w
      \<and> list_all is_select (drop (length (trace w)) (trace w')))"

text \<open>A method that only reads, whatever the world it starts in.\<close>

definition ro :: "'a io \<Rightarrow> bool" where
  "ro m = (\<forall>w. read_only w (snd (m w)))"

text \<open>A result that describes: a preview marked \<open>dryRun\<close>, or a refusal.\<close>

definition described :: "jsv \<Rightarrow> bool" where
  "described v = (get v ''dryRun'' = JBool True \<or> get v ''success'' = JBool False)"

text \<open>The outcome of a method describes: it threw, or returned a describing result, or
  returned a list of such results that offers no rollback.\<close>

definition outcome_described :: "failure + jsv \<Rightarrow> bool" where
  "outcome_described r =
     (case r of
        Inl e \<Rightarrow> True
      | Inr v \<Rightarrow> described v
                 \<or> (get v ''canRollback'' = JBool False
                     \<and> (case get v ''results'' of JArr xs \<Rightarrow> list_all described xs | _ \<Rightarrow> False)))"

text \<open>Every value a method returns satisfies \<open>Q\<close>.\<close>

definition returns :: "'a io \<Rightarrow> ('a \<Rightarrow> bool) \<Rightarrow> bool" where
  "returns m Q = (\<forall>w. case fst (m w) of Inl e \<Rightarrow> True | Inr x \<Rightarrow> Q x)"

text \<open>A store with one post and two rows, a graph of four entities, and the options left out.\<close>

definition store0 :: world where
  "store0 = \<lparr>posts = [\<lparr>p_ID = 7, post_title = ''Furnace Repair''\<rparr>],
     postmeta = [\<lparr>meta_id = 1, post_id = 7, meta_key = ''rank_math_title'', meta_value = ''T''\<rparr>,
                 \<lparr>meta_id = 2, post_id = 7, meta_key = ''rank_math_schema_FAQPage'', meta_value = ''old''\<rparr>],
     next_meta_id = 3, backups = [], persistedBackups = [], backups_file = None,
     faults = [], fs_faults = [], clock = 100, random = [''abc123'', ''def456''], trace = []\<rparr>"

definition graph0 :: jsv where
  "graph0 = JObj [(''@context'', JStr ''https://schema.org''),
     (''@graph'', JArr
        [JObj [(''@type'', JStr ''Service''), (''name'', JStr ''S'')],
         JObj [(''@type'', JStr ''WebSite''), (''@id'', JStr ''#w''), (''url'', JStr ''u'')],
         JObj [(''@type'', JStr ''Article''), (''headline'', JStr ''A'')],
         JObj [(''@type'', JStr ''FAQPage''), (''mainEntity'', JArr [])]])]"

definition no_db_options :: db_options where
  "no_db_options = \<lparr>o_dryRun = JUndefined, o_backup = None, o_isPrimary = None, o_primaryType = None\<rparr>"

lemma read_only_refl: "read_only w w"
  by (simp add: read_only_def)

lemma read_only_trans: "read_only w w' \<Longrightarrow> read_only w' w'' \<Longrightarrow> read_only w w''"
proof -
  assume a: "read_only w w'" and b: "read_only w' w''"
  obtain es where es: "trace w' = trace w @ es" "list_all is_select es"
    using a by (metis append_take_drop_id read_only_def)
  obtain es' where es': "trace w'' = trace w' @ es'" "list_all is_select es'"
    using b by (metis append_take_drop_id read_only_def)
  show ?thesis using a b es es' by (simp add: read_only_def)
qed

lemma ro_return: "ro (io_return x)"
  by (simp add: ro_def io_return_def read_only_refl)

lemma ro_throw: "ro (io_throw e)"
  by (simp add: ro_def io_throw_def read_only_refl)

lemma ro_get: "ro (io_get f)"
  by (simp add: ro_def io_get_def read_only_refl)

lemma ro_bind: "ro m \<Longrightarrow> (\<And>x. ro (f x)) \<Longrightarrow> ro (io_bind m f)"
proof -
  assume m: "ro m" and f: "\<And>x. ro (f x)"
  show ?thesis
    unfolding ro_def
  proof
    fix w
    obtain r w' where mw: "m w = (r, w')" by (cases "m w")
    have a: "read_only w w'" using m mw by (auto simp: ro_def dest: spec [of _ w])
    show "read_only w (snd (io_bind m f w))"
    proof (cases r)
      case (Inl e)
      with mw a show ?thesis by (simp add: io_bind_def)
    next
      case (Inr x)
      have "read_only w' (snd (f x w'))" using f [of x] by (simp add: ro_def)
      with a have "read_only w (snd (f x w'))" by (rule read_only_trans)
      with mw Inr show ?thesis by (simp add: io_bind_def)
    qed
  qed
qed

lemma ro_select: "ro (conn_execute SELECT)"
  by (auto simp: ro_def conn_execute_def read_only_def split: list.splits option.splits)

lemma ro_shortcode: "ro generateShortcodeId"
  by (auto simp: ro_def generateShortcodeId_def read_only_def split: list.splits)

lemma ro_convert: "ro (convertToRankMathFormat s t b)"
  by (auto simp: convertToRankMathFormat_def Let_def intro!: ro_bind ro_return ro_shortcode)

lemma ro_select_posts: "ro (select_posts p)"
  by (auto simp: select_posts_def intro!: ro_bind ro_select ro_get)

lemma ro_select_meta_by_key: "ro (select_meta_by_key p k)"
  by (auto simp: select_meta_by_key_def intro!: ro_bind ro_select ro_get)

lemma ro_select_meta_like: "ro (select_meta_like p k)"
  by (auto simp: select_meta_like_def intro!: ro_bind ro_select ro_get)

lemma ro_select_meta_by_id: "ro (select_meta_by_id p)"
  by (auto simp: select_meta_by_id_def intro!: ro_bind ro_select ro_get)

lemma ro_preview: "ro (previewInsertion p s t b)"
  by (auto simp: previewInsertion_def Let_def split: list.splits
        intro!: ro_bind ro_return ro_select_posts ro_convert ro_select_meta_by_key)

lemma ro_insertSchema: "o_dryRun opts = JUndefined \<or> truthy (o_dryRun opts) \<Longrightarrow> ro (insertSchema p s t opts)"
  by (auto simp: insertSchema_def Let_def dflt_def dflt_v_def intro!: ro_bind ro_return ro_preview)

lemma ro_insert_each: "truthy d \<Longrightarrow> ro (insert_each p d i items)"
  by (induction items arbitrary: i)
    (auto intro!: ro_bind ro_return ro_throw ro_insertSchema)

lemma ro_no_backup: "ro (backup_if False p)"
  by (simp add: backup_if_def ro_return)

lemma ro_insertMultipleSchemas: "o_dryRun opts = JUndefined \<or> truthy (o_dryRun opts) \<Longrightarrow> ro (insertMultipleSchemas p items opts)"
  by (auto simp: insertMultipleSchemas_def Let_def dflt_def dflt_v_def
       intro!: ro_bind ro_return ro_insert_each ro_no_backup)

lemma ro_insertFromGraph: "o_dryRun opts = JUndefined \<or> truthy (o_dryRun opts) \<Longrightarrow> ro (insertFromGraph p g opts)"
  by (auto simp: insertFromGraph_def Let_def dflt_def dflt_v_def split: jsv.splits
       intro!: ro_bind ro_return ro_throw ro_insertMultipleSchemas)

lemma ro_setRichSnippetType: "o_dryRun opts = JUndefined \<or> truthy (o_dryRun opts) \<Longrightarrow> ro (setRichSnippetType p t opts)"
  by (auto simp: setRichSnippetType_def Let_def dflt_def dflt_v_def intro!: ro_bind ro_return ro_select_meta_by_key)

lemma ro_deleteMeta: "o_dryRun opts = JUndefined \<or> truthy (o_dryRun opts) \<Longrightarrow> ro (deleteMeta i opts)"
  by (auto simp: deleteMeta_def Let_def dflt_def dflt_v_def split: list.splits
       intro!: ro_bind ro_return ro_select_meta_by_id)

lemma ro_deleteAllSchemas: "o_dryRun opts = JUndefined \<or> truthy (o_dryRun opts) \<Longrightarrow> ro (deleteAllSchemas p opts)"
  by (auto simp: deleteAllSchemas_def Let_def dflt_def dflt_v_def intro!: ro_bind ro_return ro_select_meta_like)

lemma returns_return: "Q x \<Longrightarrow> returns (io_return x) Q"
  by (simp add: returns_def io_return_def)

lemma returns_throw: "returns (io_throw e) Q"
  by (simp add: returns_def io_throw_def)

lemma returns_bind: "(\<And>x. returns (f x) Q) \<Longrightarrow> returns (io_bind m f) Q"
  unfolding returns_def io_bind_def
  by (auto split: prod.splits sum.splits) (metis fst_conv old.sum.simps(6))

lemma returns_preview:
  "returns (previewInsertion p s t b)
     (\<lambda>v. get v ''success'' = JBool False \<or> (get v ''success'' = JBool True \<and> get v ''dryRun'' = JBool True))"
  unfolding previewInsertion_def Let_def
  by (intro returns_bind) (auto split: list.splits intro!: returns_bind returns_return)

lemma returns_weaken: "returns m P \<Longrightarrow> (\<And>x. P x \<Longrightarrow> Q x) \<Longrightarrow> returns m Q"
  by (auto simp: returns_def split: sum.splits)

lemma returns_bind2: "returns m P \<Longrightarrow> (\<And>x. P x \<Longrightarrow> returns (f x) Q) \<Longrightarrow> returns (io_bind m f) Q"
  unfolding returns_def io_bind_def
  by (auto split: prod.splits sum.splits) (metis fst_conv old.sum.simps(6))

lemma described_insertSchema:
  "o_dryRun opts = JUndefined \<or> truthy (o_dryRun opts) \<Longrightarrow> returns (insertSchema p s t opts) described"
proof -
  assume "o_dryRun opts = JUndefined \<or> truthy (o_dryRun opts)"
  then have d: "truthy (dflt_v (JBool True) (o_dryRun opts))" by (auto simp: dflt_v_def)
  show ?thesis
    unfolding insertSchema_def Let_def
    by (rule returns_bind2 [OF returns_preview])
      (use d in \<open>auto simp: described_def get_set_prop_other intro!: returns_return\<close>)
qed

lemma described_insert_each:
  "truthy d \<Longrightarrow> returns (insert_each p d i items) (list_all described)"
proof (induction items arbitrary: i)
  case Nil
  then show ?case by (simp add: returns_return)
next
  case (Cons item items)
  have "returns (insertSchema p (get item ''schema'') (get item ''type'')
                  \<lparr>o_dryRun = d, o_backup = Some False, o_isPrimary = Some (i = 0),
                   o_primaryType = None\<rparr>) described"
    by (rule described_insertSchema) (simp add: Cons.prems)
  then show ?case
    using Cons.IH [OF Cons.prems, of "Suc i"]
    by (auto intro!: returns_throw returns_return elim!: returns_bind2)
qed

lemma described_insertMultipleSchemas:
  "o_dryRun opts = JUndefined \<or> truthy (o_dryRun opts) \<Longrightarrow>
   returns (insertMultipleSchemas p items opts)
     (\<lambda>v. get v ''canRollback'' = JBool False
           \<and> (case get v ''results'' of JArr xs \<Rightarrow> list_all described xs | _ \<Rightarrow> False))"
proof -
  assume "o_dryRun opts = JUndefined \<or> truthy (o_dryRun opts)"
  then have d: "truthy (dflt_v (JBool True) (o_dryRun opts))" by (auto simp: dflt_v_def)
  show ?thesis
    unfolding insertMultipleSchemas_def Let_def
    using d
    by (auto intro!: returns_bind returns_bind2 [OF described_insert_each [OF d]] returns_return)
qed

lemma described_all:
  assumes "o_dryRun opts = JUndefined \<or> truthy (o_dryRun opts)"
  shows "outcome_described (fst (insertSchema p s t opts w))"
    and "outcome_described (fst (insertMultipleSchemas p items opts w))"
    and "outcome_described (fst (insertFromGraph p g opts w))"
    and "outcome_described (fst (setRichSnippetType p st opts w))"
    and "outcome_described (fst (deleteMeta i opts w))"
    and "outcome_described (fst (deleteAllSchemas p opts w))"
proof -
  from assms have d: "truthy (dflt_v (JBool True) (o_dryRun opts))" by (auto simp: dflt_v_def)
  show "outcome_described (fst (insertSchema p s t opts w))"
    using described_insertSchema [OF assms, of p s t]
    by (auto simp: returns_def outcome_described_def split: sum.splits dest: spec [of _ w])
  show "outcome_described (fst (insertMultipleSchemas p items opts w))"
    using described_insertMultipleSchemas [OF assms, of p items]
    by (auto simp: returns_def outcome_described_def split: sum.splits dest: spec [of _ w])
  have "returns (insertFromGraph p g opts)
          (\<lambda>v. described v \<or> (get v ''canRollback'' = JBool False
                \<and> (case get v ''results'' of JArr xs \<Rightarrow> list_all described xs | _ \<Rightarrow> False)))"
    unfolding insertFromGraph_def Let_def
    using d
    by (auto simp: described_def split: jsv.splits
          intro!: returns_throw returns_return
          intro: returns_weaken [OF described_insertMultipleSchemas])
  then show "outcome_described (fst (insertFromGraph p g opts w))"
    by (auto simp: returns_def outcome_described_def split: sum.splits dest: spec [of _ w])
  have "returns (setRichSnippetType p st opts) described"
    unfolding setRichSnippetType_def using d
    by (auto simp: described_def intro!: returns_bind returns_return)
  then show "outcome_described (fst (setRichSnippetType p st opts w))"
    by (auto simp: returns_def outcome_described_def split: sum.splits dest: spec [of _ w])
  have "returns (deleteMeta i opts) described"
    unfolding deleteMeta_def using d
    by (auto simp: described_def split: list.splits intro!: returns_bind returns_return)
  then show "outcome_described (fst (deleteMeta i opts w))"
    by (auto simp: returns_def outcome_described_def split: sum.splits dest: spec [of _ w])
  have "returns (deleteAllSchemas p opts) described"
    unfolding deleteAllSchemas_def using d
    by (auto simp: described_def intro!: returns_bind returns_return)
  then show "outcome_described (fst (deleteAllSchemas p opts w))"
    by (auto simp: returns_def outcome_described_def split: sum.splits dest: spec [of _ w])
qed

text \<open>
  C6, for the values that keep the dry run. When \<open>dryRun\<close> is left out (or is
  \<open>undefined\<close>) or is truthy, each of insertSchema, insertMultipleSchemas,
  insertFromGraph, setRichSnippetType, deleteMeta and deleteAllSchemas only reads: the tables, the id counter and the backups
  are as before and every statement sent to the store is a \<open>SELECT\<close>; and what it returns
  describes what would change (a result marked \<open>dryRun\<close>, a refusal, or a list of such
  results offering no rollback), unless a \<open>SELECT\<close> was rejected and the method threw.
\<close>

theorem dry_run_is_default:
  assumes "o_dryRun opts = JUndefined \<or> truthy (o_dryRun opts)"
  shows "read_only w (snd (insertSchema p s t opts w))
       \<and> read_only w (snd (insertMultipleSchemas p items opts w))
       \<and> read_only w (snd (insertFromGraph p g opts w))
       \<and> read_only w (snd (setRichSnippetType p st opts w))
       \<and> read_only w (snd (deleteMeta i opts w))
       \<and> read_only w (snd (deleteAllSchemas p opts w))
       \<and> outcome_described (fst (insertSchema p s t opts w))
       \<and> outcome_described (fst (insertMultipleSchemas p items opts w))
       \<and> outcome_described (fst (insertFromGraph p g opts w))
       \<and> outcome_described (fst (setRichSnippetType p st opts w))
       \<and> outcome_described (fst (deleteMeta i opts w))
       \<and> outcome_described (fst (deleteAllSchemas p opts w))"
  using ro_insertSchema [OF assms, of p s t] ro_insertMultipleSchemas [OF assms, of p items]
    ro_insertFromGraph [OF assms, of p g] ro_setRichSnippetType [OF assms, of p st]
    ro_deleteMeta [OF assms, of i] ro_deleteAllSchemas [OF assms, of p]
    described_all [OF assms]
  by (simp add: ro_def)

theorem dry_run_is_default_witness:
  "o_dryRun no_db_options = JUndefined
   \<and> postmeta (snd (insertFromGraph 7 graph0 no_db_options store0)) = postmeta store0
   \<and> list_all is_select (trace (snd (insertFromGraph 7 graph0 no_db_options store0)))
   \<and> postmeta (snd (deleteAllSchemas 7 no_db_options store0)) = postmeta store0
   \<and> outcome_described (fst (deleteAllSchemas 7 no_db_options store0))"
proof -
  have a: "o_dryRun no_db_options = JUndefined \<or> truthy (o_dryRun no_db_options)"
    by (simp add: no_db_options_def)
  have u: "o_dryRun no_db_options = JUndefined"
    by (simp add: no_db_options_def)
  have "trace store0 = []"
    by (simp add: store0_def)
  then show ?thesis
    using dry_run_is_default [OF a, of store0 7 JNull JNull "[]" graph0 "[]" 2]
    by (simp add: read_only_def u)
qed

text \<open>The options of a caller who passes \<open>dryRun: null\<close>.\<close>

definition null_dry_run :: db_options where
  "null_dry_run = \<lparr>o_dryRun = JNull, o_backup = None, o_isPrimary = None, o_primaryType = None\<rparr>"

text \<open>
  C6 does not hold for every value other than \<open>false\<close>. The default of the destructuring
  applies to \<open>undefined\<close> only and the methods test the truthiness of \<open>dryRun\<close>, so a
  caller who passes \<open>dryRun: null\<close> (or \<open>0\<close>, or the empty string) commits:
  \<open>deleteAllSchemas\<close> sends its \<open>DELETE\<close> and the schema row of the post is gone, and
  \<open>insertSchema\<close> sends its \<open>INSERT\<close>.
\<close>

theorem falsy_dry_run_commits:
  "o_dryRun null_dry_run \<noteq> JBool False
   \<and> trace (snd (deleteAllSchemas 7 null_dry_run store0))
     = [Exec SELECT None, Exec SELECT None, MemBackup 7, FileWrite True, Exec DELETE None]
   \<and> map meta_key (postmeta (snd (deleteAllSchemas 7 null_dry_run store0))) = [''rank_math_title'']
   \<and> map meta_key (postmeta (snd (insertSchema 7
          (JObj [(''@type'', JStr ''Service''), (''name'', JStr ''S'')]) JNull null_dry_run store0)))
     = [''rank_math_title'', ''rank_math_schema_FAQPage'', ''rank_math_schema_Service'']"
  by code_simp

section \<open>Safe mutation store: the primary entity of a graph\<close>

text \<open>A graph with a Service followed by an Article, and the options of a committed insert.\<close>

definition graph1 :: jsv where
  "graph1 = JObj [(''@context'', JStr ''https://schema.org''),
     (''@graph'', JArr
        [JObj [(''@type'', JStr ''Service''), (''name'', JStr ''S'')],
         JObj [(''@type'', JStr ''Article''), (''headline'', JStr ''A'')]])]"

definition commit_options :: db_options where
  "commit_options = \<lparr>o_dryRun = JBool False, o_backup = None, o_isPrimary = None, o_primaryType = None\<rparr>"

text \<open>
  C1 does not hold of the code: with no primaryType, for a graph holding a Service and then
  an Article, \<open>insertFromGraph\<close> moves the Article to the front (each entity of a
  preferred type overwrites \<open>primaryIndex\<close>, so the last one wins), and the committed insert
  stores the Article row in the primary format and the Service row in the secondary one.
\<close>

theorem insertFromGraph_primary_is_last_preferred:
  "graph_schemas None
      [JObj [(''@type'', JStr ''Service''), (''name'', JStr ''S'')],
       JObj [(''@type'', JStr ''Article''), (''headline'', JStr ''A'')]]
     = [JObj [(''schema'', JObj [(''@type'', JStr ''Article''), (''headline'', JStr ''A'')]),
              (''type'', JStr ''Article'')],
        JObj [(''schema'', JObj [(''@type'', JStr ''Service''), (''name'', JStr ''S'')]),
              (''type'', JStr ''Service'')]]
   \<and> map (\<lambda>r. (meta_key r, str_includes (meta_value r) ''isPrimary''))
         (postmeta (snd (insertFromGraph 7 graph1 commit_options store0)))
     = [(''rank_math_title'', False),
        (''rank_math_schema_FAQPage'', False),
        (''rank_math_schema_Article'', True),
        (''rank_math_schema_Service'', False)]"
  by code_simp

section \<open>Safe mutation store: the backup comes before the write\<close>

text \<open>The events a run has added to the trace.\<close>

definition new_events :: "world \<Rightarrow> world \<Rightarrow> event list" where
  "new_events w w' = drop (length (trace w)) (trace w')"

text \<open>A statement sent to the store, as opposed to a backup step.\<close>

fun is_exec :: "event \<Rightarrow> bool" where
  "is_exec (Exec st ok) = True"
| "is_exec e = False"

text \<open>A statement that changes the store, sent to it (whether or not the store accepted it).\<close>

fun is_write :: "event \<Rightarrow> bool" where
  "is_write (Exec st ok) = (st \<noteq> SELECT)"
| "is_write e = False"

text \<open>A \<open>SELECT\<close> that the store rejected.\<close>

fun rejected_select :: "event \<Rightarrow> bool" where
  "rejected_select (Exec st ok) = (st = SELECT \<and> ok \<noteq> None)"
| "rejected_select e = False"

text \<open>Every statement other than a \<open>SELECT\<close> comes after a snapshot of post \<open>p\<close> was put
  into the in-memory map (\<open>m\<close>) and after a later attempt to write the backups file (\<open>f\<close>).\<close>

fun guarded :: "nat \<Rightarrow> bool \<Rightarrow> bool \<Rightarrow> event list \<Rightarrow> bool" where
  "guarded p m f [] = True"
| "guarded p m f (Exec st ok # es) = ((st = SELECT \<or> (m \<and> f)) \<and> guarded p m f es)"
| "guarded p m f (MemBackup q # es) = guarded p (m \<or> q = p) f es"
| "guarded p m f (FileWrite b # es) = guarded p m (f \<or> m) es"

text \<open>What \<open>getExistingSchemas\<close> reads: the rows of the post whose key is like \<open>rank_math%\<close>.\<close>

definition snapshot :: "nat \<Rightarrow> meta_row list \<Rightarrow> saved_meta list" where
  "snapshot p rows =
     map (\<lambda>r. \<lparr>sm_metaId = meta_id r, sm_key = meta_key r, sm_value = meta_value r\<rparr>)
         (filter (\<lambda>r. post_id r = p \<and> sql_like ''rank_math%'' (meta_key r)) rows)"

text \<open>The rows of the other posts.\<close>

definition other_rows :: "nat \<Rightarrow> meta_row list \<Rightarrow> meta_row list" where
  "other_rows p rows = filter (\<lambda>r. post_id r \<noteq> p) rows"

text \<open>A method that returns normally has had none of its \<open>SELECT\<close>s rejected: a failed read
  is always thrown.\<close>

definition logs :: "'a io \<Rightarrow> bool" where
  "logs m = (\<forall>w. \<exists>es. trace (snd (m w)) = trace w @ es
                 \<and> (isl (fst (m w)) \<or> \<not> list_ex rejected_select es))"

text \<open>A method that only sends statements: no backup step, the in-memory backups, the posts
  and the rows of other posts stay as they are.\<close>

definition execs_only :: "nat \<Rightarrow> 'a io \<Rightarrow> bool" where
  "execs_only p m =
     (\<forall>w. \<exists>es. trace (snd (m w)) = trace w @ es \<and> list_all is_exec es
             \<and> backups (snd (m w)) = backups w \<and> posts (snd (m w)) = posts w
             \<and> other_rows p (postmeta (snd (m w))) = other_rows p (postmeta w))"

text \<open>A method that takes its snapshot before it writes: its events are guarded, and when it
  backed up post \<open>p\<close> the in-memory map holds the rows as they were when it started.\<close>

definition backed :: "nat \<Rightarrow> 'a io \<Rightarrow> bool" where
  "backed p m =
     (\<forall>w. \<exists>es. trace (snd (m w)) = trace w @ es \<and> guarded p False False es
             \<and> (MemBackup p \<in> set es \<longrightarrow>
                  (\<exists>b. map_of (backups (snd (m w))) p = Some b
                       \<and> bk_schemas b = snapshot p (postmeta w))))"

text \<open>The four facts about one run from \<open>w\<close>: the writes are guarded; a run that took no
  snapshot of the post sent no write at all; the snapshot recorded is the one of the
  starting rows; and a run in which a read was rejected threw.\<close>

definition backup_first :: "nat \<Rightarrow> world \<Rightarrow> 'a io \<Rightarrow> bool" where
  "backup_first p w m =
     (guarded p False False (new_events w (snd (m w)))
      \<and> (MemBackup p \<in> set (new_events w (snd (m w)))
          \<or> \<not> list_ex is_write (new_events w (snd (m w))))
      \<and> (MemBackup p \<notin> set (new_events w (snd (m w)))
          \<or> map_option bk_schemas (map_of (backups (snd (m w))) p) = Some (snapshot p (postmeta w)))
      \<and> (isl (fst (m w)) \<or> \<not> list_ex rejected_select (new_events w (snd (m w)))))"

text \<open>A Service entity, and the example store on a disk that rejects the next file write.\<close>

definition service1 :: jsv where
  "service1 = JObj [(''@type'', JStr ''Service''), (''name'', JStr ''S'')]"

definition failing_disk :: world where
  "failing_disk = store0\<lparr>fs_faults := [True]\<rparr>"

lemma io_bindE:
  assumes "io_bind m f w = (r, w')"
  obtains (throw) e where "m w = (Inl e, w')" "r = Inl e"
        | (ok) x w1 where "m w = (Inr x, w1)" "f x w1 = (r, w')"
  using assms by (auto simp: io_bind_def split: prod.splits sum.splits)

lemma logs_return: "logs (io_return x)"
  by (simp add: logs_def io_return_def)

lemma logs_throw: "logs (io_throw e)"
  by (simp add: logs_def io_throw_def)

lemma logs_get: "logs (io_get f)"
  by (simp add: logs_def io_get_def)

lemma logs_bind:
  assumes "logs m" and "\<And>x. logs (f x)"
  shows "logs (io_bind m f)"
  unfolding logs_def
proof
  fix w
  obtain r w1 where mw: "m w = (r, w1)" by (cases "m w")
  from assms(1) mw obtain es where es: "trace w1 = trace w @ es" "isl r \<or> \<not> list_ex rejected_select es"
    by (auto simp: logs_def dest!: spec [of _ w])
  show "\<exists>es. trace (snd (io_bind m f w)) = trace w @ es
             \<and> (isl (fst (io_bind m f w)) \<or> \<not> list_ex rejected_select es)"
  proof (cases r)
    case (Inl e)
    with mw es show ?thesis by (simp add: io_bind_def)
  next
    case (Inr x)
    from assms(2) [of x] obtain es' where es': "trace (snd (f x w1)) = trace w1 @ es'"
        "isl (fst (f x w1)) \<or> \<not> list_ex rejected_select es'"
      by (auto simp: logs_def dest!: spec [of _ w1])
    with mw Inr es show ?thesis
      by (auto simp: io_bind_def intro!: exI [of _ "es @ es'"])
  qed
qed

lemma logs_conn: "logs (conn_execute st)"
  by (auto simp: logs_def conn_execute_def split: list.splits option.splits)

lemma logs_shortcode: "logs generateShortcodeId"
  by (auto simp: logs_def generateShortcodeId_def split: list.splits)

lemma logs_convert: "logs (convertToRankMathFormat s t b)"
  by (auto simp: convertToRankMathFormat_def Let_def intro!: logs_bind logs_return logs_shortcode)

lemma logs_select_posts: "logs (select_posts p)"
  by (auto simp: select_posts_def intro!: logs_bind logs_conn logs_get)

lemma logs_select_meta_by_key: "logs (select_meta_by_key p k)"
  by (auto simp: select_meta_by_key_def intro!: logs_bind logs_conn logs_get)

lemma logs_select_meta_like: "logs (select_meta_like p k)"
  by (auto simp: select_meta_like_def intro!: logs_bind logs_conn logs_get)

lemma logs_preview: "logs (previewInsertion p s t b)"
  by (auto simp: previewInsertion_def Let_def split: list.splits
        intro!: logs_bind logs_return logs_select_posts logs_convert logs_select_meta_by_key)

lemma map_of_map_set: "map_of (map_set k v m) k' = (if k' = k then Some v else map_of m k')"
  by (induction m) auto

lemma backupMeta_spec:
  assumes "backupMeta p w = (r, w')"
  shows "posts w' = posts w \<and> postmeta w' = postmeta w \<and> next_meta_id w' = next_meta_id w
       \<and> ((\<exists>msg. r = Inl (StoreError msg) \<and> trace w' = trace w @ [Exec SELECT (Some msg)]
              \<and> backups w' = backups w)
          \<or> (\<exists>v b. r = Inr v \<and> trace w' = trace w @ [Exec SELECT None, MemBackup p, FileWrite b]
              \<and> map_of (backups w') p = Some \<lparr>bk_timestamp = clock w, bk_schemas = snapshot p (postmeta w)\<rparr>
              \<and> (\<forall>q. q \<noteq> p \<longrightarrow> map_of (backups w') q = map_of (backups w) q)))"
  using assms
  by (auto simp: backupMeta_def getExistingSchemas_def select_meta_like_def conn_execute_def
        saveBackupsToFile_def io_bind_def io_return_def io_get_def Let_def snapshot_def
        map_of_map_set
      split: list.splits option.splits if_splits)

lemma execs_return: "execs_only p (io_return x)"
  by (simp add: execs_only_def io_return_def)

lemma execs_throw: "execs_only p (io_throw e)"
  by (simp add: execs_only_def io_throw_def)

lemma execs_get: "execs_only p (io_get f)"
  by (simp add: execs_only_def io_get_def)

lemma execs_bind:
  assumes "execs_only p m" and "\<And>x. execs_only p (f x)"
  shows "execs_only p (io_bind m f)"
  unfolding execs_only_def
proof
  fix w
  obtain r w1 where mw: "m w = (r, w1)" by (cases "m w")
  from assms(1) mw obtain es where es: "trace w1 = trace w @ es" "list_all is_exec es"
      "backups w1 = backups w" "posts w1 = posts w"
      "other_rows p (postmeta w1) = other_rows p (postmeta w)"
    by (auto simp: execs_only_def dest!: spec [of _ w])
  show "\<exists>es. trace (snd (io_bind m f w)) = trace w @ es \<and> list_all is_exec es
             \<and> backups (snd (io_bind m f w)) = backups w \<and> posts (snd (io_bind m f w)) = posts w
             \<and> other_rows p (postmeta (snd (io_bind m f w))) = other_rows p (postmeta w)"
  proof (cases r)
    case (Inl e)
    with mw es show ?thesis by (simp add: io_bind_def)
  next
    case (Inr x)
    from assms(2) [of x] obtain es' where es': "trace (snd (f x w1)) = trace w1 @ es'"
        "list_all is_exec es'" "backups (snd (f x w1)) = backups w1" "posts (snd (f x w1)) = posts w1"
        "other_rows p (postmeta (snd (f x w1))) = other_rows p (postmeta w1)"
      by (auto simp: execs_only_def dest!: spec [of _ w1])
    with mw Inr es show ?thesis
      by (auto simp: io_bind_def intro!: exI [of _ "es @ es'"])
  qed
qed

lemma execs_catch:
  assumes "execs_only p m" and "\<And>e. execs_only p (h e)"
  shows "execs_only p (io_catch m h)"
  unfolding execs_only_def
proof
  fix w
  obtain r w1 where mw: "m w = (r, w1)" by (cases "m w")
  from assms(1) mw obtain es where es: "trace w1 = trace w @ es" "list_all is_exec es"
      "backups w1 = backups w" "posts w1 = posts w"
      "other_rows p (postmeta w1) = other_rows p (postmeta w)"
    by (auto simp: execs_only_def dest!: spec [of _ w])
  show "\<exists>es. trace (snd (io_catch m h w)) = trace w @ es \<and> list_all is_exec es
             \<and> backups (snd (io_catch m h w)) = backups w \<and> posts (snd (io_catch m h w)) = posts w
             \<and> other_rows p (postmeta (snd (io_catch m h w))) = other_rows p (postmeta w)"
  proof (cases r)
    case (Inr x)
    with mw es show ?thesis by (simp add: io_catch_def)
  next
    case (Inl e)
    from assms(2) [of e] obtain es' where es': "trace (snd (h e w1)) = trace w1 @ es'"
        "list_all is_exec es'" "backups (snd (h e w1)) = backups w1" "posts (snd (h e w1)) = posts w1"
        "other_rows p (postmeta (snd (h e w1))) = other_rows p (postmeta w1)"
      by (auto simp: execs_only_def dest!: spec [of _ w1])
    with mw Inl es show ?thesis
      by (auto simp: io_catch_def intro!: exI [of _ "es @ es'"])
  qed
qed

lemma execs_conn: "execs_only p (conn_execute st)"
  by (auto simp: execs_only_def conn_execute_def split: list.splits option.splits)

lemma execs_shortcode: "execs_only p generateShortcodeId"
  by (auto simp: execs_only_def generateShortcodeId_def split: list.splits)

lemma execs_convert: "execs_only p (convertToRankMathFormat s t b)"
  by (auto simp: convertToRankMathFormat_def Let_def intro!: execs_bind execs_return execs_shortcode)

lemma execs_select_posts: "execs_only p (select_posts q)"
  by (auto simp: select_posts_def intro!: execs_bind execs_conn execs_get)

lemma execs_select_meta_by_key: "execs_only p (select_meta_by_key q k)"
  by (auto simp: select_meta_by_key_def intro!: execs_bind execs_conn execs_get)

lemma execs_preview: "execs_only p (previewInsertion q s t b)"
  by (auto simp: previewInsertion_def Let_def split: list.splits
        intro!: execs_bind execs_return execs_select_posts execs_convert execs_select_meta_by_key)

lemma execs_store_update:
  assumes "\<And>w. posts (g w) = posts w \<and> backups (g w) = backups w \<and> trace (g w) = trace w
             \<and> other_rows p (postmeta (g w)) = other_rows p (postmeta w)"
  shows "execs_only p (\<lambda>w. (Inr (x w), g w))"
  using assms by (simp add: execs_only_def)

lemma other_rows_update:
  "other_rows p (map (\<lambda>r. if post_id r = p \<and> meta_key r = k then r\<lparr>meta_value := v\<rparr> else r) rows)
     = other_rows p rows"
  by (induction rows) (auto simp: other_rows_def)

lemma execs_update_meta_value: "execs_only p (update_meta_value p k v)"
  unfolding update_meta_value_def
  by (intro execs_bind execs_conn execs_store_update) (simp add: other_rows_update)

lemma execs_insert_meta: "execs_only p (insert_meta p k v)"
  unfolding insert_meta_def
  by (intro execs_bind execs_conn execs_store_update) (simp add: other_rows_def)

lemma execs_delete_meta_like: "execs_only p (delete_meta_like p pat)"
  unfolding delete_meta_like_def
  by (intro execs_bind execs_conn execs_store_update) (auto simp: other_rows_def intro: filter_cong)

lemma execs_write_schema: "execs_only p (write_schema p k dt pv mv b)"
  unfolding write_schema_def
  by (auto intro!: execs_catch execs_bind execs_return execs_update_meta_value execs_insert_meta)

lemma execs_commit_schema: "execs_only p (commit_schema p s dt ip False pv)"
  unfolding commit_schema_def backup_if_def
  by (auto intro!: execs_bind execs_return execs_convert execs_write_schema)

lemma execs_insertSchema: "o_backup opts = Some False \<Longrightarrow> execs_only p (insertSchema p s t opts)"
  unfolding insertSchema_def Let_def
  by (auto simp: dflt_def intro!: execs_bind execs_return execs_preview execs_commit_schema)

lemma execs_insert_each: "execs_only p (insert_each p d i items)"
  by (induction items arbitrary: i)
    (auto intro!: execs_bind execs_return execs_throw execs_insertSchema)

lemma guarded_selects: "list_all is_select es \<Longrightarrow> guarded p m f (es @ es') = guarded p m f es'"
proof (induction es)
  case Nil
  then show ?case by simp
next
  case (Cons e es)
  then show ?case by (cases e) auto
qed

lemma guarded_execs: "list_all is_exec es \<Longrightarrow> guarded p True True es"
proof (induction es)
  case Nil
  then show ?case by simp
next
  case (Cons e es)
  then show ?case by (cases e) auto
qed

lemma selects_no_backup: "list_all is_select es \<Longrightarrow> MemBackup p \<notin> set es"
  by (auto simp: list_all_iff)

lemma execs_no_backup: "list_all is_exec es \<Longrightarrow> MemBackup p \<notin> set es"
  by (auto simp: list_all_iff)

lemma read_only_events:
  assumes "read_only w w'"
  obtains es where "trace w' = trace w @ es" "list_all is_select es"
  using assms by (metis append_take_drop_id read_only_def)

lemma backed_ro: "ro m \<Longrightarrow> backed p m"
  unfolding backed_def
proof
  fix w
  assume "ro m"
  then have "read_only w (snd (m w))" by (simp add: ro_def)
  then obtain es where es: "trace (snd (m w)) = trace w @ es" "list_all is_select es"
    by (rule read_only_events)
  then show "\<exists>es. trace (snd (m w)) = trace w @ es \<and> guarded p False False es
             \<and> (MemBackup p \<in> set es \<longrightarrow>
                  (\<exists>b. map_of (backups (snd (m w))) p = Some b
                       \<and> bk_schemas b = snapshot p (postmeta w)))"
    using guarded_selects [of es p False False "[]"] selects_no_backup [of es p] by auto
qed

lemma backed_after_reads:
  assumes "ro m" and "\<And>x. backed p (f x)"
  shows "backed p (io_bind m f)"
  unfolding backed_def
proof
  fix w
  obtain r w1 where mw: "m w = (r, w1)" by (cases "m w")
  from assms(1) mw have r1: "read_only w w1" by (auto simp: ro_def dest!: spec [of _ w])
  then obtain es where es: "trace w1 = trace w @ es" "list_all is_select es"
    by (rule read_only_events)
  from r1 have pm: "postmeta w1 = postmeta w" by (simp add: read_only_def)
  show "\<exists>es. trace (snd (io_bind m f w)) = trace w @ es \<and> guarded p False False es
             \<and> (MemBackup p \<in> set es \<longrightarrow>
                  (\<exists>b. map_of (backups (snd (io_bind m f w))) p = Some b
                       \<and> bk_schemas b = snapshot p (postmeta w)))"
  proof (cases r)
    case (Inl e)
    with mw es show ?thesis
      using guarded_selects [of es p False False "[]"] selects_no_backup [of es p]
      by (auto simp: io_bind_def)
  next
    case (Inr x)
    from assms(2) [of x] obtain es' where es': "trace (snd (f x w1)) = trace w1 @ es'"
        "guarded p False False es'"
        "MemBackup p \<in> set es' \<longrightarrow>
           (\<exists>b. map_of (backups (snd (f x w1))) p = Some b \<and> bk_schemas b = snapshot p (postmeta w1))"
      by (auto simp: backed_def dest!: spec [of _ w1])
    with mw Inr es pm show ?thesis
      using guarded_selects [of es p False False es'] selects_no_backup [of es p]
      by (auto simp: io_bind_def intro!: exI [of _ "es @ es'"])
  qed
qed

lemma backed_then_execs:
  assumes "\<And>x. execs_only p (f x)"
  shows "backed p (io_bind (backup_if True p) f)"
  unfolding backed_def
proof
  fix w
  obtain r w1 where mw: "backupMeta p w = (r, w1)" by (cases "backupMeta p w")
  note bm = backupMeta_spec [OF mw]
  show "\<exists>es. trace (snd (io_bind (backup_if True p) f w)) = trace w @ es \<and> guarded p False False es
             \<and> (MemBackup p \<in> set es \<longrightarrow>
                  (\<exists>b. map_of (backups (snd (io_bind (backup_if True p) f w))) p = Some b
                       \<and> bk_schemas b = snapshot p (postmeta w)))"
  proof (cases r)
    case (Inl e)
    with bm mw show ?thesis
      by (auto simp: io_bind_def backup_if_def io_return_def)
  next
    case (Inr v)
    with bm obtain b where b: "trace w1 = trace w @ [Exec SELECT None, MemBackup p, FileWrite b]"
        "map_of (backups w1) p = Some \<lparr>bk_timestamp = clock w, bk_schemas = snapshot p (postmeta w)\<rparr>"
      by auto
    from assms [of "()"] obtain es' where es': "trace (snd (f () w1)) = trace w1 @ es'"
        "list_all is_exec es'" "backups (snd (f () w1)) = backups w1"
      by (auto simp: execs_only_def dest!: spec [of _ w1])
    have "io_bind (backup_if True p) f w = f () w1"
      using mw Inr by (simp add: io_bind_def backup_if_def io_return_def)
    with b es' show ?thesis
      using guarded_execs [of es' p]
      by (auto intro!: exI [of _ "[Exec SELECT None, MemBackup p, FileWrite b] @ es'"])
  qed
qed

lemma backed_return: "backed p (io_return x)"
  by (intro backed_ro ro_return)

lemma backed_throw: "backed p (io_throw x)"
  by (intro backed_ro ro_throw)

lemma backed_commit_schema: "backed p (commit_schema p s dt ip True pv)"
  unfolding commit_schema_def
  by (intro backed_after_reads ro_convert backed_then_execs execs_write_schema)

lemma backed_insertSchema:
  assumes "o_backup opts \<noteq> Some False"
  shows "backed p (insertSchema p s t opts)"
proof -
  from assms have b: "dflt True (o_backup opts)" by (cases "o_backup opts") (auto simp: dflt_def)
  show ?thesis
    unfolding insertSchema_def Let_def
    using b
    by (auto intro!: backed_after_reads ro_preview backed_return backed_commit_schema)
qed

lemma backed_insertMultipleSchemas:
  assumes "o_backup opts \<noteq> Some False"
  shows "backed p (insertMultipleSchemas p items opts)"
proof -
  from assms have b: "dflt True (o_backup opts)" by (cases "o_backup opts") (auto simp: dflt_def)
  show ?thesis
  proof (cases "truthy (dflt_v (JBool True) (o_dryRun opts))")
    case True
    then have "o_dryRun opts = JUndefined \<or> truthy (o_dryRun opts)" by (auto simp: dflt_v_def split: if_splits)
    then show ?thesis by (intro backed_ro ro_insertMultipleSchemas)
  next
    case False
    with b show ?thesis
      unfolding insertMultipleSchemas_def Let_def
      by (auto intro!: backed_then_execs execs_bind execs_insert_each execs_return)
  qed
qed

lemma backed_insertFromGraph:
  assumes "o_backup opts \<noteq> Some False"
  shows "backed p (insertFromGraph p g opts)"
proof -
  from assms have b: "dflt True (o_backup opts)" by (cases "o_backup opts") (auto simp: dflt_def)
  show ?thesis
    unfolding insertFromGraph_def Let_def
    using b
    by (auto split: jsv.splits intro!: backed_throw backed_return backed_insertMultipleSchemas)
qed

lemma backed_deleteAllSchemas:
  assumes "o_backup opts \<noteq> Some False"
  shows "backed p (deleteAllSchemas p opts)"
proof -
  from assms have b: "dflt True (o_backup opts)" by (cases "o_backup opts") (auto simp: dflt_def)
  show ?thesis
    unfolding deleteAllSchemas_def
    using b
    by (auto intro!: backed_after_reads ro_select_meta_like backed_return backed_then_execs
          execs_bind execs_delete_meta_like execs_return)
qed

lemma logs_backupMeta: "logs (backupMeta p)"
  unfolding logs_def
proof
  fix w
  obtain r w1 where mw: "backupMeta p w = (r, w1)" by (cases "backupMeta p w")
  from backupMeta_spec [OF mw] mw
  show "\<exists>es. trace (snd (backupMeta p w)) = trace w @ es
          \<and> (isl (fst (backupMeta p w)) \<or> \<not> list_ex rejected_select es)"
    by auto
qed

lemma logs_backup_if: "logs (backup_if b p)"
  by (auto simp: backup_if_def intro!: logs_bind logs_return logs_backupMeta)

lemma logs_write_schema: "logs (write_schema p k dt pv v b)"
  by (auto simp: logs_def write_schema_def update_meta_value_def insert_meta_def conn_execute_def
        io_bind_def io_catch_def io_return_def
      split: list.splits option.splits)

lemma logs_commit_schema: "logs (commit_schema p s dt ip b pv)"
  unfolding commit_schema_def
  by (intro logs_bind logs_convert logs_backup_if logs_write_schema)

lemma logs_insertSchema: "logs (insertSchema p s t opts)"
  unfolding insertSchema_def Let_def
  by (auto intro!: logs_bind logs_preview logs_return logs_commit_schema)

lemma logs_insert_each: "logs (insert_each p d i items)"
  by (induction items arbitrary: i)
     (auto intro!: logs_bind logs_return logs_throw logs_insertSchema)

lemma logs_insertMultipleSchemas: "logs (insertMultipleSchemas p items opts)"
  unfolding insertMultipleSchemas_def Let_def
  by (intro logs_bind logs_backup_if logs_insert_each logs_return)

lemma logs_insertFromGraph: "logs (insertFromGraph p g opts)"
  unfolding insertFromGraph_def Let_def
  by (auto split: jsv.splits intro!: logs_throw logs_return logs_insertMultipleSchemas)

lemma logs_delete_meta_like: "logs (delete_meta_like p k)"
  by (auto simp: logs_def delete_meta_like_def conn_execute_def io_bind_def
      split: list.splits option.splits)

lemma logs_deleteAllSchemas: "logs (deleteAllSchemas p opts)"
  unfolding deleteAllSchemas_def
  by (auto intro!: logs_bind logs_select_meta_like logs_return logs_backup_if logs_delete_meta_like)

lemma guarded_needs_backup:
  "guarded p False f es \<Longrightarrow> MemBackup p \<notin> set es \<Longrightarrow> \<not> list_ex is_write es"
proof (induction es arbitrary: f)
  case Nil
  then show ?case by simp
next
  case (Cons e es)
  then show ?case by (cases e) auto
qed

lemma backup_firstI:
  assumes "backed p m" and "logs m"
  shows "backup_first p w m"
proof -
  from assms(1) obtain es where es: "trace (snd (m w)) = trace w @ es" "guarded p False False es"
      "MemBackup p \<in> set es \<longrightarrow>
         (\<exists>b. map_of (backups (snd (m w))) p = Some b \<and> bk_schemas b = snapshot p (postmeta w))"
    by (auto simp: backed_def dest!: spec [of _ w])
  from assms(2) obtain es' where es': "trace (snd (m w)) = trace w @ es'"
      "isl (fst (m w)) \<or> \<not> list_ex rejected_select es'"
    by (auto simp: logs_def dest!: spec [of _ w])
  from es(1) es'(1) have "es' = es" by simp
  with es es' guarded_needs_backup [OF es(2)] show ?thesis
    by (auto simp: backup_first_def new_events_def)
qed

text \<open>A read rejected at the second entity of a graph: the call throws, after the first
  entity was written.\<close>

lemma later_read_rejected_after_write:
  "fst (insertFromGraph 7 graph1 commit_options
          (store0\<lparr>faults := [None, None, None, None, Some ''boom'']\<rparr>))
     = Inl (StoreError ''boom'')
   \<and> trace (snd (insertFromGraph 7 graph1 commit_options
          (store0\<lparr>faults := [None, None, None, None, Some ''boom'']\<rparr>)))
     = [Exec SELECT None, MemBackup 7, FileWrite True, Exec SELECT None, Exec SELECT None,
        Exec INSERT None, Exec SELECT (Some ''boom'')]
   \<and> map meta_key (postmeta (snd (insertFromGraph 7 graph1 commit_options
          (store0\<lparr>faults := [None, None, None, None, Some ''boom'']\<rparr>))))
     = [''rank_math_title'', ''rank_math_schema_FAQPage'', ''rank_math_schema_Article'']"
  by code_simp

text \<open>
  C5 does not hold as stated: a backup that fails to reach the file is swallowed.
  \<open>saveBackupsToFile\<close> catches the error of \<open>writeFileSync\<close> and only logs it, so on a
  disk that rejects the write a committed \<open>insertSchema\<close> with the default \<open>backup: true\<close>
  still sends its \<open>INSERT\<close>, reports success and \<open>canRollback: true\<close>, and leaves no
  backups file.
\<close>

theorem insertSchema_proceeds_without_backup_file:
  "fst (insertSchema 7 service1 JNull commit_options failing_disk)
     = Inr (JObj
        [(''success'', JBool True), (''action'', JStr ''INSERT''),
         (''postId'', JNum 7),
         (''metaKey'', JStr ''rank_math_schema_Service''),
         (''schemaType'', JStr ''Service''), (''metaId'', JNum 3),
         (''message'', JStr ''Inserted new Service schema (meta ID: 3)''),
         (''canRollback'', JBool True)])
   \<and> trace (snd (insertSchema 7 service1 JNull commit_options failing_disk))
     = [Exec SELECT None, Exec SELECT None, Exec SELECT None, MemBackup 7, FileWrite False,
        Exec INSERT None]
   \<and> backups_file (snd (insertSchema 7 service1 JNull commit_options failing_disk)) = None"
  by code_simp

text \<open>
  C5, amended. When backup is requested (the default), in every run of insertSchema,
  insertMultipleSchemas, insertFromGraph and deleteAllSchemas, from every store and under
  every plan of store and disk failures: each \<open>INSERT\<close>, \<open>UPDATE\<close> or \<open>DELETE\<close> is sent
  only after the snapshot of the post was put into the in-memory backups and after the
  attempt to write the backups file (which may have failed); a run that did not get as far
  as the snapshot, because its read or an earlier one was rejected, sends no write at all;
  when the post was backed up, the in-memory backup holds all its \<open>rank_math\<close> rows as they
  were when the call started; and every rejected read makes the call throw. A read that is
  rejected after the snapshot (in \<open>insertMultipleSchemas\<close> and \<open>insertFromGraph\<close>, the
  preview of a later entity) is thrown too, and the rows written before it stay.
\<close>

theorem backup_precedes_write:
  assumes "o_backup opts \<noteq> Some False"
  shows "backup_first p w (insertSchema p s t opts)
       \<and> backup_first p w (insertMultipleSchemas p items opts)
       \<and> backup_first p w (insertFromGraph p g opts)
       \<and> backup_first p w (deleteAllSchemas p opts)"
  by (intro conjI backup_firstI backed_insertSchema backed_insertMultipleSchemas
        backed_insertFromGraph backed_deleteAllSchemas logs_insertSchema
        logs_insertMultipleSchemas logs_insertFromGraph logs_deleteAllSchemas assms)

theorem backup_precedes_write_witness:
  "o_backup commit_options \<noteq> Some False
   \<and> guarded 7 False False (trace (snd (insertFromGraph 7 graph1 commit_options store0)))
   \<and> MemBackup 7 \<in> set (trace (snd (insertFromGraph 7 graph1 commit_options store0)))
   \<and> map_option bk_schemas (map_of (backups (snd (deleteAllSchemas 7 commit_options store0))) 7)
     = Some (snapshot 7 (postmeta store0))
   \<and> trace (snd (deleteAllSchemas 7 commit_options store0))
     = [Exec SELECT None, Exec SELECT None, MemBackup 7, FileWrite True, Exec DELETE None]"
proof -
  have a: "o_backup commit_options \<noteq> Some False"
    by (simp add: commit_options_def)
  have e: "trace store0 = []"
    by (simp add: store0_def)
  have t: "trace (snd (deleteAllSchemas 7 commit_options store0))
     = [Exec SELECT None, Exec SELECT None, MemBackup 7, FileWrite True, Exec DELETE None]"
    by code_simp
  have g: "list_ex is_write (trace (snd (insertFromGraph 7 graph1 commit_options store0)))"
    by code_simp
  show ?thesis
    using backup_precedes_write [OF a, of 7 store0 service1 JNull "[]" graph1]
    by (simp add: backup_first_def new_events_def a e t g)
qed

section \<open>Safe mutation store: the rollback law\<close>

text \<open>The schema rows of a post, as keys and serialised values, in table order.\<close>

definition schema_rows :: "nat \<Rightarrow> meta_row list \<Rightarrow> (string \<times> string) list" where
  "schema_rows p rows =
     map (\<lambda>r. (meta_key r, meta_value r))
       (filter (\<lambda>r. post_id r = p \<and> starts_with (meta_key r) ''rank_math_schema_'') rows)"

text \<open>The rows of a post that the store's statements treat as its schema rows: those whose
  key is \<open>LIKE 'rank_math_schema_%'\<close>, which \<open>deleteAllSchemas\<close> lists and the \<open>DELETE\<close> of
  \<open>rollback\<close> removes. The underscores of the pattern are wildcards.\<close>

definition matched_rows :: "nat \<Rightarrow> meta_row list \<Rightarrow> (string \<times> string) list" where
  "matched_rows p rows =
     map (\<lambda>r. (meta_key r, meta_value r))
       (filter (\<lambda>r. post_id r = p \<and> sql_like ''rank_math_schema_%'' (meta_key r)) rows)"

text \<open>The rows among them that match through a wildcard only, such as
  \<open>rank_math_schemas\<close>: \<open>rollback\<close> deletes them and its \<open>startsWith\<close> test does not
  restore them.\<close>

definition wildcard_rows :: "nat \<Rightarrow> meta_row list \<Rightarrow> meta_row list" where
  "wildcard_rows p rows =
     filter (\<lambda>r. post_id r = p \<and> sql_like ''rank_math_schema_%'' (meta_key r)
                 \<and> \<not> starts_with (meta_key r) ''rank_math_schema_'') rows"

text \<open>The rows that the \<open>DELETE\<close> of \<open>rollback\<close> leaves alone.\<close>

definition kept_rows :: "nat \<Rightarrow> meta_row list \<Rightarrow> meta_row list" where
  "kept_rows p rows =
     filter (\<lambda>r. \<not> (post_id r = p \<and> sql_like ''rank_math_schema_%'' (meta_key r))) rows"

text \<open>The in-memory backup of post \<open>p\<close> is the snapshot of the rows \<open>rows0\<close>.\<close>

definition has_backup :: "nat \<Rightarrow> meta_row list \<Rightarrow> world \<Rightarrow> bool" where
  "has_backup p rows0 w =
     (map_option bk_schemas (map_of (backups w) p) = Some (snapshot p rows0))"

text \<open>Before the write: the table is \<open>rows0\<close> and its snapshot is backed up.\<close>

definition held :: "nat \<Rightarrow> meta_row list \<Rightarrow> world \<Rightarrow> bool" where
  "held p rows0 w = (postmeta w = rows0 \<and> has_backup p rows0 w)"

text \<open>After the write: only rows that \<open>rollback\<close> deletes have changed, and the snapshot of
  \<open>rows0\<close> is still backed up.\<close>

definition safe :: "nat \<Rightarrow> meta_row list \<Rightarrow> world \<Rightarrow> bool" where
  "safe p rows0 w = (kept_rows p (postmeta w) = kept_rows p rows0 \<and> has_backup p rows0 w)"

text \<open>From a world satisfying \<open>P\<close> the method ends, normally or by throwing, in a world
  satisfying \<open>Q\<close>.\<close>

definition hoare :: "(world \<Rightarrow> bool) \<Rightarrow> 'a io \<Rightarrow> (world \<Rightarrow> bool) \<Rightarrow> bool" where
  "hoare P m Q = (\<forall>w. P w \<longrightarrow> Q (snd (m w)))"

text \<open>An FAQPage entity, to replace the one stored for post 7.\<close>

definition faq1 :: jsv where
  "faq1 = JObj [(''@type'', JStr ''FAQPage''), (''mainEntity'', JArr [])]"

text \<open>The example store with one more row of post 7, whose key the pattern matches
  through its last underscore.\<close>

definition store1 :: world where
  "store1 = store0\<lparr>postmeta := postmeta store0 @
               [\<lparr>meta_id = 3, post_id = 7, meta_key = ''rank_math_schemas'', meta_value = ''on''\<rparr>],
             next_meta_id := 4\<rparr>"

lemma sql_like_any: "sql_like ''%'' k"
  by (induction k) auto

lemma sql_like_prefix:
  "CHR ''%'' \<notin> set pre \<Longrightarrow> starts_with k pre \<Longrightarrow> sql_like (pre @ ''%'') k"
proof (induction pre arbitrary: k)
  case Nil
  then show ?case by (simp add: sql_like_any)
next
  case (Cons a as)
  then show ?case by (cases k) auto
qed

lemma starts_with_append: "starts_with k (a @ b) \<Longrightarrow> starts_with k a"
proof (induction a arbitrary: k)
  case Nil
  then show ?case by simp
next
  case (Cons x xs)
  then show ?case by (cases k) auto
qed

lemma schema_key_like:
  assumes "starts_with k ''rank_math_schema_''"
  shows "sql_like ''rank_math_schema_%'' k" and "sql_like ''rank_math%'' k"
proof -
  show "sql_like ''rank_math_schema_%'' k"
    using sql_like_prefix [of "''rank_math_schema_''" k] assms by simp
  have "starts_with k ''rank_math''"
    using starts_with_append [of k "''rank_math''" "''_schema_''"] assms by simp
  then show "sql_like ''rank_math%'' k"
    using sql_like_prefix [of "''rank_math''" k] by simp
qed

lemma starts_with_self: "starts_with (a @ b) a"
  by (induction a) auto

lemma held_safe: "held p rows0 w \<Longrightarrow> safe p rows0 w"
  by (simp add: held_def safe_def)

lemma hoare_bind:
  assumes "hoare P m R" and "\<And>x. hoare R (f x) Q" and "\<And>w. R w \<Longrightarrow> Q w"
  shows "hoare P (io_bind m f) Q"
  unfolding hoare_def
proof (intro allI impI)
  fix w
  assume "P w"
  with assms(1) have r: "R (snd (m w))" by (simp add: hoare_def)
  obtain a w1 where mw: "m w = (a, w1)" by (cases "m w")
  show "Q (snd (io_bind m f w))"
  proof (cases a)
    case (Inl e)
    with mw r assms(3) show ?thesis by (simp add: io_bind_def)
  next
    case (Inr x)
    with mw r assms(2) [of x] show ?thesis by (simp add: io_bind_def hoare_def)
  qed
qed

lemma hoare_return: "(\<And>w. P w \<Longrightarrow> Q w) \<Longrightarrow> hoare P (io_return x) Q"
  by (simp add: hoare_def io_return_def)

lemma hoare_ro_held: "ro m \<Longrightarrow> hoare (held p rows0) m (held p rows0)"
  by (auto simp: hoare_def ro_def read_only_def held_def has_backup_def dest!: spec)

lemma hoare_backup_if: "hoare (held p rows0) (backup_if b p) (held p rows0)"
  unfolding hoare_def
proof (intro allI impI)
  fix w
  assume h: "held p rows0 w"
  obtain r w1 where mw: "backupMeta p w = (r, w1)" by (cases "backupMeta p w")
  from backupMeta_spec [OF mw] h have "held p rows0 w1"
    by (auto simp: held_def has_backup_def)
  with h mw show "held p rows0 (snd (backup_if b p w))"
    by (auto simp: backup_if_def io_bind_def io_return_def split: sum.splits)
qed

lemma kept_rows_update:
  assumes "sql_like ''rank_math_schema_%'' k"
  shows "kept_rows p (map (\<lambda>r. if post_id r = p \<and> meta_key r = k then r\<lparr>meta_value := v\<rparr> else r) rows)
         = kept_rows p rows"
  using assms by (induction rows) (auto simp: kept_rows_def)

lemma hoare_write_schema:
  assumes "starts_with k ''rank_math_schema_''"
  shows "hoare (held p rows0) (write_schema p k dt pv v b) (safe p rows0)"
proof -
  note l = schema_key_like(1) [OF assms]
  have "kept_rows p (rows @ [\<lparr>meta_id = i, post_id = p, meta_key = k, meta_value = v\<rparr>]) = kept_rows p rows"
    for rows i
    using l by (simp add: kept_rows_def)
  then show ?thesis
    using kept_rows_update [OF l, of p v]
    by (auto simp: hoare_def held_def safe_def has_backup_def write_schema_def update_meta_value_def
          insert_meta_def conn_execute_def io_bind_def io_catch_def io_return_def
        split: list.splits option.splits)
qed

lemma hoare_commit_schema: "hoare (held p rows0) (commit_schema p s dt ip b pv) (safe p rows0)"
  unfolding commit_schema_def
  by (intro hoare_bind [where R = "held p rows0"] hoare_ro_held ro_convert hoare_backup_if
        hoare_write_schema starts_with_self held_safe)

lemma hoare_insertSchema: "hoare (held p rows0) (insertSchema p s t opts) (safe p rows0)"
  unfolding insertSchema_def Let_def
  by (rule hoare_bind [where R = "held p rows0"])
     (auto intro!: hoare_ro_held ro_preview hoare_return hoare_commit_schema held_safe)

lemma restore_each_rows:
  "restore_each p ms w = (Inr u, w') \<Longrightarrow>
     backups w' = backups w \<and>
     (\<exists>rows. postmeta w' = postmeta w @ rows
        \<and> map (\<lambda>r. (post_id r, meta_key r, meta_value r)) rows
          = map (\<lambda>m. (p, sm_key m, sm_value m))
              (filter (\<lambda>m. starts_with (sm_key m) ''rank_math_schema_'') ms))"
proof (induction ms arbitrary: w)
  case Nil
  then show ?case by (simp add: io_return_def)
next
  case (Cons m ms)
  show ?case
  proof (cases "starts_with (sm_key m) ''rank_math_schema_''")
    case False
    with Cons show ?thesis by simp
  next
    case True
    with Cons.prems have "io_bind (insert_meta p (sm_key m) (sm_value m)) (\<lambda>_. restore_each p ms) w = (Inr u, w')"
      by simp
    then obtain x w1 where i: "insert_meta p (sm_key m) (sm_value m) w = (Inr x, w1)"
        and r: "restore_each p ms w1 = (Inr u, w')"
      by (rule io_bindE) auto
    from i have w1: "backups w1 = backups w"
        "postmeta w1 = postmeta w @ [\<lparr>meta_id = next_meta_id w, post_id = p, meta_key = sm_key m, meta_value = sm_value m\<rparr>]"
      by (auto simp: insert_meta_def conn_execute_def io_bind_def split: list.splits option.splits)
    from Cons.IH [OF r] obtain rows where rows: "backups w' = backups w1" "postmeta w' = postmeta w1 @ rows"
        "map (\<lambda>r. (post_id r, meta_key r, meta_value r)) rows
          = map (\<lambda>m. (p, sm_key m, sm_value m))
              (filter (\<lambda>m. starts_with (sm_key m) ''rank_math_schema_'') ms)"
      by auto
    with w1 True show ?thesis
      by (auto intro!: exI [of _ "\<lparr>meta_id = next_meta_id w, post_id = p, meta_key = sm_key m, meta_value = sm_value m\<rparr> # rows"])
  qed
qed

lemma schema_rows_append: "schema_rows p (a @ b) = schema_rows p a @ schema_rows p b"
  by (simp add: schema_rows_def)

lemma kept_rows_append: "kept_rows p (a @ b) = kept_rows p a @ kept_rows p b"
  by (simp add: kept_rows_def)

lemma schema_rows_kept: "schema_rows p (kept_rows p rows) = []"
  by (induction rows) (auto simp: schema_rows_def kept_rows_def schema_key_like(1))

lemma kept_rows_kept: "kept_rows p (kept_rows p rows) = kept_rows p rows"
  by (simp add: kept_rows_def)

lemma restored_rows:
  "map (\<lambda>r. (post_id r, meta_key r, meta_value r)) rows
     = map (\<lambda>m. (p, sm_key m, sm_value m)) (filter (\<lambda>m. starts_with (sm_key m) ''rank_math_schema_'') ms)
   \<Longrightarrow> kept_rows p rows = []
       \<and> schema_rows p rows
         = map (\<lambda>m. (sm_key m, sm_value m)) (filter (\<lambda>m. starts_with (sm_key m) ''rank_math_schema_'') ms)"
proof (induction ms arbitrary: rows)
  case Nil
  then show ?case by (simp add: kept_rows_def schema_rows_def)
next
  case (Cons m ms)
  show ?case
  proof (cases "starts_with (sm_key m) ''rank_math_schema_''")
    case False
    with Cons show ?thesis by simp
  next
    case True
    with Cons.prems obtain r rs where rows: "rows = r # rs" by (cases rows) auto
    with True Cons.prems have r: "post_id r = p" "meta_key r = sm_key m" "meta_value r = sm_value m"
        and rs: "map (\<lambda>r. (post_id r, meta_key r, meta_value r)) rs
          = map (\<lambda>m. (p, sm_key m, sm_value m)) (filter (\<lambda>m. starts_with (sm_key m) ''rank_math_schema_'') ms)"
      by auto
    from Cons.IH [OF rs] rows r True show ?thesis
      by (auto simp: kept_rows_def schema_rows_def schema_key_like(1))
  qed
qed

lemma snapshot_schema_rows:
  "map (\<lambda>m. (sm_key m, sm_value m))
     (filter (\<lambda>m. starts_with (sm_key m) ''rank_math_schema_'') (snapshot p rows))
   = schema_rows p rows"
  by (induction rows) (auto simp: snapshot_def schema_rows_def schema_key_like(2))

lemma restored_as:
  "map (\<lambda>r. (post_id r, meta_key r, meta_value r)) rows = map (\<lambda>(k, v). (p, k, v)) kvs
   \<Longrightarrow> list_all (\<lambda>(k, v). starts_with k ''rank_math_schema_'') kvs
   \<Longrightarrow> kept_rows p rows = [] \<and> wildcard_rows p rows = []
       \<and> schema_rows p rows = kvs \<and> matched_rows p rows = kvs"
proof (induction kvs arbitrary: rows)
  case Nil
  then show ?case by (simp add: kept_rows_def wildcard_rows_def schema_rows_def matched_rows_def)
next
  case (Cons kv kvs)
  obtain k v where kv: "kv = (k, v)" by (cases kv)
  from Cons.prems(1) obtain r rs where rows: "rows = r # rs" by (cases rows) auto
  with kv Cons.prems have r: "post_id r = p" "meta_key r = k" "meta_value r = v"
      "starts_with k ''rank_math_schema_''"
      and rs: "map (\<lambda>r. (post_id r, meta_key r, meta_value r)) rs = map (\<lambda>(k, v). (p, k, v)) kvs"
        "list_all (\<lambda>(k, v). starts_with k ''rank_math_schema_'') kvs"
    by auto
  from Cons.IH [OF rs] rows r kv show ?case
    by (auto simp: kept_rows_def wildcard_rows_def schema_rows_def matched_rows_def schema_key_like(1))
qed

lemma schema_rows_keys: "list_all (\<lambda>(k, v). starts_with k ''rank_math_schema_'') (schema_rows p rows)"
  by (induction rows) (auto simp: schema_rows_def)

lemma wildcard_rows_append: "wildcard_rows p (a @ b) = wildcard_rows p a @ wildcard_rows p b"
  by (simp add: wildcard_rows_def)

lemma matched_rows_append: "matched_rows p (a @ b) = matched_rows p a @ matched_rows p b"
  by (simp add: matched_rows_def)

lemma wildcard_rows_kept: "wildcard_rows p (kept_rows p rows) = []"
  by (induction rows) (auto simp: wildcard_rows_def kept_rows_def)

lemma matched_rows_kept: "matched_rows p (kept_rows p rows) = []"
  by (induction rows) (auto simp: matched_rows_def kept_rows_def)

lemma matched_rows_length:
  "length (matched_rows p rows) = length (schema_rows p rows) + length (wildcard_rows p rows)"
  by (induction rows) (auto simp: matched_rows_def schema_rows_def wildcard_rows_def schema_key_like(1))

lemma matched_rows_schema:
  "wildcard_rows p rows = [] \<Longrightarrow> matched_rows p rows = schema_rows p rows"
proof (induction rows)
  case Nil
  then show ?case by (simp add: matched_rows_def schema_rows_def)
next
  case (Cons r rows)
  then show ?case
    by (auto simp: matched_rows_def schema_rows_def wildcard_rows_def schema_key_like(1)
        split: if_splits)
qed

lemma matched_rows_iff:
  "(schema_rows p rows = matched_rows p rows) = (wildcard_rows p rows = [])"
proof
  assume "schema_rows p rows = matched_rows p rows"
  then have "length (schema_rows p rows) = length (matched_rows p rows)" by simp
  then show "wildcard_rows p rows = []" by (simp add: matched_rows_length)
next
  assume "wildcard_rows p rows = []"
  then show "schema_rows p rows = matched_rows p rows" by (simp add: matched_rows_schema)
qed

lemma rollback_safe:
  assumes "safe p rows0 w" and "rollback p w = (Inr rb, w')"
  shows "get rb ''success'' = JBool True
       \<and> (\<exists>rows. postmeta w' = kept_rows p rows0 @ rows
             \<and> map (\<lambda>r. (post_id r, meta_key r, meta_value r)) rows
               = map (\<lambda>(k, v). (p, k, v)) (schema_rows p rows0))"
proof -
  from assms(1) obtain b where b: "map_of (backups w) p = Some b" "bk_schemas b = snapshot p rows0"
      and k: "kept_rows p (postmeta w) = kept_rows p rows0"
    by (auto simp: safe_def has_backup_def)
  let ?rest = "io_bind (restore_each p (bk_schemas b))
                 (\<lambda>_. io_return (JObj
                    [(''success'', JBool True),
                     (''postId'', JNum (int p)),
                     (''restored'', JNum (int (length (filter (\<lambda>m. starts_with (sm_key m) ''rank_math_schema_'')
                                                         (bk_schemas b))))),
                     (''backupTimestamp'', JNum (int (bk_timestamp b))),
                     (''message'', JStr ''Rolled back to previous state'')]))"
  from assms(2) b have "io_bind (delete_meta_like p ''rank_math_schema_%'') (\<lambda>_. ?rest) w = (Inr rb, w')"
    by (simp add: rollback_def io_bind_def io_get_def)
  then obtain x w1 where d: "delete_meta_like p ''rank_math_schema_%'' w = (Inr x, w1)"
      and r: "?rest w1 = (Inr rb, w')"
    by (rule io_bindE) auto
  from d have w1: "postmeta w1 = kept_rows p (postmeta w)"
    by (auto simp: delete_meta_like_def conn_execute_def io_bind_def kept_rows_def
        split: list.splits option.splits)
  from r obtain u w2 where e: "restore_each p (bk_schemas b) w1 = (Inr u, w2)"
      and f: "io_return (JObj
                    [(''success'', JBool True),
                     (''postId'', JNum (int p)),
                     (''restored'', JNum (int (length (filter (\<lambda>m. starts_with (sm_key m) ''rank_math_schema_'')
                                                         (bk_schemas b))))),
                     (''backupTimestamp'', JNum (int (bk_timestamp b))),
                     (''message'', JStr ''Rolled back to previous state'')]) w2 = (Inr rb, w')"
    by (rule io_bindE) auto
  from f have rb: "get rb ''success'' = JBool True" and w2: "w' = w2"
    by (auto simp: io_return_def)
  from restore_each_rows [OF e] obtain rows where rows: "postmeta w2 = postmeta w1 @ rows"
      "map (\<lambda>r. (post_id r, meta_key r, meta_value r)) rows
          = map (\<lambda>m. (p, sm_key m, sm_value m))
              (filter (\<lambda>m. starts_with (sm_key m) ''rank_math_schema_'') (bk_schemas b))"
    by auto
  have "map (\<lambda>m. (p, sm_key m, sm_value m))
              (filter (\<lambda>m. starts_with (sm_key m) ''rank_math_schema_'') (snapshot p rows0))
        = map (\<lambda>(k, v). (p, k, v)) (schema_rows p rows0)"
    unfolding snapshot_schema_rows [of p rows0, symmetric] by (simp add: comp_def)
  with rows b(2) have "map (\<lambda>r. (post_id r, meta_key r, meta_value r)) rows
               = map (\<lambda>(k, v). (p, k, v)) (schema_rows p rows0)"
    by simp
  with rows(1) w1 w2 k rb show ?thesis
    by auto
qed

text \<open>
  C4, as the code has it. If \<open>backupMeta\<close>, then \<open>insertSchema\<close> (committed or not, with or
  without its own backup), then \<open>rollback\<close> of the same post each return, the rollback
  reports success and the table is: the rows that the \<open>DELETE\<close> of \<open>rollback\<close> does not
  match, exactly as they were before the write (those of other posts among them), followed
  by new rows of the post that carry the keys and serialised values, in order, of its
  former rows whose key starts with \<open>rank_math_schema_\<close>. So those rows are restored; a
  former row that the pattern matched through a wildcard only is gone; and the rows the
  store treats as the schema rows of the post are the former ones exactly when there was
  no such row.
\<close>

theorem rollback_restores_schema_rows:
  assumes "backupMeta p w0 = (Inr b, w1)"
      and "insertSchema p s t opts w1 = (Inr r, w2)"
      and "rollback p w2 = (Inr rb, w3)"
  shows "get rb ''success'' = JBool True
       \<and> (\<exists>rows. postmeta w3 = kept_rows p (postmeta w0) @ rows
             \<and> map (\<lambda>r. (post_id r, meta_key r, meta_value r)) rows
               = map (\<lambda>(k, v). (p, k, v)) (schema_rows p (postmeta w0)))
       \<and> schema_rows p (postmeta w3) = schema_rows p (postmeta w0)
       \<and> kept_rows p (postmeta w3) = kept_rows p (postmeta w0)
       \<and> wildcard_rows p (postmeta w3) = []
       \<and> (matched_rows p (postmeta w3) = matched_rows p (postmeta w0))
         = (wildcard_rows p (postmeta w0) = [])"
proof -
  from backupMeta_spec [OF assms(1)] have "held p (postmeta w0) w1"
    by (auto simp: held_def has_backup_def)
  with hoare_insertSchema [of p "postmeta w0" s t opts] assms(2) have "safe p (postmeta w0) w2"
    by (auto simp: hoare_def dest!: spec [of _ w1])
  from rollback_safe [OF this assms(3)] obtain rows where rb: "get rb ''success'' = JBool True"
      and rows: "postmeta w3 = kept_rows p (postmeta w0) @ rows"
        "map (\<lambda>r. (post_id r, meta_key r, meta_value r)) rows
           = map (\<lambda>(k, v). (p, k, v)) (schema_rows p (postmeta w0))"
    by auto
  note new = restored_as [OF rows(2) schema_rows_keys]
  from rows(1) new have "schema_rows p (postmeta w3) = schema_rows p (postmeta w0)"
      "kept_rows p (postmeta w3) = kept_rows p (postmeta w0)"
      "wildcard_rows p (postmeta w3) = []"
      "matched_rows p (postmeta w3) = schema_rows p (postmeta w0)"
    by (simp_all add: schema_rows_append kept_rows_append wildcard_rows_append matched_rows_append
          schema_rows_kept kept_rows_kept wildcard_rows_kept matched_rows_kept)
  with rb rows show ?thesis
    by (auto simp: matched_rows_iff)
qed

theorem rollback_restores_schema_rows_witness:
  "schema_rows 7 (postmeta store0) = [(''rank_math_schema_FAQPage'', ''old'')]
   \<and> schema_rows 7 (postmeta (snd (insertSchema 7 faq1 JNull commit_options (snd (backupMeta 7 store0)))))
     = [(''rank_math_schema_FAQPage'',
         phpSerialize (JObj [(''metadata'', JObj [(''type'', JStr ''custom''), (''title'', JStr ''FAQPage'')]),
                             (''@type'', JStr ''FAQPage''), (''mainEntity'', JArr [])]))]
   \<and> schema_rows 7 (postmeta (snd (rollback 7
        (snd (insertSchema 7 faq1 JNull commit_options (snd (backupMeta 7 store0)))))))
     = [(''rank_math_schema_FAQPage'', ''old'')]
   \<and> matched_rows 7 (postmeta (snd (rollback 7
        (snd (insertSchema 7 faq1 JNull commit_options (snd (backupMeta 7 store0)))))))
     = matched_rows 7 (postmeta store0)"
proof -
  have run: "x = (Inr (projr (fst x)), snd x)" if "\<not> isl (fst x)"
    for x :: "(failure + jsv) \<times> world"
    using that by (cases x; cases "fst x") auto
  have a: "\<not> isl (fst (backupMeta 7 store0))"
    by code_simp
  have b: "\<not> isl (fst (insertSchema 7 faq1 JNull commit_options (snd (backupMeta 7 store0))))"
    by code_simp
  have c: "\<not> isl (fst (rollback 7 (snd (insertSchema 7 faq1 JNull commit_options (snd (backupMeta 7 store0))))))"
    by code_simp
  have d: "schema_rows 7 (postmeta store0) = [(''rank_math_schema_FAQPage'', ''old'')]"
    by code_simp
  have e: "schema_rows 7 (postmeta (snd (insertSchema 7 faq1 JNull commit_options (snd (backupMeta 7 store0)))))
     = [(''rank_math_schema_FAQPage'',
         phpSerialize (JObj [(''metadata'', JObj [(''type'', JStr ''custom''), (''title'', JStr ''FAQPage'')]),
                             (''@type'', JStr ''FAQPage''), (''mainEntity'', JArr [])]))]"
    by code_simp
  have f: "wildcard_rows 7 (postmeta store0) = []"
    by code_simp
  show ?thesis
    using rollback_restores_schema_rows [OF run [OF a] run [OF b] run [OF c]]
    by (simp add: d e f)
qed

text \<open>
  C4 does not hold of the code when the post has a row such as \<open>rank_math_schemas\<close>. The
  store counts it among the schema rows of the post (\<open>deleteAllSchemas\<close> lists it, the
  \<open>DELETE\<close> of \<open>rollback\<close> matches it) and the backup holds it, but \<open>rollback\<close> restores only
  the keys that start with \<open>rank_math_schema_\<close>: after backup, a committed insert and a
  successful rollback the row is gone.
\<close>

theorem rollback_loses_wildcard_row:
  "matched_rows 7 (postmeta store1)
     = [(''rank_math_schema_FAQPage'', ''old''), (''rank_math_schemas'', ''on'')]
   \<and> get (projr (fst (deleteAllSchemas 7 no_db_options store1))) ''schemas''
     = JArr [JStr ''rank_math_schema_FAQPage'', JStr ''rank_math_schemas'']
   \<and> map_option (\<lambda>b. map sm_key (bk_schemas b))
        (map_of (backups (snd (insertSchema 7 faq1 JNull commit_options (snd (backupMeta 7 store1))))) 7)
     = Some [''rank_math_title'', ''rank_math_schema_FAQPage'', ''rank_math_schemas'']
   \<and> fst (rollback 7 (snd (insertSchema 7 faq1 JNull commit_options (snd (backupMeta 7 store1)))))
     = Inr (JObj [(''success'', JBool True), (''postId'', JNum 7), (''restored'', JNum 1),
                  (''backupTimestamp'', JNum 101),
                  (''message'', JStr ''Rolled back to previous state'')])
   \<and> map (\<lambda>r. (post_id r, meta_key r, meta_value r))
        (postmeta (snd (rollback 7
           (snd (insertSchema 7 faq1 JNull commit_options (snd (backupMeta 7 store1)))))))
     = [(7, ''rank_math_title'', ''T''), (7, ''rank_math_schema_FAQPage'', ''old'')]"
  by code_simp

end
